(* ===== verification/Prelude.thy ===== *)
theory Prelude
  imports Complex_Main "HOL-Library.Sublist"
begin

text \<open>
  Shared vocabulary of the development. Python's \<open>str\<close> is modelled as
  \<^typ>\<open>string\<close> (one HOL character per code point, which covers inputs whose
  code points are below 256). This theory holds the collection of model
  equations the component proofs unfold, Python's truthiness of an optional
  string, the builtin \<open>str.split\<close> with its inverse \<open>str.join\<close>, and generic
  facts on sublists of concatenations used by the message-formatting proofs.
\<close>

named_theorems model_simps "equations of the model's operations unfolded by component proofs"

type_synonym pystr = string

subsection \<open>Truthiness\<close>

text \<open>
  \<open>all([a, b, c])\<close> on values of type \<open>Optional[str]\<close>: \<open>None\<close> and the empty
  string are false, every other string is true.
\<close>

fun py_truthy :: "pystr option \<Rightarrow> bool" where
  "py_truthy None = False"
| "py_truthy (Some s) = (s \<noteq> [])"

subsection \<open>str.split and str.join on a one-character separator\<close>

text \<open>
  \<open>s.split(c)\<close> cuts at every occurrence of \<open>c\<close>; it never returns the empty
  list (\<open>''.split(',') == ['']\<close>) and keeps empty pieces. \<open>c.join(ws)\<close> puts
  \<open>c\<close> between consecutive pieces.
\<close>

fun py_split :: "char \<Rightarrow> pystr \<Rightarrow> pystr list" where
  "py_split c [] = [[]]"
| "py_split c (x # xs) =
     (if x = c then [] # py_split c xs
      else (case py_split c xs of [] \<Rightarrow> [[x]] | w # ws \<Rightarrow> (x # w) # ws))"

fun py_join :: "char \<Rightarrow> pystr list \<Rightarrow> pystr" where
  "py_join c [] = []"
| "py_join c [w] = w"
| "py_join c (w # v # ws) = w @ c # py_join c (v # ws)"

lemma py_split_nonempty [simp]: "py_split c s \<noteq> []"
  by (induction s) (auto split: list.splits)

lemma py_join_Cons_split:
  "py_join c ((x # w) # ws) = x # py_join c (w # ws)"
  by (cases ws) simp_all

lemma py_join_split [simp]: "py_join c (py_split c s) = s"
proof (induction s)
  case Nil
  then show ?case by simp
next
  case (Cons x xs)
  show ?case
  proof (cases "x = c")
    case True
    with Cons.IH show ?thesis
      by (cases "py_split c xs") simp_all
  next
    case False
    then obtain w ws where "py_split c xs = w # ws"
      by (cases "py_split c xs") simp_all
    with False Cons.IH show ?thesis
      by (simp add: py_join_Cons_split)
  qed
qed

lemma py_split_pieces: "w \<in> set (py_split c s) \<Longrightarrow> c \<notin> set w"
proof (induction s arbitrary: w)
  case Nil
  then show ?case by simp
next
  case (Cons x xs)
  then show ?case
    by (cases "py_split c xs") (auto split: if_splits)
qed

lemma py_split_no_sep: "c \<notin> set s \<Longrightarrow> py_split c s = [s]"
  by (induction s) auto

lemma py_split_append_sep:
  "c \<notin> set w \<Longrightarrow> py_split c (w @ c # s) = w # py_split c s"
  by (induction w) auto

lemma py_split_snoc_sep: "py_split c (s @ [c]) = py_split c s @ [[]]"
  by (induction s) (auto split: list.split)

lemma py_split_replicate_sep:
  "py_split c (s @ replicate n c) = py_split c s @ replicate n []"
proof (induction n arbitrary: s)
  case 0
  then show ?case by simp
next
  case (Suc n)
  have "s @ replicate (Suc n) c = (s @ [c]) @ replicate n c" by (simp add: replicate_app_Cons_same)
  then show ?case using Suc.IH [of "s @ [c]"] by (simp add: py_split_snoc_sep replicate_app_Cons_same)
qed

lemma dropWhile_replicate_append: "P c \<Longrightarrow> dropWhile P (replicate n c @ t) = dropWhile P t"
  by (induction n) simp_all

lemma py_split_join:
  "ws \<noteq> [] \<Longrightarrow> \<forall>w\<in>set ws. c \<notin> set w \<Longrightarrow> py_split c (py_join c ws) = ws"
proof (induction c ws rule: py_join.induct)
  case (1 c)
  then show ?case by simp
next
  case (2 c w)
  then show ?case by (simp add: py_split_no_sep)
next
  case (3 c w v ws)
  then show ?case by (simp add: py_split_append_sep)
qed

subsection \<open>Sublists of concatenations\<close>

lemma sublist_concatI: "w \<in> set ws \<Longrightarrow> sublist w (concat ws)"
proof (induction ws)
  case Nil
  then show ?case by simp
next
  case (Cons v vs)
  then show ?case
    by (auto intro: sublist_order.order_trans)
qed

lemma sublist_concat_mono:
  "sublist u w \<Longrightarrow> w \<in> set ws \<Longrightarrow> sublist u (concat ws)"
  by (rule sublist_order.order_trans [OF _ sublist_concatI])

end
