(* ===== verification/Entities.thy ===== *)
theory Entities
  imports Prelude
begin

text \<open>
  Domain layer (src/backend/domain/entities): the \<open>Project\<close> entity with the
  pydantic validation it undergoes when constructed (its \<open>HttpUrl\<close> fields are
  checked and normalised), and the values and error kinds of pydantic's
  validation shared by the entities. The \<open>ContactMessage\<close> entity is in
  theory Contact.
\<close>

subsection \<open>Pydantic validation errors\<close>

text \<open>
  The error types pydantic reports for the fields of the entities, and a
  validation error: the field's name (its \<open>loc\<close>) and the type.
\<close>

datatype err_type =
    Missing
  | String_type
  | String_too_short
  | String_too_long
  | Value_error
  | Url_parsing
  | Url_scheme
  | Url_too_long
  | Datetime_type
  | Json_invalid
  | Model_attributes_type

type_synonym verr = "pystr \<times> err_type"

definition errs_of :: "pystr \<Rightarrow> err_type + 'a \<Rightarrow> verr list" where
  "errs_of loc r = (case r of Inl e \<Rightarrow> [(loc, e)] | Inr _ \<Rightarrow> [])"

lemma errs_of_simps [simp, model_simps]:
  "errs_of loc (Inl e) = [(loc, e)]"
  "errs_of loc (Inr v) = []"
  by (simp_all add: errs_of_def)

subsection \<open>Project\<close>

text \<open>
  \<open>class Project(BaseModel)\<close> (project.py, lines 9--23). The two \<open>HttpUrl\<close>
  fields hold the URL's string form after validation.
\<close>

record project =
  id' :: pystr
  title :: pystr
  tagline :: pystr
  description :: pystr
  technologies :: "pystr list"
  highlights :: "pystr list"
  start_date :: pystr
  end_date :: "pystr option"
  github_url :: "pystr option"
  live_url :: "pystr option"
  image_url :: "pystr option"
  featured :: bool
  category :: pystr

subsection \<open>HttpUrl\<close>

text \<open>
  pydantic's \<open>HttpUrl\<close>: at most 2083 characters, an absolute URL whose scheme is
  \<open>http\<close> or \<open>https\<close>, with a non-empty host. The URL is stored in normal
  form: when nothing follows the host but a query or a fragment, the path
  \<open>/\<close> is inserted after the host. Only the lower-case scheme spelling and
  URLs without user info are covered: the full WHATWG parser behind the type is
  library code.
\<close>

definition url_parts :: "pystr \<Rightarrow> (pystr \<times> pystr) option" where
  "url_parts s =
     (let sch = takeWhile (\<lambda>c. c \<noteq> CHR '':'') s;
          r = dropWhile (\<lambda>c. c \<noteq> CHR '':'') s
      in if take 3 r = ''://'' then Some (sch, drop 3 r) else None)"

definition url_host :: "pystr \<Rightarrow> pystr" where
  "url_host rest = takeWhile (\<lambda>c. c \<notin> {CHR ''/'', CHR ''?'', CHR ''#''}) rest"

definition validate_http_url :: "pystr \<Rightarrow> err_type + pystr" where
  "validate_http_url s =
     (if 2083 < length s then Inl Url_too_long
      else case url_parts s of
        None \<Rightarrow> Inl Url_parsing
      | Some (sch, rest) \<Rightarrow>
          if sch \<notin> {''http'', ''https''} then Inl Url_scheme
          else
            let host = url_host rest; tl' = drop (length host) rest
            in if host = [] then Inl Url_parsing
               else if tl' = [] \<or> hd tl' \<noteq> CHR ''/''
                    then Inr (sch @ ''://'' @ host @ ''/'' @ tl')
                    else Inr s)"

definition validate_opt_url :: "pystr option \<Rightarrow> err_type + pystr option" where
  "validate_opt_url u =
     (case u of None \<Rightarrow> Inr None
      | Some s \<Rightarrow> (case validate_http_url s of Inl e \<Rightarrow> Inl e | Inr v \<Rightarrow> Inr (Some v)))"

text \<open>
  \<open>Project(...)\<close>: the keyword arguments already have the declared types in the
  repository's data, so validation only checks and normalises the two URL
  fields, reporting the errors of both.
\<close>

definition validate_project :: "project \<Rightarrow> verr list + project" where
  "validate_project p =
     (case (validate_opt_url (github_url p), validate_opt_url (live_url p)) of
        (Inr g, Inr l) \<Rightarrow> Inr (p\<lparr>github_url := g, live_url := l\<rparr>)
      | (g, l) \<Rightarrow> Inl (errs_of ''github_url'' g @ errs_of ''live_url'' l))"

end
