(* ===== verification/Project_Repository.thy ===== *)
theory Project_Repository
  imports Entities
begin

text \<open>
  \<open>ProjectRepository\<close> (infrastructure/repositories/project_repository.py): the
  in-memory list of projects built once by \<open>_initialize_projects\<close> (each
  \<open>Project(...)\<close> validated by pydantic, the first invalid one raising), and the
  three read operations \<open>get_all\<close>, \<open>get_by_id\<close> (a linear scan returning the
  first project with the requested id) and \<open>get_featured\<close> (a list comprehension
  keeping the featured projects). The abstract specification is a finite map
  from ids to projects; \<open>get_by_id\<close> refines it, and under the invariant that
  ids are distinct it finds every stored project.
\<close>

subsection \<open>State and construction\<close>

record project_repository =
  projects :: "project list"

text \<open>The keyword arguments of the two \<open>Project(...)\<close> calls, verbatim.\<close>

definition tilted_labs_args :: project where
  "tilted_labs_args = \<lparr>
     id' = ''tilted-labs'',
     title = ''Tilted Labs'',
     tagline = ''Mental Wellness Web Platform'',
     description = ''Built an AI-assisted anonymous chat platform focused on mental wellness. Implemented secure authentication, real-time messaging, and a responsive user interface. The platform provides a safe space for users to discuss mental health topics with AI assistance while maintaining complete anonymity.'',
     technologies = [''React'', ''Node.js'', ''Firebase'', ''Firestore'', ''Firebase Auth'',
                     ''Tailwind CSS'', ''React Hooks''],
     highlights = [''Implemented Firebase Authentication with Google Sign-In'',
                   ''Built real-time chat functionality using Firestore'',
                   ''Designed responsive UI with Tailwind CSS and React Hooks'',
                   ''Deployed on Firebase Hosting with CI/CD pipeline'',
                   ''Integrated Firebase Storage for media handling'',
                   ''Ensured data privacy and user anonymity''],
     start_date = ''2024-01'',
     end_date = Some ''2024-06'',
     github_url = Some ''https://github.com/liamnguyen/tilted-labs'',
     live_url = Some ''https://tilted-labs.web.app'',
     image_url = Some ''/images/projects/tilted-labs.png'',
     featured = True,
     category = ''web'' \<rparr>"

definition spacecraft_args :: project where
  "spacecraft_args = \<lparr>
     id' = ''spacecraft-mission-control'',
     title = ''Spacecraft Mission Control System'',
     tagline = ''Java Desktop Application with MySQL'',
     description = ''Developed a comprehensive desktop application for managing spacecraft missions and crew task assignments. Features include mission scheduling, crew management, task tracking, and detailed reporting. Built with a focus on data integrity and efficient database operations.'',
     technologies = [''Java'', ''MySQL'', ''JDBC'', ''AWS RDS'', ''Swing (GUI)'', ''SQL''],
     highlights = [''Designed normalized SQL schema with proper relationships'',
                   ''Implemented JDBC operations for database connectivity'',
                   ''Deployed on AWS RDS for cloud-based data management'',
                   ''Created SQL triggers for data integrity enforcement'',
                   ''Built intuitive desktop GUI for mission management'',
                   ''Managed crew task scheduling and tracking system''],
     start_date = ''2023-08'',
     end_date = Some ''2023-12'',
     github_url = Some ''https://github.com/liamnguyen/spacecraft-mission-control'',
     live_url = Some ''https://github.com/liamnguyen/spacecraft-mission-control/releases'',
     image_url = Some ''/images/projects/spacecraft.png'',
     featured = True,
     category = ''desktop'' \<rparr>"

text \<open>
  Building the list literal constructs the projects in order; the first
  \<open>ValidationError\<close> propagates out of \<open>__init__\<close>.
\<close>

fun construct_all :: "project list \<Rightarrow> verr list + project list" where
  "construct_all [] = Inr []"
| "construct_all (a # as) =
     (case validate_project a of
        Inl e \<Rightarrow> Inl e
      | Inr p \<Rightarrow> (case construct_all as of Inl e \<Rightarrow> Inl e | Inr ps \<Rightarrow> Inr (p # ps)))"

definition initialize_projects :: "verr list + project list" where
  "initialize_projects = construct_all [tilted_labs_args, spacecraft_args]"

definition ProjectRepository_init :: "verr list + project_repository" where
  "ProjectRepository_init =
     (case initialize_projects of Inl e \<Rightarrow> Inl e | Inr ps \<Rightarrow> Inr \<lparr>projects = ps\<rparr>)"

subsection \<open>Operations\<close>

definition get_all :: "project_repository \<Rightarrow> project list" where
  "get_all r = projects r"

fun scan_by_id :: "project list \<Rightarrow> pystr \<Rightarrow> project option" where
  "scan_by_id [] i = None"
| "scan_by_id (p # ps) i = (if id' p = i then Some p else scan_by_id ps i)"

definition get_by_id :: "project_repository \<Rightarrow> pystr \<Rightarrow> project option" where
  "get_by_id r i = scan_by_id (projects r) i"

definition get_featured :: "project_repository \<Rightarrow> project list" where
  "get_featured r = [p. p \<leftarrow> projects r, featured p]"

subsection \<open>Abstract specification and invariant\<close>

text \<open>The repository seen as a finite map from ids to projects.\<close>

definition repo_map :: "project_repository \<Rightarrow> pystr \<rightharpoonup> project" where
  "repo_map r = map_of (map (\<lambda>p. (id' p, p)) (projects r))"

definition ids_unique :: "project_repository \<Rightarrow> bool" where
  "ids_unique r \<longleftrightarrow> distinct (map id' (projects r))"

subsection \<open>Lemmas on the scan\<close>

lemma scan_by_id_Some:
  "scan_by_id ps i = Some p \<Longrightarrow> id' p = i \<and> p \<in> set ps"
  by (induction ps) (auto split: if_splits)

lemma scan_by_id_None:
  "scan_by_id ps i = None \<longleftrightarrow> i \<notin> id' ` set ps"
  by (induction ps) auto

lemma scan_by_id_find: "scan_by_id ps i = find (\<lambda>p. id' p = i) ps"
  by (induction ps) auto

lemma scan_by_id_map_of:
  "scan_by_id ps i = map_of (map (\<lambda>p. (id' p, p)) ps) i"
  by (induction ps) auto

lemma scan_by_id_distinct:
  "distinct (map id' ps) \<Longrightarrow> p \<in> set ps \<Longrightarrow> scan_by_id ps (id' p) = Some p"
  by (induction ps) (auto simp: image_iff)

lemma repository_init_value:
  "ProjectRepository_init =
     Inr \<lparr>projects = [tilted_labs_args\<lparr>live_url := Some ''https://tilted-labs.web.app/''\<rparr>,
                      spacecraft_args]\<rparr>"
  by (simp add: ProjectRepository_init_def initialize_projects_def validate_project_def
      validate_opt_url_def validate_http_url_def url_parts_def url_host_def
      tilted_labs_args_def spacecraft_args_def)

lemma comprehension_filter: "[x. x \<leftarrow> xs, P x] = filter P xs"
  by (induction xs) auto

subsection \<open>Properties\<close>

text \<open>
  Claim C1. \<open>get_by_id\<close> returns only a stored project, and the project it
  returns has exactly the requested id.
\<close>

theorem get_by_id_correct:
  "get_by_id r i = Some p \<Longrightarrow> id' p = i \<and> p \<in> set (get_all r)"
  unfolding get_by_id_def get_all_def by (rule scan_by_id_Some)

theorem get_by_id_correct_witness:
  "get_by_id \<lparr>projects = [tilted_labs_args, spacecraft_args]\<rparr> ''spacecraft-mission-control''
     = Some spacecraft_args
   \<and> id' spacecraft_args = ''spacecraft-mission-control''
   \<and> spacecraft_args \<in> set (get_all \<lparr>projects = [tilted_labs_args, spacecraft_args]\<rparr>)"
proof -
  have h: "get_by_id \<lparr>projects = [tilted_labs_args, spacecraft_args]\<rparr> ''spacecraft-mission-control''
             = Some spacecraft_args"
    by (simp add: get_by_id_def tilted_labs_args_def spacecraft_args_def)
  show ?thesis using h get_by_id_correct [OF h] by simp
qed

text \<open>
  Claim C2. \<open>get_by_id\<close> reports absence exactly when no stored project has the
  requested id (for example \<open>"nonexistent"\<close> in the repository's data).
\<close>

theorem get_by_id_None_iff:
  "get_by_id r i = None \<longleftrightarrow> i \<notin> id' ` set (get_all r)"
  unfolding get_by_id_def get_all_def by (rule scan_by_id_None)

theorem get_by_id_None_iff_witness:
  "get_by_id \<lparr>projects = [tilted_labs_args, spacecraft_args]\<rparr> ''nonexistent'' = None"
proof -
  have "''nonexistent'' \<notin> id' ` set (get_all \<lparr>projects = [tilted_labs_args, spacecraft_args]\<rparr>)"
    by (simp add: get_all_def tilted_labs_args_def spacecraft_args_def)
  then show ?thesis by (simp add: get_by_id_None_iff)
qed

text \<open>
  Claim C3. \<open>get_featured\<close> returns exactly the stored projects whose
  \<open>featured\<close> flag is set, in the order of the store.
\<close>

theorem get_featured_exact:
  "get_featured r = filter featured (get_all r)"
  unfolding get_featured_def get_all_def by (rule comprehension_filter)

text \<open>
  Claim C17. The repository built at start-up keeps the invariant that ids are
  unique, and under that invariant \<open>get_by_id\<close> finds every stored project by
  its id.
\<close>

theorem repository_init_lookup:
  "ProjectRepository_init = Inr r \<Longrightarrow>
     ids_unique r \<and> (\<forall>p\<in>set (get_all r). get_by_id r (id' p) = Some p)"
proof -
  assume init: "ProjectRepository_init = Inr r"
  have "r = \<lparr>projects = [tilted_labs_args\<lparr>live_url := Some ''https://tilted-labs.web.app/''\<rparr>,
                         spacecraft_args]\<rparr>"
    using init by (simp add: repository_init_value)
  then have u: "ids_unique r"
    by (simp add: ids_unique_def tilted_labs_args_def spacecraft_args_def)
  then show ?thesis
    by (simp add: ids_unique_def get_all_def get_by_id_def scan_by_id_distinct)
qed

theorem repository_init_lookup_witness:
  "ids_unique \<lparr>projects = [tilted_labs_args\<lparr>live_url := Some ''https://tilted-labs.web.app/''\<rparr>,
                         spacecraft_args]\<rparr>
   \<and> get_by_id \<lparr>projects = [tilted_labs_args\<lparr>live_url := Some ''https://tilted-labs.web.app/''\<rparr>,
                         spacecraft_args]\<rparr> ''spacecraft-mission-control'' = Some spacecraft_args"
proof -
  let ?r = "\<lparr>projects = [tilted_labs_args\<lparr>live_url := Some ''https://tilted-labs.web.app/''\<rparr>,
                         spacecraft_args]\<rparr>"
  have h: "ProjectRepository_init = Inr ?r" by (rule repository_init_value)
  have m: "spacecraft_args \<in> set (get_all ?r)" by (simp add: get_all_def)
  have i: "id' spacecraft_args = ''spacecraft-mission-control''" by (simp add: spacecraft_args_def)
  show ?thesis using repository_init_lookup [OF h] m i by metis
qed

text \<open>
  Claim C22. \<open>get_by_id\<close> implements the abstract finite map of the
  repository: the linear scan and the map built from the (id, project) pairs
  agree on every id, so a repeated id resolves to its first occurrence.
\<close>

theorem get_by_id_refines_map:
  "get_by_id r = repo_map r"
  by (rule ext) (simp add: get_by_id_def repo_map_def scan_by_id_map_of)

end
