(* ===== verification/Project_Use_Case.thy ===== *)
theory Project_Use_Case
  imports Project_Repository
begin

text \<open>
  \<open>ProjectUseCase\<close> (application/use_cases/project_use_case.py): holds the
  injected repository and forwards each of its three operations to it.
\<close>

record project_use_case =
  repository :: project_repository

definition ProjectUseCase_init :: "project_repository \<Rightarrow> project_use_case" where
  "ProjectUseCase_init r = \<lparr>repository = r\<rparr>"

definition get_all_projects :: "project_use_case \<Rightarrow> project list" where
  "get_all_projects u = get_all (repository u)"

definition get_project_by_id :: "project_use_case \<Rightarrow> pystr \<Rightarrow> project option" where
  "get_project_by_id u i = get_by_id (repository u) i"

definition get_featured_projects :: "project_use_case \<Rightarrow> project list" where
  "get_featured_projects u = get_featured (repository u)"

lemmas project_use_case_defs [model_simps] =
  get_all_projects_def get_project_by_id_def get_featured_projects_def

end
