(* ===== verification/Contact.thy ===== *)
theory Contact
  imports Entities
begin

text \<open>
  \<open>ContactMessage\<close> (domain/entities/contact.py): the record of a submitted
  message, its constructor (which inserts the current UTC time when the caller
  gives no \<open>timestamp\<close> key, then lets pydantic validate every field), and the
  \<open>datetime\<close> values the timestamp holds. The checks of \<open>EmailStr\<close> (the
  email-validator package) and of pydantic's datetime parser are library code:
  they are the two fields of a \<open>validators\<close> record every lemma is stated over.
\<close>

subsection \<open>Datetimes\<close>

text \<open>
  A Python \<open>datetime\<close>: its fields, and its UTC offset in minutes (\<open>None\<close> for a
  naive value such as \<open>datetime.utcnow()\<close> returns).
\<close>

record datetime =
  year :: nat
  month :: nat
  day :: nat
  hour :: nat
  minute :: nat
  second :: nat
  microsecond :: nat
  utcoffset :: "int option"

subsection \<open>Input values\<close>

text \<open>
  The values the keyword arguments of \<open>ContactMessage(**data)\<close> can hold: those
  of a parsed JSON body, and the \<open>datetime\<close> object the constructor inserts.
\<close>

datatype pyval =
    PStr pystr
  | PInt int
  | PFloat rat
  | PBool bool
  | PNone
  | PDatetime datetime
  | POther

type_synonym pydict = "pystr \<rightharpoonup> pyval"

record validators =
  email_validate :: "pystr \<Rightarrow> pystr option"
  datetime_parse :: "pyval \<Rightarrow> datetime option"

subsection \<open>The entity\<close>

record contact_message =
  name :: pystr
  email :: pystr
  subject :: pystr
  message :: pystr
  timestamp :: "datetime option"

text \<open>
  \<open>Field(..., min_length=lo, max_length=hi)\<close> on a \<open>str\<close> field: a required
  string whose length lies in \<open>[lo, hi]\<close>; pydantic does not turn numbers or
  booleans into strings.
\<close>

fun constr_str :: "nat \<Rightarrow> nat \<Rightarrow> pyval option \<Rightarrow> err_type + pystr" where
  "constr_str lo hi None = Inl Missing"
| "constr_str lo hi (Some (PStr s)) =
     (if length s < lo then Inl String_too_short
      else if hi < length s then Inl String_too_long
      else Inr s)"
| "constr_str lo hi (Some v) = Inl String_type"

text \<open>\<open>email: EmailStr\<close>: a string the validator accepts, stored normalised.\<close>

fun email_field :: "validators \<Rightarrow> pyval option \<Rightarrow> err_type + pystr" where
  "email_field V None = Inl Missing"
| "email_field V (Some (PStr s)) =
     (case email_validate V s of None \<Rightarrow> Inl Value_error | Some e \<Rightarrow> Inr e)"
| "email_field V (Some v) = Inl String_type"

text \<open>\<open>timestamp: Optional[datetime] = None\<close>.\<close>

fun timestamp_field :: "validators \<Rightarrow> pyval option \<Rightarrow> err_type + datetime option" where
  "timestamp_field V None = Inr None"
| "timestamp_field V (Some PNone) = Inr None"
| "timestamp_field V (Some (PDatetime d)) = Inr (Some d)"
| "timestamp_field V (Some v) =
     (case datetime_parse V v of None \<Rightarrow> Inl Datetime_type | Some d \<Rightarrow> Inr (Some d))"

text \<open>
  pydantic validates every field and reports all errors, in field order.
\<close>

definition validate_contact ::
  "validators \<Rightarrow> pydict \<Rightarrow> verr list + contact_message" where
  "validate_contact V d =
     (let rn = constr_str 2 100 (d ''name'');
          re = email_field V (d ''email'');
          rs = constr_str 3 200 (d ''subject'');
          rm = constr_str 10 2000 (d ''message'');
          rt = timestamp_field V (d ''timestamp'')
      in case (rn, re, rs, rm, rt) of
           (Inr n, Inr e, Inr s, Inr m, Inr t) \<Rightarrow>
             Inr \<lparr>name = n, email = e, subject = s, message = m, timestamp = t\<rparr>
         | _ \<Rightarrow> Inl (errs_of ''name'' rn @ errs_of ''email'' re @ errs_of ''subject'' rs
                    @ errs_of ''message'' rm @ errs_of ''timestamp'' rt))"

text \<open>
  \<open>ContactMessage.__init__(**data)\<close>: when the key \<open>timestamp\<close> is absent the
  current time \<open>now\<close> (\<open>datetime.utcnow()\<close>) is inserted; an explicit
  \<open>timestamp: null\<close> is kept. Then pydantic validates.
\<close>

definition ContactMessage_init ::
  "validators \<Rightarrow> datetime \<Rightarrow> pydict \<Rightarrow> verr list + contact_message" where
  "ContactMessage_init V now data =
     (let data' = (if data ''timestamp'' = None
                   then data(''timestamp'' \<mapsto> PDatetime now) else data)
      in validate_contact V data')"

subsection \<open>Invariant of a validated message\<close>

definition valid_contact :: "contact_message \<Rightarrow> bool" where
  "valid_contact c \<longleftrightarrow>
     2 \<le> length (name c) \<and> length (name c) \<le> 100 \<and>
     3 \<le> length (subject c) \<and> length (subject c) \<le> 200 \<and>
     10 \<le> length (message c) \<and> length (message c) \<le> 2000"

subsection \<open>Lemmas on the field validators\<close>

lemma constr_str_Inr:
  "constr_str lo hi v = Inr s \<longleftrightarrow> v = Some (PStr s) \<and> lo \<le> length s \<and> length s \<le> hi"
  by (cases "(lo, hi, v)" rule: constr_str.cases) (auto split: if_splits)

lemma email_field_Inr:
  "email_field V v = Inr e \<longleftrightarrow> (\<exists>s. v = Some (PStr s) \<and> email_validate V s = Some e)"
  by (cases "(V, v)" rule: email_field.cases) (auto split: option.splits)

lemma validate_contact_Inr:
  "validate_contact V d = Inr c \<longleftrightarrow>
     constr_str 2 100 (d ''name'') = Inr (name c) \<and>
     email_field V (d ''email'') = Inr (email c) \<and>
     constr_str 3 200 (d ''subject'') = Inr (subject c) \<and>
     constr_str 10 2000 (d ''message'') = Inr (message c) \<and>
     timestamp_field V (d ''timestamp'') = Inr (timestamp c)"
  by (auto simp: validate_contact_def Let_def split: sum.splits)

lemma validate_contact_Inl_nonempty:
  "validate_contact V d = Inl es \<Longrightarrow> es \<noteq> []"
  by (auto simp: validate_contact_def Let_def errs_of_def split: sum.splits)

lemma ContactMessage_init_Inr:
  "ContactMessage_init V now d = Inr c \<longleftrightarrow>
     validate_contact V (if d ''timestamp'' = None then d(''timestamp'' \<mapsto> PDatetime now) else d)
       = Inr c"
  by (simp add: ContactMessage_init_def)

text \<open>Concrete validators and inputs the witnesses use.\<close>

definition accept_all :: validators where
  "accept_all = \<lparr>email_validate = Some, datetime_parse = (\<lambda>_. None)\<rparr>"

definition sample_now :: datetime where
  "sample_now = \<lparr>year = 2024, month = 5, day = 17, hour = 9, minute = 30, second = 5,
                 microsecond = 0, utcoffset = None\<rparr>"

definition sample_body :: "pystr \<Rightarrow> pydict" where
  "sample_body m = [''name'' \<mapsto> PStr ''Jane Doe'', ''email'' \<mapsto> PStr ''jane@example.com'',
                    ''subject'' \<mapsto> PStr ''Hello'', ''message'' \<mapsto> PStr m]"

lemma ContactMessage_init_short_message:
  assumes "d ''message'' = Some (PStr m)" "length m < 10"
  shows "\<exists>es. ContactMessage_init V now d = Inl es \<and> (''message'', String_too_short) \<in> set es"
  using assms
  by (auto simp: ContactMessage_init_def validate_contact_def Let_def errs_of_def
           split: sum.splits)

lemma ContactMessage_init_null_timestamp:
  "d ''timestamp'' = Some PNone \<Longrightarrow> ContactMessage_init V now d = Inr c \<Longrightarrow> timestamp c = None"
  by (simp add: ContactMessage_init_def validate_contact_Inr)

lemma ContactMessage_init_default_timestamp:
  "d ''timestamp'' = None \<Longrightarrow> ContactMessage_init V now d = Inr c \<Longrightarrow> timestamp c = Some now"
  by (simp add: ContactMessage_init_def validate_contact_Inr)

subsection \<open>Properties\<close>

text \<open>
  Claim C14. Every message the constructor accepts satisfies the field
  constraints of \<open>ContactMessage\<close> (name 2--100, subject 3--200, message
  2--2000 characters) and carries an address the email validator produced from
  the submitted string.
\<close>

theorem ContactMessage_init_sound:
  assumes "ContactMessage_init V now d = Inr c"
  shows "valid_contact c \<and> (\<exists>s. d ''email'' = Some (PStr s) \<and> email_validate V s = Some (email c))"
proof -
  let ?d = "if d ''timestamp'' = None then d(''timestamp'' \<mapsto> PDatetime now) else d"
  have v: "validate_contact V ?d = Inr c"
    using assms by (simp add: ContactMessage_init_Inr)
  have "?d ''name'' = d ''name''" "?d ''email'' = d ''email''"
       "?d ''subject'' = d ''subject''" "?d ''message'' = d ''message''"
    by simp_all
  with v show ?thesis
    unfolding validate_contact_Inr valid_contact_def
    by (simp add: constr_str_Inr email_field_Inr)
qed

theorem ContactMessage_init_sound_witness:
  "ContactMessage_init accept_all sample_now (sample_body ''I would like to talk.'') =
     Inr \<lparr>name = ''Jane Doe'', email = ''jane@example.com'', subject = ''Hello'',
          message = ''I would like to talk.'', timestamp = Some sample_now\<rparr>
   \<and> valid_contact \<lparr>name = ''Jane Doe'', email = ''jane@example.com'', subject = ''Hello'',
          message = ''I would like to talk.'', timestamp = Some sample_now\<rparr>"
proof -
  have h: "ContactMessage_init accept_all sample_now (sample_body ''I would like to talk.'') =
     Inr \<lparr>name = ''Jane Doe'', email = ''jane@example.com'', subject = ''Hello'',
          message = ''I would like to talk.'', timestamp = Some sample_now\<rparr>"
    by (simp add: ContactMessage_init_def validate_contact_def sample_body_def accept_all_def)
  show ?thesis using h ContactMessage_init_sound [OF h] by simp
qed

text \<open>
  Claim C15. Conversely, the constructor accepts every submission whose four
  text fields are strings within their length bounds and whose address the
  validator accepts; when no \<open>timestamp\<close> key was sent the message carries the
  current time.
\<close>

theorem ContactMessage_init_complete:
  assumes "d ''name'' = Some (PStr n)" "2 \<le> length n" "length n \<le> 100"
    and "d ''email'' = Some (PStr e)" "email_validate V e = Some e'"
    and "d ''subject'' = Some (PStr s)" "3 \<le> length s" "length s \<le> 200"
    and "d ''message'' = Some (PStr m)" "10 \<le> length m" "length m \<le> 2000"
    and "d ''timestamp'' = None"
  shows "ContactMessage_init V now d =
           Inr \<lparr>name = n, email = e', subject = s, message = m, timestamp = Some now\<rparr>"
  using assms by (simp add: ContactMessage_init_def validate_contact_Inr constr_str_Inr)

theorem ContactMessage_init_complete_witness:
  "ContactMessage_init accept_all sample_now (sample_body ''Ten chars!'') =
     Inr \<lparr>name = ''Jane Doe'', email = ''jane@example.com'', subject = ''Hello'',
          message = ''Ten chars!'', timestamp = Some sample_now\<rparr>"
  by (rule ContactMessage_init_complete [where n = "''Jane Doe''" and e = "''jane@example.com''"
        and s = "''Hello''"])
     (simp_all add: sample_body_def accept_all_def)

end
