(* ===== verification/Effects.thy ===== *)
theory Effects
  imports Contact
begin

text \<open>
  The observable effects of the backend, shared by the components that cause
  them: Python exceptions as values, the lines the code prints, the MIME
  message and the commands that go to an SMTP server, and the \<open>world\<close> record
  that collects them in order. An SMTP server is a function that, given the
  commands it has received so far and the next one, says whether the
  \<open>smtplib\<close> call issuing that command raises; smtplib and the server are
  outside the repository, so every lemma holds for any such function.
\<close>

subsection \<open>Exceptions\<close>

text \<open>
  The exception classes the modelled code can raise or catch, and their
  subclass relation to \<open>smtplib.SMTPException\<close>.
\<close>

datatype exc_class =
    ValueError
  | AttributeError
  | OSError
  | FileNotFoundError
  | SMTPException
  | SMTPResponseException
  | SMTPAuthenticationError
  | SMTPServerDisconnected

datatype pyexc = PyExc exc_class pystr

fun exc_type :: "pyexc \<Rightarrow> exc_class" where
  "exc_type (PyExc k m) = k"

fun exc_str :: "pyexc \<Rightarrow> pystr" where
  "exc_str (PyExc k m) = m"

text \<open>\<open>repr\<close> of a string without quotes or backslashes, as error messages print it.\<close>

definition quoted :: "pystr \<Rightarrow> pystr" where
  "quoted s = CHR 0x27 # s @ [CHR 0x27]"

fun is_smtp_exception :: "exc_class \<Rightarrow> bool" where
  "is_smtp_exception SMTPException = True"
| "is_smtp_exception SMTPResponseException = True"
| "is_smtp_exception SMTPAuthenticationError = True"
| "is_smtp_exception SMTPServerDisconnected = True"
| "is_smtp_exception _ = False"

subsection \<open>Printed lines\<close>

text \<open>
  One constructor per \<open>print\<close> call of the source, carrying the values the
  f-string interpolates (the emoji decorations are left out).
\<close>

datatype log_line =
    Log_attempting
  | Log_smtp_host pystr
  | Log_smtp_port int
  | Log_smtp_user "pystr option"
  | Log_email_to "pystr option"
  | Log_password_set bool
  | Log_config_incomplete
  | Log_missing bool bool bool
  | Log_connecting
  | Log_starting_tls
  | Log_logging_in
  | Log_sending
  | Log_sent pystr
  | Log_auth_failed pystr
  | Log_check_credentials
  | Log_smtp_error pystr
  | Log_send_failed exc_class pystr
  | Log_contact_error pystr
  | Log_startup
  | Log_shutdown

subsection \<open>SMTP\<close>

record mime_message =
  msg_subject :: pystr
  msg_from :: "pystr option"
  msg_to :: pystr
  msg_reply_to :: pystr
  msg_html :: pystr

text \<open>
  The smtplib calls of the email service, as the commands they send:
  \<open>smtplib.SMTP(host, port)\<close> connects, then \<open>starttls()\<close>, \<open>login()\<close>,
  \<open>send_message()\<close>, and \<open>QUIT\<close> when the \<open>with\<close> block exits.
\<close>

datatype smtp_cmd =
    Connect pystr int
  | Starttls
  | Login pystr pystr
  | Send_message mime_message
  | Quit

type_synonym smtp_server = "smtp_cmd list \<Rightarrow> smtp_cmd \<Rightarrow> pyexc option"

fun is_connect :: "smtp_cmd \<Rightarrow> bool" where
  "is_connect (Connect h p) = True"
| "is_connect _ = False"

subsection \<open>The world\<close>

record world =
  smtp_log :: "smtp_cmd list"
  stdout :: "log_line list"

definition say :: "log_line list \<Rightarrow> world \<Rightarrow> world" where
  "say ls w = w\<lparr>stdout := stdout w @ ls\<rparr>"

definition smtp_call :: "smtp_server \<Rightarrow> smtp_cmd \<Rightarrow> world \<Rightarrow> pyexc option \<times> world" where
  "smtp_call srv cmd w = (srv (smtp_log w) cmd, w\<lparr>smtp_log := smtp_log w @ [cmd]\<rparr>)"

lemma say_simps [simp, model_simps]:
  "smtp_log (say ls w) = smtp_log w"
  "stdout (say ls w) = stdout w @ ls"
  by (simp_all add: say_def)

lemma smtp_call_simps [simp, model_simps]:
  "fst (smtp_call srv cmd w) = srv (smtp_log w) cmd"
  "smtp_log (snd (smtp_call srv cmd w)) = smtp_log w @ [cmd]"
  "stdout (snd (smtp_call srv cmd w)) = stdout w"
  by (simp_all add: smtp_call_def)

end
