(* ===== verification/Email_Service.thy ===== *)
theory Email_Service
  imports Effects
begin

text \<open>
  \<open>EmailService\<close> (infrastructure/email/email_service.py). The constructor reads
  the SMTP settings from the environment (\<open>int()\<close> of \<open>SMTP_PORT\<close> may raise
  \<open>ValueError\<close>). \<open>send_contact_notification\<close> prints its settings, returns
  without sending when user, password or recipient is missing or empty, formats
  the HTML message (the \<open>strftime\<close> of a \<open>None\<close> timestamp raises
  \<open>AttributeError\<close> before any connection), and runs one SMTP session:
  connect, STARTTLS, login, send, and QUIT on leaving the \<open>with\<close> block. Its
  three \<open>except\<close> clauses print and re-raise. The lemmas show the session's
  order and failure behaviour, the round trip of the \<open>Sent at\<close> stamp and
  of the port through \<open>int()\<close>.
\<close>

subsection \<open>Configuration\<close>

record email_config =
  smtp_host :: pystr
  smtp_port :: int
  smtp_user :: "pystr option"
  smtp_password :: "pystr option"
  email_from :: "pystr option"
  email_to :: "pystr option"

type_synonym environ = "pystr \<rightharpoonup> pystr"

definition getenv_default :: "environ \<Rightarrow> pystr \<Rightarrow> pystr \<Rightarrow> pystr" where
  "getenv_default env k d = (case env k of None \<Rightarrow> d | Some v \<Rightarrow> v)"

text \<open>
  The builtin \<open>int(s)\<close>: surrounding whitespace is stripped, an optional sign
  is read, and the rest must be decimal digits, single underscores allowed
  between digits.
\<close>

definition py_space :: "char \<Rightarrow> bool" where
  "py_space c \<longleftrightarrow> of_char c \<in> {9, 10, 11, 12, 13, 28, 29, 30, 31, 32, 133, 160 :: nat}"

definition py_strip :: "pystr \<Rightarrow> pystr" where
  "py_strip s = rev (dropWhile py_space (rev (dropWhile py_space s)))"

definition is_digit :: "char \<Rightarrow> bool" where
  "is_digit c \<longleftrightarrow> 48 \<le> (of_char c :: nat) \<and> (of_char c :: nat) \<le> 57"

fun no_double_underscore :: "pystr \<Rightarrow> bool" where
  "no_double_underscore (a # b # r) =
     (\<not> (a = CHR ''_'' \<and> b = CHR ''_'') \<and> no_double_underscore (b # r))"
| "no_double_underscore _ = True"

definition digits_ok :: "pystr \<Rightarrow> bool" where
  "digits_ok s \<longleftrightarrow> s \<noteq> [] \<and> is_digit (hd s) \<and> is_digit (last s) \<and>
     (\<forall>c\<in>set s. is_digit c \<or> c = CHR ''_'') \<and> no_double_underscore s"

definition digits_value :: "pystr \<Rightarrow> int" where
  "digits_value s =
     foldl (\<lambda>acc c. if c = CHR ''_'' then acc else 10 * acc + (int (of_char c) - 48)) 0 s"

definition py_int :: "pystr \<Rightarrow> pyexc + int" where
  "py_int s =
     (let t = py_strip s;
          (sg, body) = (case t of [] \<Rightarrow> (1, [])
                        | c # r \<Rightarrow> if c = CHR ''-'' then (-1, r)
                                   else if c = CHR ''+'' then (1, r) else (1, t))
      in if digits_ok body then Inr (sg * digits_value body)
         else Inl (PyExc ValueError (''invalid literal for int() with base 10: '' @ quoted s)))"

definition EmailService_init :: "environ \<Rightarrow> pyexc + email_config" where
  "EmailService_init env =
     (case py_int (getenv_default env ''SMTP_PORT'' ''587'') of
        Inl e \<Rightarrow> Inl e
      | Inr port \<Rightarrow> Inr \<lparr>smtp_host = getenv_default env ''SMTP_HOST'' ''smtp.gmail.com'',
                         smtp_port = port,
                         smtp_user = env ''SMTP_USER'',
                         smtp_password = env ''SMTP_PASSWORD'',
                         email_from = env ''EMAIL_FROM'',
                         email_to = env ''EMAIL_TO''\<rparr>)"

text \<open>\<open>all([self.smtp_user, self.smtp_password, self.email_to])\<close>.\<close>

definition config_complete :: "email_config \<Rightarrow> bool" where
  "config_complete cfg \<longleftrightarrow>
     py_truthy (smtp_user cfg) \<and> py_truthy (smtp_password cfg) \<and> py_truthy (email_to cfg)"

subsection \<open>Formatting the message\<close>

text \<open>
  \<open>strftime('%Y-%m-%d %H:%M:%S UTC')\<close>: the year in decimal, the other fields
  with two digits, and the literal text \<open>UTC\<close> whatever the value's offset.
\<close>

fun nat_str :: "nat \<Rightarrow> pystr" where
  "nat_str n = (if n < 10 then [char_of (48 + n)] else nat_str (n div 10) @ [char_of (48 + n mod 10)])"

declare nat_str.simps [simp del]

definition pad2 :: "nat \<Rightarrow> pystr" where
  "pad2 n = (if n < 10 then CHR ''0'' # nat_str n else nat_str n)"

definition strftime_sent_at :: "datetime \<Rightarrow> pystr" where
  "strftime_sent_at t =
     nat_str (year t) @ ''-'' @ pad2 (month t) @ ''-'' @ pad2 (day t) @ '' '' @
     pad2 (hour t) @ '':'' @ pad2 (minute t) @ '':'' @ pad2 (second t) @ '' UTC''"

definition html_line :: "nat \<Rightarrow> pystr \<Rightarrow> pystr" where
  "html_line k s = replicate k (CHR '' '') @ s @ [CHR 0x0A]"

definition contact_html :: "contact_message \<Rightarrow> datetime \<Rightarrow> pystr" where
  \<open>contact_html c t = concat
     [[CHR 0x0A],
      html_line 8 ''<html>'',
      html_line 12 ''<body style="font-family: Arial, sans-serif;">'',
      html_line 16 ''<h2>New Contact Form Submission</h2>'',
      html_line 16 (''<p><strong>From:</strong> '' @ name c @ ''</p>''),
      html_line 16 (''<p><strong>Email:</strong> '' @ email c @ ''</p>''),
      html_line 16 (''<p><strong>Subject:</strong> '' @ subject c @ ''</p>''),
      html_line 16 ''<hr>'',
      html_line 16 ''<p><strong>Message:</strong></p>'',
      html_line 16 (''<p>'' @ message c @ ''</p>''),
      html_line 16 ''<hr>'',
      html_line 16 ''<p style="color: #666; font-size: 12px;">'',
      html_line 20 (''Sent at: '' @ strftime_sent_at t),
      html_line 16 ''</p>'',
      html_line 12 ''</body>'',
      html_line 8 ''</html>'',
      replicate 8 (CHR '' '')]\<close>

definition build_message :: "email_config \<Rightarrow> contact_message \<Rightarrow> datetime \<Rightarrow> mime_message" where
  "build_message cfg c t =
     \<lparr>msg_subject = ''Portfolio Contact: '' @ subject c,
      msg_from = email_from cfg,
      msg_to = the (email_to cfg),
      msg_reply_to = email c,
      msg_html = contact_html c t\<rparr>"

subsection \<open>The SMTP session\<close>

text \<open>
  The statements of the \<open>with\<close> block: each prints, then issues one command;
  the first command that raises leaves the block.
\<close>

fun run_body :: "smtp_server \<Rightarrow> (log_line \<times> smtp_cmd) list \<Rightarrow> world \<Rightarrow> pyexc option \<times> world" where
  "run_body srv [] w = (None, w)"
| "run_body srv ((l, c) # rest) w =
     (case smtp_call srv c (say [l] w) of
        (None, w') \<Rightarrow> run_body srv rest w'
      | (Some e, w') \<Rightarrow> (Some e, w'))"

definition session_body :: "email_config \<Rightarrow> mime_message \<Rightarrow> (log_line \<times> smtp_cmd) list" where
  "session_body cfg msg =
     [(Log_starting_tls, Starttls),
      (Log_logging_in, Login (the (smtp_user cfg)) (the (smtp_password cfg))),
      (Log_sending, Send_message msg)]"

text \<open>
  \<open>SMTP.__exit__\<close>: sends \<open>QUIT\<close>; \<open>SMTPServerDisconnected\<close> from it is
  swallowed, any other exception replaces the one leaving the block.
\<close>

definition smtp_exit :: "smtp_server \<Rightarrow> pyexc option \<Rightarrow> world \<Rightarrow> pyexc option \<times> world" where
  "smtp_exit srv pending w =
     (case smtp_call srv Quit w of
        (None, w') \<Rightarrow> (pending, w')
      | (Some e, w') \<Rightarrow>
          (if exc_type e = SMTPServerDisconnected then pending else Some e, w'))"

text \<open>
  \<open>with smtplib.SMTP(host, port) as server: ...\<close>: a failed connection never
  enters the block, so no \<open>QUIT\<close> follows it.
\<close>

definition smtp_session :: "email_config \<Rightarrow> smtp_server \<Rightarrow> mime_message \<Rightarrow> world \<Rightarrow> pyexc option \<times> world" where
  "smtp_session cfg srv msg w =
     (case smtp_call srv (Connect (smtp_host cfg) (smtp_port cfg)) w of
        (Some e, w1) \<Rightarrow> (Some e, w1)
      | (None, w1) \<Rightarrow>
          (case run_body srv (session_body cfg msg) w1 of
             (pending, w2) \<Rightarrow> smtp_exit srv pending w2))"

text \<open>
  The \<open>except\<close> clauses, in the source's order: authentication failures first,
  then any other \<open>SMTPException\<close>, then every other exception. Each prints and
  re-raises.
\<close>

definition smtp_except :: "pyexc \<Rightarrow> world \<Rightarrow> world" where
  "smtp_except e w =
     (if exc_type e = SMTPAuthenticationError
      then say [Log_auth_failed (exc_str e), Log_check_credentials] w
      else if is_smtp_exception (exc_type e) then say [Log_smtp_error (exc_str e)] w
      else say [Log_send_failed (exc_type e) (exc_str e)] w)"

definition none_strftime_error :: pyexc where
  "none_strftime_error =
     PyExc AttributeError (quoted ''NoneType'' @ '' object has no attribute '' @ quoted ''strftime'')"

definition settings_lines :: "email_config \<Rightarrow> log_line list" where
  "settings_lines cfg =
     [Log_attempting, Log_smtp_host (smtp_host cfg), Log_smtp_port (smtp_port cfg),
      Log_smtp_user (smtp_user cfg), Log_email_to (email_to cfg),
      Log_password_set (py_truthy (smtp_password cfg))]"

definition send_contact_notification ::
  "email_config \<Rightarrow> smtp_server \<Rightarrow> contact_message \<Rightarrow> world \<Rightarrow> (pyexc + unit) \<times> world" where
  "send_contact_notification cfg srv c w0 =
     (let w = say (settings_lines cfg) w0
      in if \<not> config_complete cfg
         then (Inr (), say [Log_config_incomplete,
                            Log_missing (py_truthy (smtp_user cfg)) (py_truthy (smtp_password cfg))
                                        (py_truthy (email_to cfg))] w)
         else case timestamp c of
           None \<Rightarrow> (Inl none_strftime_error, w)
         | Some t \<Rightarrow>
             (case smtp_session cfg srv (build_message cfg c t) (say [Log_connecting] w) of
                (None, w') \<Rightarrow> (Inr (), say [Log_sent (name c)] w')
              | (Some e, w') \<Rightarrow> (Inl e, smtp_except e w')))"

subsection \<open>The timestamp format\<close>

definition dig :: "nat \<Rightarrow> char" where "dig d = char_of (48 + d)"

lemma nat_str_digit: "n < 10 \<Longrightarrow> nat_str n = [dig n]"
  by (simp add: nat_str.simps dig_def)

lemma nat_str_step: "10 \<le> n \<Longrightarrow> nat_str n = nat_str (n div 10) @ [dig (n mod 10)]"
  by (subst nat_str.simps) (simp add: dig_def)

lemma nat_str_4:
  assumes "1000 \<le> n" "n < 10000"
  shows "nat_str n = [dig (n div 1000), dig (n div 100 mod 10), dig (n div 10 mod 10), dig (n mod 10)]"
proof -
  have a: "10 \<le> n div 10 div 10" using assms by linarith
  have b: "n div 10 div 10 div 10 < 10" using assms by linarith
  have "nat_str n = nat_str (n div 10 div 10 div 10) @ [dig (n div 10 div 10 mod 10)] @ [dig (n div 10 mod 10)] @ [dig (n mod 10)]"
    using assms a by (simp add: nat_str_step)
  also have "\<dots> = [dig (n div 1000), dig (n div 100 mod 10), dig (n div 10 mod 10), dig (n mod 10)]"
    using b by (simp add: nat_str_digit div_mult2_eq [symmetric])
  finally show ?thesis .
qed

lemma dig_0: "dig 0 = CHR ''0''"
  unfolding dig_def by code_simp

lemma pad2_2: "n < 100 \<Longrightarrow> pad2 n = [dig (n div 10), dig (n mod 10)]"
proof (cases "n < 10")
  case True
  then show ?thesis by (simp add: pad2_def nat_str_digit dig_0)
next
  case False
  moreover assume "n < 100"
  ultimately have "n div 10 < 10" by (simp add: div_less_iff_less_mult)
  with False show ?thesis by (simp add: pad2_def nat_str_step nat_str_digit)
qed

lemma digits4_decomp:
  "(n::nat) = 1000 * (n div 1000) + 100 * (n div 100 mod 10) + 10 * (n div 10 mod 10) + n mod 10"
proof -
  have a: "n div 100 = n div 10 div 10" using div_mult2_eq [of n 10 10] by simp
  have b: "n div 1000 = n div 100 div 10" using div_mult2_eq [of n 100 10] by simp
  have "n = 10 * (n div 10) + n mod 10" by simp
  moreover have "n div 10 = 10 * (n div 100) + n div 10 mod 10" using a by simp
  moreover have "n div 100 = 10 * (n div 1000) + n div 100 mod 10" using b by simp
  ultimately show ?thesis by linarith
qed

text \<open>
  A Python \<open>datetime\<close> whose year has four digits (\<open>%Y\<close> pads shorter years
  differently across platforms).
\<close>

definition valid_datetime :: "datetime \<Rightarrow> bool" where
  "valid_datetime t \<longleftrightarrow> 1000 \<le> year t \<and> year t \<le> 9999 \<and> 1 \<le> month t \<and> month t \<le> 12 \<and>
     1 \<le> day t \<and> day t \<le> 31 \<and> hour t \<le> 23 \<and> minute t \<le> 59 \<and> second t \<le> 59"

lemma strftime_chars:
  assumes "valid_datetime t"
  shows "strftime_sent_at t =
    [dig (year t div 1000), dig (year t div 100 mod 10), dig (year t div 10 mod 10), dig (year t mod 10),
     CHR ''-'', dig (month t div 10), dig (month t mod 10), CHR ''-'', dig (day t div 10), dig (day t mod 10),
     CHR '' '', dig (hour t div 10), dig (hour t mod 10), CHR '':'', dig (minute t div 10), dig (minute t mod 10),
     CHR '':'', dig (second t div 10), dig (second t mod 10), CHR '' '', CHR ''U'', CHR ''T'', CHR ''C'']"
  using assms by (simp add: strftime_sent_at_def valid_datetime_def nat_str_4 pad2_2)

definition digit_val :: "char \<Rightarrow> nat" where "digit_val c = of_char c - 48"

lemma digit_val_dig: "d < 10 \<Longrightarrow> digit_val (dig d) = d"
  by (simp add: digit_val_def dig_def)

text \<open>A reader of the stamp at fixed positions, the reference for the round trip.\<close>

fun parse_sent_at :: "pystr \<Rightarrow> (nat \<times> nat \<times> nat \<times> nat \<times> nat \<times> nat) option" where
  "parse_sent_at [y3, y2, y1, y0, s1, m1, m0, s2, d1, d0, s3, h1, h0, s4, n1, n0, s5, c1, c0, s6, u, t, z] =
     (if [s1, s2, s3, s4, s5, s6, u, t, z] = ''-- :: UTC''
      then Some (1000 * digit_val y3 + 100 * digit_val y2 + 10 * digit_val y1 + digit_val y0,
                 10 * digit_val m1 + digit_val m0, 10 * digit_val d1 + digit_val d0,
                 10 * digit_val h1 + digit_val h0, 10 * digit_val n1 + digit_val n0,
                 10 * digit_val c1 + digit_val c0)
      else None)"
| "parse_sent_at _ = None"

text \<open>
  Claim C30. For a datetime with a four-digit year, the \<open>Sent at\<close> stamp is
  23 characters long and a fixed-position reader gets back exactly its year,
  month, day, hour, minute and second: the format loses only the microseconds
  and the UTC offset, which it ignores (a stamp printed as \<open>UTC\<close> for a
  client-supplied time with another offset).
\<close>

theorem strftime_roundtrip:
  assumes "valid_datetime t"
  shows "length (strftime_sent_at t) = 23
    \<and> parse_sent_at (strftime_sent_at t) = Some (year t, month t, day t, hour t, minute t, second t)
    \<and> strftime_sent_at (t\<lparr>utcoffset := z, microsecond := us\<rparr>) = strftime_sent_at t"
proof -
  have v: "year t div 1000 < 10" "month t div 10 < 10" "day t div 10 < 10" "hour t div 10 < 10"
    "minute t div 10 < 10" "second t div 10 < 10"
    using assms by (simp_all add: valid_datetime_def div_less_iff_less_mult)
  have y: "1000 * (year t div 1000) + 100 * (year t div 100 mod 10) + 10 * (year t div 10 mod 10) + year t mod 10 = year t"
    using digits4_decomp [of "year t"] by simp
  have c: "strftime_sent_at t =
    [dig (year t div 1000), dig (year t div 100 mod 10), dig (year t div 10 mod 10), dig (year t mod 10),
     CHR ''-'', dig (month t div 10), dig (month t mod 10), CHR ''-'', dig (day t div 10), dig (day t mod 10),
     CHR '' '', dig (hour t div 10), dig (hour t mod 10), CHR '':'', dig (minute t div 10), dig (minute t mod 10),
     CHR '':'', dig (second t div 10), dig (second t mod 10), CHR '' '', CHR ''U'', CHR ''T'', CHR ''C'']"
    by (rule strftime_chars [OF assms])
  have p: "parse_sent_at (strftime_sent_at t) = Some (year t, month t, day t, hour t, minute t, second t)"
    using v y by (simp only: c parse_sent_at.simps) (simp add: digit_val_dig)
  have z: "strftime_sent_at (t\<lparr>utcoffset := z, microsecond := us\<rparr>) = strftime_sent_at t"
    by (simp add: strftime_sent_at_def)
  show ?thesis using c p z by simp
qed

theorem strftime_roundtrip_witness:
  "length (strftime_sent_at sample_now) = 23
   \<and> parse_sent_at (strftime_sent_at sample_now) = Some (2024, 5, 17, 9, 30, 5)
   \<and> strftime_sent_at (sample_now\<lparr>utcoffset := Some 120, microsecond := 5\<rparr>) = strftime_sent_at sample_now"
proof -
  have h: "valid_datetime sample_now" by (simp add: valid_datetime_def sample_now_def)
  show ?thesis
    using strftime_roundtrip [OF h, where z = "Some 120" and us = 5] by (simp add: sample_now_def)
qed

subsection \<open>Reading the port\<close>

lemma nat_str_nonempty: "nat_str n \<noteq> []"
  by (subst nat_str.simps) simp

lemma nat_str_digits: "c \<in> set (nat_str n) \<Longrightarrow> is_digit c"
proof (induction n rule: nat_str.induct)
  case (1 n)
  show ?case
  proof (cases "n < 10")
    case True
    with "1.prems" show ?thesis by (simp add: nat_str_digit dig_def is_digit_def)
  next
    case False
    with "1.prems" "1.IH" show ?thesis
      by (auto simp: nat_str_step dig_def is_digit_def)
  qed
qed

lemma digit_not_underscore: "is_digit c \<Longrightarrow> c \<noteq> CHR ''_''"
  by (auto simp: is_digit_def)

lemma digits_value_nat_str: "digits_value (nat_str n) = int n"
proof (induction n rule: nat_str.induct)
  case (1 n)
  show ?case
  proof (cases "n < 10")
    case True
    have "dig n \<noteq> CHR ''_''"
      using nat_str_digits [of "dig n" n] True by (simp add: nat_str_digit digit_not_underscore)
    with True show ?thesis by (simp add: nat_str_digit digits_value_def dig_def)
  next
    case False
    have u: "dig (n mod 10) \<noteq> CHR ''_''"
      using nat_str_digits [of "dig (n mod 10)" n] False
      by (auto simp: nat_str_step is_digit_def)
    from False "1.IH" have "digits_value (nat_str (n div 10)) = int (n div 10)" by simp
    moreover have "int n = 10 * int (n div 10) + int (n mod 10)"
      using div_mult_mod_eq [of n 10] by linarith
    ultimately show ?thesis using False u
      by (simp add: nat_str_step digits_value_def dig_def)
  qed
qed

lemma no_double_underscore_digits:
  "\<forall>c\<in>set s. is_digit c \<Longrightarrow> no_double_underscore s"
  by (induction s rule: no_double_underscore.induct) (auto simp: is_digit_def)

lemma py_strip_digits: "s \<noteq> [] \<Longrightarrow> \<forall>c\<in>set s. is_digit c \<Longrightarrow> py_strip s = s"
proof -
  assume ne: "s \<noteq> []" and d: "\<forall>c\<in>set s. is_digit c"
  have sp: "\<And>c. is_digit c \<Longrightarrow> \<not> py_space c"
    by (auto simp: is_digit_def py_space_def)
  have "\<not> py_space (hd s)" "\<not> py_space (last s)"
    using ne d sp by simp_all
  then have "dropWhile py_space s = s" "dropWhile py_space (rev s) = rev s"
    using ne by (simp_all add: dropWhile_eq_self_iff hd_rev)
  then show ?thesis by (simp add: py_strip_def)
qed

lemma py_int_nat_str: "py_int (nat_str n) = Inr (int n)"
proof -
  let ?s = "nat_str n"
  have ne: "?s \<noteq> []" by (rule nat_str_nonempty)
  have d: "\<forall>c\<in>set ?s. is_digit c" using nat_str_digits by blast
  then have h: "is_digit (hd ?s)" "is_digit (last ?s)" using ne by simp_all
  then have "hd ?s \<noteq> CHR ''-''" "hd ?s \<noteq> CHR ''+''" by (auto simp: is_digit_def)
  moreover have "digits_ok ?s"
    using ne d h no_double_underscore_digits [OF d] by (simp add: digits_ok_def)
  ultimately show ?thesis
    using ne py_strip_digits [OF ne d] digits_value_nat_str [of n]
    by (cases ?s) (simp_all add: py_int_def)
qed

lemma set_py_strip: "set (py_strip s) \<subseteq> set s"
proof
  fix x assume "x \<in> set (py_strip s)"
  then have "x \<in> set (dropWhile py_space (rev (dropWhile py_space s)))"
    by (simp add: py_strip_def)
  then have "x \<in> set (dropWhile py_space s)" using set_dropWhileD by fastforce
  then show "x \<in> set s" using set_dropWhileD by fastforce
qed

lemma py_int_no_digit:
  assumes "\<forall>c\<in>set s. \<not> is_digit c"
  shows "\<exists>e. py_int s = Inl e \<and> exc_type e = ValueError"
proof -
  have t: "\<forall>c\<in>set (py_strip s). \<not> is_digit c" using assms set_py_strip by blast
  have nb: "\<not> digits_ok b" if "set b \<subseteq> set (py_strip s)" for b
    using that t by (cases b) (auto simp: digits_ok_def)
  show ?thesis
  proof (cases "py_strip s")
    case Nil
    then show ?thesis by (simp add: py_int_def digits_ok_def)
  next
    case (Cons c r)
    have "\<not> digits_ok r" "\<not> digits_ok (py_strip s)" using nb Cons by auto
    with Cons show ?thesis by (auto simp: py_int_def Let_def)
  qed
qed

text \<open>
  Claim C31. The SMTP port is 587 when \<open>SMTP_PORT\<close> is unset, the decimal value
  of the variable when it holds a decimal numeral (Python's \<open>int()\<close> reads back
  what \<open>str()\<close> of a natural number prints), and a variable with no digit at
  all, such as an empty \<open>SMTP_PORT=\<close>, makes the service's constructor raise
  \<open>ValueError\<close>, which aborts the import of the contact routes.
\<close>

theorem EmailService_init_port:
  "(env ''SMTP_PORT'' = None \<longrightarrow> (\<exists>cfg. EmailService_init env = Inr cfg \<and> smtp_port cfg = 587))
   \<and> (env ''SMTP_PORT'' = Some (nat_str n) \<longrightarrow>
        (\<exists>cfg. EmailService_init env = Inr cfg \<and> smtp_port cfg = int n))
   \<and> (env ''SMTP_PORT'' = Some s \<longrightarrow> (\<forall>c\<in>set s. \<not> is_digit c) \<longrightarrow>
        (\<exists>e. EmailService_init env = Inl e \<and> exc_type e = ValueError))"
proof (intro conjI impI)
  assume "env ''SMTP_PORT'' = None"
  moreover have "py_int ''587'' = Inr 587"
    by (simp add: py_int_def py_strip_def py_space_def digits_ok_def is_digit_def digits_value_def)
  ultimately show "\<exists>cfg. EmailService_init env = Inr cfg \<and> smtp_port cfg = 587"
    by (simp add: EmailService_init_def getenv_default_def)
next
  assume "env ''SMTP_PORT'' = Some (nat_str n)"
  then show "\<exists>cfg. EmailService_init env = Inr cfg \<and> smtp_port cfg = int n"
    by (simp add: EmailService_init_def getenv_default_def py_int_nat_str)
next
  assume e: "env ''SMTP_PORT'' = Some s" and nd: "\<forall>c\<in>set s. \<not> is_digit c"
  from py_int_no_digit [OF nd] obtain x where "py_int s = Inl x" "exc_type x = ValueError"
    by blast
  with e show "\<exists>x. EmailService_init env = Inl x \<and> exc_type x = ValueError"
    by (simp add: EmailService_init_def getenv_default_def)
qed

theorem EmailService_init_port_witness:
  "(\<exists>cfg. EmailService_init Map.empty = Inr cfg \<and> smtp_port cfg = 587)
   \<and> (\<exists>cfg. EmailService_init [''SMTP_PORT'' \<mapsto> ''2525''] = Inr cfg \<and> smtp_port cfg = 2525)
   \<and> (\<exists>e. EmailService_init [''SMTP_PORT'' \<mapsto> []] = Inl e \<and> exc_type e = ValueError)"
proof -
  have s: "nat_str 2525 = ''2525''" by (simp add: nat_str.simps) code_simp
  have a: "(Map.empty :: environ) ''SMTP_PORT'' = None" by simp
  have b: "[''SMTP_PORT'' \<mapsto> ''2525''] ''SMTP_PORT'' = Some (nat_str 2525)" using s by simp
  have c: "[''SMTP_PORT'' \<mapsto> []] ''SMTP_PORT'' = Some []" by simp
  have d: "\<forall>c\<in>set ([] :: pystr). \<not> is_digit c" by simp
  show ?thesis
    using EmailService_init_port [of Map.empty] a
      EmailService_init_port [of "[''SMTP_PORT'' \<mapsto> ''2525'']" 2525] b
      EmailService_init_port [of "[''SMTP_PORT'' \<mapsto> []]" _ "[]"] c d
    by simp
qed

subsection \<open>Lemmas on the session\<close>

lemma run_body_log:
  "\<exists>cs. smtp_log (snd (run_body srv steps w)) = smtp_log w @ cs \<and> prefix cs (map snd steps)
     \<and> (fst (run_body srv steps w) = None \<longrightarrow> cs = map snd steps)
     \<and> (fst (run_body srv steps w) \<noteq> None \<longrightarrow> cs \<noteq> [])"
proof (induction steps arbitrary: w)
  case Nil
  then show ?case by simp
next
  case (Cons st rest)
  obtain l c where st: "st = (l, c)" by fastforce
  show ?case
  proof (cases "srv (smtp_log w) c")
    case None
    from Cons.IH [of "snd (smtp_call srv c (say [l] w))"] None st
    show ?thesis by (auto simp: smtp_call_def)
  next
    case (Some e)
    with st show ?thesis by (auto simp: smtp_call_def)
  qed
qed

lemma run_body_stdout_prefix:
  "prefix (stdout w) (stdout (snd (run_body srv steps w)))"
proof (induction steps arbitrary: w)
  case Nil
  then show ?case by simp
next
  case (Cons st rest)
  obtain l c where st: "st = (l, c)" by fastforce
  have "prefix (stdout w) (stdout (snd (smtp_call srv c (say [l] w))))"
    by simp
  with Cons.IH [of "snd (smtp_call srv c (say [l] w))"] st show ?case
    by (cases "srv (smtp_log w) c")
       (auto simp: smtp_call_def dest: append_prefixD)
qed

lemma session_body_no_connect:
  "\<forall>x\<in>set (map snd (session_body cfg msg)). \<not> is_connect x"
  by (simp add: session_body_def)

lemma smtp_session_log:
  "\<exists>cs. smtp_log (snd (smtp_session cfg srv msg w)) =
          smtp_log w @ Connect (smtp_host cfg) (smtp_port cfg) # cs
     \<and> (\<forall>x\<in>set cs. \<not> is_connect x)
     \<and> (srv (smtp_log w) (Connect (smtp_host cfg) (smtp_port cfg)) = None \<longrightarrow> cs \<noteq> [] \<and> last cs = Quit)"
proof (cases "srv (smtp_log w) (Connect (smtp_host cfg) (smtp_port cfg))")
  case None
  let ?w1 = "snd (smtp_call srv (Connect (smtp_host cfg) (smtp_port cfg)) w)"
  obtain cs where cs: "smtp_log (snd (run_body srv (session_body cfg msg) ?w1)) = smtp_log ?w1 @ cs"
    "prefix cs (map snd (session_body cfg msg))"
    using run_body_log by blast
  have nc: "\<forall>x\<in>set cs. \<not> is_connect x"
    using cs(2) session_body_no_connect set_mono_prefix by blast
  show ?thesis
    using None cs nc
    by (auto simp: smtp_session_def smtp_exit_def smtp_call_def split: prod.splits option.splits)
next
  case (Some e)
  then show ?thesis by (simp add: smtp_session_def smtp_call_def)
qed

lemma say_say [simp]: "say b (say a w) = say (a @ b) w"
  by (simp add: say_def)

lemma smtp_except_log [simp]: "smtp_log (smtp_except e w) = smtp_log w"
  by (simp add: smtp_except_def)

lemma send_incomplete:
  "\<not> config_complete cfg \<Longrightarrow> send_contact_notification cfg srv c w =
     (Inr (), say (settings_lines cfg @ [Log_config_incomplete,
         Log_missing (py_truthy (smtp_user cfg)) (py_truthy (smtp_password cfg))
                     (py_truthy (email_to cfg))]) w)"
  by (simp add: send_contact_notification_def settings_lines_def)

lemma send_no_timestamp:
  "config_complete cfg \<Longrightarrow> timestamp c = None \<Longrightarrow>
     send_contact_notification cfg srv c w = (Inl none_strftime_error, say (settings_lines cfg) w)"
  by (simp add: send_contact_notification_def settings_lines_def)

lemma send_with_timestamp:
  "config_complete cfg \<Longrightarrow> timestamp c = Some t \<Longrightarrow>
     send_contact_notification cfg srv c w =
       (case smtp_session cfg srv (build_message cfg c t) (say (settings_lines cfg @ [Log_connecting]) w) of
          (None, w') \<Rightarrow> (Inr (), say [Log_sent (name c)] w')
        | (Some e, w') \<Rightarrow> (Inl e, smtp_except e w'))"
  by (simp add: send_contact_notification_def settings_lines_def)

lemma send_one_attempt:
  assumes "config_complete cfg" "timestamp c \<noteq> None"
  shows "\<exists>cs. smtp_log (snd (send_contact_notification cfg srv c w)) =
                smtp_log w @ Connect (smtp_host cfg) (smtp_port cfg) # cs
           \<and> (\<forall>x\<in>set cs. \<not> is_connect x)"
proof -
  obtain t where t: "timestamp c = Some t" using assms(2) by blast
  let ?w = "say (settings_lines cfg @ [Log_connecting]) w"
  obtain cs where cs: "smtp_log (snd (smtp_session cfg srv (build_message cfg c t) ?w)) =
                smtp_log ?w @ Connect (smtp_host cfg) (smtp_port cfg) # cs"
      "\<forall>x\<in>set cs. \<not> is_connect x"
    using smtp_session_log by blast
  then show ?thesis
    using assms(1) t
    by (auto simp: send_with_timestamp split: prod.splits option.splits)
qed

lemma send_all_accepted:
  assumes "config_complete cfg" "timestamp c = Some t"
    and "\<forall>h cmd. srv h cmd = None"
  shows "send_contact_notification cfg srv c w =
     (Inr (), w\<lparr>smtp_log := smtp_log w @ [Connect (smtp_host cfg) (smtp_port cfg), Starttls,
                   Login (the (smtp_user cfg)) (the (smtp_password cfg)),
                   Send_message (build_message cfg c t), Quit],
               stdout := stdout w @ settings_lines cfg @
                   [Log_connecting, Log_starting_tls, Log_logging_in, Log_sending, Log_sent (name c)]\<rparr>)"
  using assms
  by (simp add: send_with_timestamp smtp_session_def session_body_def smtp_exit_def
      smtp_call_def say_def)

lemma send_auth_failure:
  assumes "config_complete cfg" "timestamp c = Some t"
    and "\<forall>h. srv h (Connect (smtp_host cfg) (smtp_port cfg)) = None"
    and "\<forall>h. srv h Starttls = None"
    and "\<forall>h. srv h (Login (the (smtp_user cfg)) (the (smtp_password cfg))) =
               Some (PyExc SMTPAuthenticationError m)"
    and "\<forall>h. srv h Quit = None"
  shows "send_contact_notification cfg srv c w =
     (Inl (PyExc SMTPAuthenticationError m),
      w\<lparr>smtp_log := smtp_log w @ [Connect (smtp_host cfg) (smtp_port cfg), Starttls,
                   Login (the (smtp_user cfg)) (the (smtp_password cfg)), Quit],
        stdout := stdout w @ settings_lines cfg @
                   [Log_connecting, Log_starting_tls, Log_logging_in,
                    Log_auth_failed m, Log_check_credentials]\<rparr>)"
  using assms
  by (simp add: send_with_timestamp smtp_session_def session_body_def smtp_exit_def
      smtp_call_def say_def smtp_except_def)


lemma run_body_raised:
  "run_body srv steps w = (Some e, w') \<Longrightarrow>
     \<exists>h cmd. prefix (smtp_log w) h \<and> prefix (h @ [cmd]) (smtp_log w') \<and> srv h cmd = Some e"
proof (induction steps arbitrary: w)
  case Nil
  then show ?case by simp
next
  case (Cons st rest)
  obtain l c where st: "st = (l, c)" by fastforce
  show ?case
  proof (cases "srv (smtp_log w) c")
    case None
    with Cons.prems st have "run_body srv rest (snd (smtp_call srv c (say [l] w))) = (Some e, w')"
      by (simp add: smtp_call_def)
    from Cons.IH [OF this] show ?thesis
      by (auto simp: smtp_call_def dest: append_prefixD)
  next
    case (Some e')
    with Cons.prems st show ?thesis
      by (auto simp: smtp_call_def)
  qed
qed

lemma smtp_exit_log: "smtp_log (snd (smtp_exit srv p w)) = smtp_log w @ [Quit]"
  by (simp add: smtp_exit_def smtp_call_def split: option.splits)

lemma smtp_exit_raised:
  "fst (smtp_exit srv p w) = Some e \<Longrightarrow> p = Some e \<or> srv (smtp_log w) Quit = Some e"
  by (auto simp: smtp_exit_def smtp_call_def split: option.splits if_splits)

lemma smtp_session_raised:
  assumes "smtp_session cfg srv msg w = (Some e, w')"
  shows "\<exists>h cmd. prefix (smtp_log w) h \<and> prefix (h @ [cmd]) (smtp_log w') \<and> srv h cmd = Some e"
proof (cases "srv (smtp_log w) (Connect (smtp_host cfg) (smtp_port cfg))")
  case (Some e0)
  with assms show ?thesis
    by (auto simp: smtp_session_def smtp_call_def intro!: exI [of _ "smtp_log w"])
next
  case None
  let ?w1 = "snd (smtp_call srv (Connect (smtp_host cfg) (smtp_port cfg)) w)"
  obtain p w2 where rb: "run_body srv (session_body cfg msg) ?w1 = (p, w2)"
    by fastforce
  with None assms have ex: "smtp_exit srv p w2 = (Some e, w')"
    by (simp add: smtp_session_def smtp_call_def)
  then have w': "smtp_log w' = smtp_log w2 @ [Quit]"
    using smtp_exit_log [of srv p w2] by simp
  from ex have "p = Some e \<or> srv (smtp_log w2) Quit = Some e"
    using smtp_exit_raised [of srv p w2 e] by simp
  then show ?thesis
  proof
    assume "p = Some e"
    with rb obtain h cmd where "prefix (smtp_log ?w1) h" "prefix (h @ [cmd]) (smtp_log w2)"
        "srv h cmd = Some e"
      using run_body_raised by blast
    with w' show ?thesis
      by (auto simp: smtp_call_def dest: append_prefixD intro: prefix_order.order_trans)
  next
    assume q: "srv (smtp_log w2) Quit = Some e"
    obtain cs where "smtp_log w2 = smtp_log ?w1 @ cs"
      using run_body_log [of srv "session_body cfg msg" ?w1] rb by auto
    with q w' show ?thesis
      by (auto simp: smtp_call_def intro!: exI [of _ "smtp_log w2"])
  qed
qed

subsection \<open>Sample configuration and servers used by the witnesses\<close>

definition sample_config :: email_config where
  "sample_config = \<lparr>smtp_host = ''smtp.gmail.com'', smtp_port = 587,
     smtp_user = Some ''owner@example.com'', smtp_password = Some ''app-password'',
     email_from = Some ''owner@example.com'', email_to = Some ''owner@example.com''\<rparr>"

definition sample_contact :: contact_message where
  "sample_contact = \<lparr>name = ''Jane Doe'', email = ''jane@example.com'', subject = ''Hello'',
     message = ''I would like to talk.'', timestamp = Some sample_now\<rparr>"

definition empty_world :: world where
  "empty_world = \<lparr>smtp_log = [], stdout = []\<rparr>"

definition accepting_server :: smtp_server where
  "accepting_server h cmd = None"

definition auth_rejecting_server :: smtp_server where
  "auth_rejecting_server h cmd =
     (case cmd of Login u p \<Rightarrow> Some (PyExc SMTPAuthenticationError ''(535, Username and Password not accepted)'')
      | _ \<Rightarrow> None)"

subsection \<open>Properties\<close>

text \<open>
  Claim C11. When the SMTP user, the password or the recipient is unset or
  empty, sending reports success and issues no SMTP command at all.
\<close>

theorem send_skips_incomplete:
  "\<not> config_complete cfg \<Longrightarrow>
     fst (send_contact_notification cfg srv c w) = Inr ()
     \<and> smtp_log (snd (send_contact_notification cfg srv c w)) = smtp_log w"
  by (simp add: send_incomplete)

theorem send_skips_incomplete_witness:
  "\<not> config_complete (sample_config\<lparr>smtp_password := Some []\<rparr>)
   \<and> fst (send_contact_notification (sample_config\<lparr>smtp_password := Some []\<rparr>)
          auth_rejecting_server sample_contact empty_world) = Inr ()
   \<and> smtp_log (snd (send_contact_notification (sample_config\<lparr>smtp_password := Some []\<rparr>)
          auth_rejecting_server sample_contact empty_world)) = smtp_log empty_world"
proof -
  have h: "\<not> config_complete (sample_config\<lparr>smtp_password := Some []\<rparr>)"
    by (simp add: config_complete_def sample_config_def)
  show ?thesis using h send_skips_incomplete [OF h] by simp
qed

text \<open>
  Claim C12. With a complete configuration and a timestamp, one call makes
  exactly one connection attempt to the configured host and port: the first
  command it issues, and no other command it issues is a connection.
\<close>

theorem send_exactly_one_attempt:
  "config_complete cfg \<Longrightarrow> timestamp c \<noteq> None \<Longrightarrow>
     \<exists>cs. smtp_log (snd (send_contact_notification cfg srv c w)) =
            smtp_log w @ Connect (smtp_host cfg) (smtp_port cfg) # cs
       \<and> (\<forall>x\<in>set cs. \<not> is_connect x)"
  by (rule send_one_attempt)

theorem send_exactly_one_attempt_witness:
  "config_complete sample_config \<and> timestamp sample_contact \<noteq> None \<and>
   (\<exists>cs. smtp_log (snd (send_contact_notification sample_config auth_rejecting_server
                           sample_contact empty_world)) =
          smtp_log empty_world @ Connect (smtp_host sample_config) (smtp_port sample_config) # cs
     \<and> (\<forall>x\<in>set cs. \<not> is_connect x))"
proof -
  have h1: "config_complete sample_config"
    by (simp add: config_complete_def sample_config_def)
  have h2: "timestamp sample_contact \<noteq> None"
    by (simp add: sample_contact_def)
  show ?thesis
    using h1 h2 send_exactly_one_attempt [OF h1 h2, of auth_rejecting_server empty_world] by simp
qed

text \<open>
  Claim C13. Sending fails only by re-raising, unchanged, an exception that
  smtplib raised for a command actually issued during this call, or, before any
  command, the \<open>AttributeError\<close> of formatting a \<open>None\<close> timestamp.
\<close>

theorem send_failure_propagates:
  assumes "send_contact_notification cfg srv c w = (Inl e, w')"
  shows "(timestamp c = None \<and> e = none_strftime_error \<and> smtp_log w' = smtp_log w)
     \<or> (\<exists>h cmd. prefix (smtp_log w) h \<and> prefix (h @ [cmd]) (smtp_log w') \<and> srv h cmd = Some e)"
proof (cases "config_complete cfg")
  case False
  with assms show ?thesis by (simp add: send_incomplete)
next
  case True
  show ?thesis
  proof (cases "timestamp c")
    case None
    with True assms show ?thesis by (auto simp: send_no_timestamp)
  next
    case (Some t)
    let ?w = "say (settings_lines cfg @ [Log_connecting]) w"
    obtain r w2 where ss: "smtp_session cfg srv (build_message cfg c t) ?w = (r, w2)"
      by fastforce
    with True Some assms obtain e' where "r = Some e'" "e' = e" "w' = smtp_except e w2"
      by (cases r) (auto simp: send_with_timestamp)
    with ss have "smtp_session cfg srv (build_message cfg c t) ?w = (Some e, w2)" "smtp_log w' = smtp_log w2"
      by simp_all
    then show ?thesis
      using smtp_session_raised [of cfg srv "build_message cfg c t" ?w e w2] by auto
  qed
qed

theorem send_failure_propagates_witness:
  "send_contact_notification sample_config auth_rejecting_server sample_contact empty_world =
     (Inl (PyExc SMTPAuthenticationError ''(535, Username and Password not accepted)''),
      snd (send_contact_notification sample_config auth_rejecting_server sample_contact empty_world))
   \<and> (\<exists>h cmd. prefix (smtp_log empty_world) h
        \<and> prefix (h @ [cmd]) (smtp_log (snd (send_contact_notification sample_config
                auth_rejecting_server sample_contact empty_world)))
        \<and> auth_rejecting_server h cmd =
             Some (PyExc SMTPAuthenticationError ''(535, Username and Password not accepted)''))"
proof -
  let ?e = "PyExc SMTPAuthenticationError ''(535, Username and Password not accepted)''"
  let ?r = "send_contact_notification sample_config auth_rejecting_server sample_contact empty_world"
  have f: "fst ?r = Inl ?e"
    by (simp add: send_contact_notification_def config_complete_def sample_config_def
        sample_contact_def smtp_session_def session_body_def smtp_exit_def smtp_call_def
        auth_rejecting_server_def)
  then have h: "?r = (Inl ?e, snd ?r)"
    by (metis prod.collapse)
  have "timestamp sample_contact \<noteq> None" by (simp add: sample_contact_def)
  with h send_failure_propagates [OF h] show ?thesis by auto
qed

text \<open>
  Claim C18. When the server accepts every command, the call issues exactly the
  session \<open>CONNECT\<close>, \<open>STARTTLS\<close>, \<open>LOGIN\<close>, the message, \<open>QUIT\<close>, in this
  order, prints the corresponding progress lines, and reports success.
\<close>

theorem send_session_order:
  assumes "config_complete cfg" "timestamp c = Some t" "\<forall>h cmd. srv h cmd = None"
  shows "send_contact_notification cfg srv c w =
     (Inr (), w\<lparr>smtp_log := smtp_log w @ [Connect (smtp_host cfg) (smtp_port cfg), Starttls,
                   Login (the (smtp_user cfg)) (the (smtp_password cfg)),
                   Send_message (build_message cfg c t), Quit],
               stdout := stdout w @ settings_lines cfg @
                   [Log_connecting, Log_starting_tls, Log_logging_in, Log_sending, Log_sent (name c)]\<rparr>)"
  using assms by (rule send_all_accepted)

theorem send_session_order_witness:
  "send_contact_notification sample_config accepting_server sample_contact empty_world =
     (Inr (), empty_world\<lparr>smtp_log := [Connect ''smtp.gmail.com'' 587, Starttls,
                   Login ''owner@example.com'' ''app-password'',
                   Send_message (build_message sample_config sample_contact sample_now), Quit],
               stdout := settings_lines sample_config @
                   [Log_connecting, Log_starting_tls, Log_logging_in, Log_sending, Log_sent ''Jane Doe'']\<rparr>)"
proof -
  have h1: "config_complete sample_config" by (simp add: config_complete_def sample_config_def)
  have h2: "timestamp sample_contact = Some sample_now" by (simp add: sample_contact_def)
  have h3: "\<forall>h cmd. accepting_server h cmd = None" by (simp add: accepting_server_def)
  show ?thesis
    using send_session_order [OF h1 h2 h3, of empty_world]
    by (simp add: sample_config_def sample_contact_def empty_world_def)
qed

text \<open>
  Claim C19. A connection that was opened is always closed: when the connection
  attempt succeeds, the last command the call issues is \<open>QUIT\<close>, whatever the
  server answers to the commands in between.
\<close>

theorem send_quits_after_connect:
  assumes "config_complete cfg" "timestamp c \<noteq> None"
    and "srv (smtp_log w) (Connect (smtp_host cfg) (smtp_port cfg)) = None"
  shows "last (smtp_log (snd (send_contact_notification cfg srv c w))) = Quit"
proof -
  obtain t where t: "timestamp c = Some t" using assms(2) by blast
  let ?w = "say (settings_lines cfg @ [Log_connecting]) w"
  obtain cs where cs: "smtp_log (snd (smtp_session cfg srv (build_message cfg c t) ?w)) =
                smtp_log ?w @ Connect (smtp_host cfg) (smtp_port cfg) # cs"
      "srv (smtp_log ?w) (Connect (smtp_host cfg) (smtp_port cfg)) = None \<longrightarrow> cs \<noteq> [] \<and> last cs = Quit"
    using smtp_session_log by blast
  with assms(1,3) t show ?thesis
    by (auto simp: send_with_timestamp split: prod.splits option.splits)
qed

theorem send_quits_after_connect_witness:
  "last (smtp_log (snd (send_contact_notification sample_config auth_rejecting_server
      sample_contact empty_world))) = Quit"
proof -
  have h1: "config_complete sample_config" by (simp add: config_complete_def sample_config_def)
  have h2: "timestamp sample_contact \<noteq> None" by (simp add: sample_contact_def)
  have h3: "auth_rejecting_server (smtp_log empty_world)
              (Connect (smtp_host sample_config) (smtp_port sample_config)) = None"
    by (simp add: auth_rejecting_server_def)
  show ?thesis
    by (rule send_quits_after_connect [where srv = auth_rejecting_server and w = empty_world,
          OF h1 h2 h3])
qed

lemma sublist_html_line: "sublist s (html_line k (a @ s @ b))"
  unfolding html_line_def by (metis append.assoc sublist_appendI)

text \<open>
  Claim C21. The notification embeds the sender's name, address, subject and
  message verbatim in the HTML body, without escaping (markup in a contact
  field reaches the owner's mailbox as markup), and replies go to the sender's
  validated address.
\<close>

theorem message_embeds_fields_verbatim:
  "sublist (name c) (msg_html (build_message cfg c t))
   \<and> sublist (email c) (msg_html (build_message cfg c t))
   \<and> sublist (subject c) (msg_html (build_message cfg c t))
   \<and> sublist (message c) (msg_html (build_message cfg c t))
   \<and> msg_reply_to (build_message cfg c t) = email c
   \<and> msg_subject (build_message cfg c t) = ''Portfolio Contact: '' @ subject c"
proof -
  have n: "sublist (name c) (contact_html c t)"
    unfolding contact_html_def
    by (rule sublist_concat_mono [OF sublist_html_line [of "name c" 16 "''<p><strong>From:</strong> ''" "''</p>''"]]) simp
  have e: "sublist (email c) (contact_html c t)"
    unfolding contact_html_def
    by (rule sublist_concat_mono [OF sublist_html_line [of "email c" 16 "''<p><strong>Email:</strong> ''" "''</p>''"]]) simp
  have s: "sublist (subject c) (contact_html c t)"
    unfolding contact_html_def
    by (rule sublist_concat_mono [OF sublist_html_line [of "subject c" 16 "''<p><strong>Subject:</strong> ''" "''</p>''"]]) simp
  have m: "sublist (message c) (contact_html c t)"
    unfolding contact_html_def
    by (rule sublist_concat_mono [OF sublist_html_line [of "message c" 16 "''<p>''" "''</p>''"]]) simp
  from n e s m show ?thesis by (simp add: build_message_def)
qed

end
