(* ===== verification/Contact_Use_Case.thy ===== *)
theory Contact_Use_Case
  imports Effects
begin

text \<open>
  \<open>ContactUseCase\<close> (application/use_cases/contact_use_case.py). The use case
  receives its email service by constructor injection; the model states it
  over any \<open>notifier\<close>, the interface the email service implements (theory
  Email_Service provides one). the use case record holds it (\<open>ContactUseCase.__init__\<close>), and
  \<open>submit_contact_form\<close> calls it once;
  on success it returns the success dict, on any exception it prints the error
  and returns the uniform error dict.
\<close>

type_synonym notifier = "contact_message \<Rightarrow> world \<Rightarrow> (pyexc + unit) \<times> world"

record contact_result =
  status :: pystr
  result_message :: pystr

definition success_result :: contact_result where
  "success_result = \<lparr>status = ''success'',
     result_message = ''Thank you for your message! I'll get back to you soon.''\<rparr>"

definition error_result :: contact_result where
  "error_result = \<lparr>status = ''error'',
     result_message = ''Failed to send message. Please try again or email directly.''\<rparr>"

text \<open>\<open>ContactUseCase.__init__\<close>: the use case keeps the injected email service.\<close>

record contact_use_case =
  email_service :: notifier

definition ContactUseCase_init :: "notifier \<Rightarrow> contact_use_case" where
  "ContactUseCase_init svc = \<lparr>email_service = svc\<rparr>"

definition submit_contact_form ::
  "contact_use_case \<Rightarrow> contact_message \<Rightarrow> world \<Rightarrow> contact_result \<times> world" where
  "submit_contact_form uc c w =
     (case email_service uc c w of
        (Inr _, w') \<Rightarrow> (success_result, w')
      | (Inl e, w') \<Rightarrow> (error_result, say [Log_contact_error (exc_str e)] w'))"

lemma submit_contact_form_Inr:
  "email_service uc c w = (Inr (), w') \<Longrightarrow> submit_contact_form uc c w = (success_result, w')"
  by (simp add: submit_contact_form_def)

lemma submit_contact_form_Inl:
  "email_service uc c w = (Inl e, w') \<Longrightarrow>
     submit_contact_form uc c w = (error_result, say [Log_contact_error (exc_str e)] w')"
  by (simp add: submit_contact_form_def)

lemma submit_contact_form_log:
  "smtp_log (snd (submit_contact_form uc c w)) = smtp_log (snd (email_service uc c w))"
  by (simp add: submit_contact_form_def split: prod.splits sum.splits)

lemma submit_contact_form_status:
  "status (fst (submit_contact_form uc c w)) \<in> {''success'', ''error''}"
  by (simp add: submit_contact_form_def success_result_def error_result_def
      split: prod.splits sum.splits)

lemma result_status_distinct [simp]:
  "status success_result = ''success''" "status error_result = ''error''"
  "success_result \<noteq> error_result"
  by (simp_all add: success_result_def error_result_def)

subsection \<open>Properties\<close>

text \<open>
  Claim C16. For any injected notifier, the use case reports success exactly
  when the notifier returned normally; every exception becomes the same error
  result, whatever its class or text, and is printed once, and the SMTP traffic
  is the notifier's own.
\<close>

theorem submit_contact_form_uniform:
  "fst (submit_contact_form (ContactUseCase_init notify) c w) =
       (if isl (fst (notify c w)) then error_result else success_result)
   \<and> smtp_log (snd (submit_contact_form (ContactUseCase_init notify) c w)) = smtp_log (snd (notify c w))
   \<and> stdout (snd (submit_contact_form (ContactUseCase_init notify) c w)) =
       stdout (snd (notify c w)) @
         (case fst (notify c w) of Inl e \<Rightarrow> [Log_contact_error (exc_str e)] | Inr _ \<Rightarrow> [])"
  by (simp add: submit_contact_form_def ContactUseCase_init_def split: prod.splits sum.splits)

end
