(* ===== verification/Http.thy ===== *)
theory Http
  imports Entities
begin

text \<open>
  The vocabulary of the boundary layer: requests, JSON values as FastAPI
  serialises them, the responses an endpoint produces (a status code with a JSON body, or
  a file), the \<open>HTTPException\<close> convention of FastAPI (the status with the
  body \<open>{"detail": ...}\<close>), and the JSON form of the entities that endpoints
  return through their \<open>response_model\<close>.
\<close>

datatype json =
    JNull
  | JBool bool
  | JInt int
  | JFloat rat
  | JStr pystr
  | JArr "json list"
  | JObj "(pystr \<times> json) list"

text \<open>
  A response: a status with a JSON body, a file (path, download name, media
  type), a redirect (307, to the given path), a request the \<open>/static\<close> mount
  serves (\<open>StaticFiles\<close> is library code and not modelled further), a
  status with a plain-text body, or one of the documentation pages FastAPI
  generates (the OpenAPI schema, Swagger UI and its OAuth2 redirect page, ReDoc),
  whose contents are library output and not modelled.
\<close>

datatype doc_page = Openapi_schema | Swagger_ui | Swagger_ui_oauth2_redirect | Redoc

datatype response =
    Json_response nat json
  | File_response pystr pystr pystr
  | Redirect_response pystr
  | Static_files pystr
  | Text_response nat pystr
  | Docs_response doc_page

text \<open>
  A request body as FastAPI reads it for a JSON body parameter
  (fastapi/routing.py): empty, not decodable as JSON (\<open>JSONDecodeError\<close>), or a
  decoded JSON value. The content type is taken to be JSON or absent.
\<close>

datatype request_body = Empty_body | Invalid_json | Json_body json

text \<open>A request: its method, its path, and its body.\<close>

datatype http_method = GET | HEAD | POST | PUT | DELETE | PATCH | OPTIONS

record request =
  req_method :: http_method
  req_path :: pystr
  req_body :: request_body

definition http_exception :: "nat \<Rightarrow> pystr \<Rightarrow> response" where
  "http_exception code detail = Json_response code (JObj [(''detail'', JStr detail)])"

definition status_of :: "response \<Rightarrow> nat" where
  "status_of r = (case r of Json_response c j \<Rightarrow> c | File_response p f m \<Rightarrow> 200
     | Redirect_response p \<Rightarrow> 307 | Static_files p \<Rightarrow> 200 | Text_response c t \<Rightarrow> c
     | Docs_response d \<Rightarrow> 200)"

lemma status_of_simps [simp]:
  "status_of (Json_response c j) = c"
  "status_of (File_response p f m) = 200"
  "status_of (Redirect_response p) = 307"
  "status_of (http_exception c d) = c"
  "status_of (Text_response c t) = c"
  "status_of (Docs_response pg) = 200"
  by (simp_all add: status_of_def http_exception_def)

text \<open>
  An exception no handler catches reaches Starlette's \<open>ServerErrorMiddleware\<close>,
  which answers with this plain-text 500 (the application runs without
  \<open>debug\<close>).
\<close>

definition server_error :: response where
  "server_error = Text_response 500 ''Internal Server Error''"

fun opt_json :: "pystr option \<Rightarrow> json" where
  "opt_json None = JNull"
| "opt_json (Some s) = JStr s"

lemma opt_json_eq_iff [simp]: "opt_json a = opt_json b \<longleftrightarrow> a = b"
  by (cases a; cases b) simp_all

text \<open>A \<open>Project\<close> serialised by \<open>response_model=Project\<close>, fields in declaration order.\<close>

definition project_json :: "project \<Rightarrow> json" where
  "project_json p = JObj
     [(''id'', JStr (id' p)), (''title'', JStr (title p)), (''tagline'', JStr (tagline p)),
      (''description'', JStr (description p)),
      (''technologies'', JArr (map JStr (technologies p))),
      (''highlights'', JArr (map JStr (highlights p))),
      (''start_date'', JStr (start_date p)), (''end_date'', opt_json (end_date p)),
      (''github_url'', opt_json (github_url p)), (''live_url'', opt_json (live_url p)),
      (''image_url'', opt_json (image_url p)), (''featured'', JBool (featured p)),
      (''category'', JStr (category p))]"

lemma project_json_inj: "project_json p = project_json q \<Longrightarrow> p = q"
  by (cases p, cases q) (simp add: project_json_def inj_on_def)

end
