(* ===== verification/Resume.thy ===== *)
theory Resume
  imports Http Effects
begin

text \<open>
  The resume endpoints (presentation/api/routes/resume.py). The served file
  system is a map from paths to the \<open>os.stat\<close> data the handlers read (size in
  bytes, modification time as a float, held exactly as a rational). The
  metadata handler reports the file as unavailable when the fixed path does not
  exist, and otherwise its size in KiB rounded by Python's \<open>round(x, 2)\<close>;
  the download handler answers 404 when the file is absent and a PDF file
  response otherwise. The metadata handler is also given with one snapshot
  per file-system read, to state what a concurrent change of the file does.
\<close>

record file_stat =
  st_size :: nat
  st_mtime :: rat

type_synonym filesystem = "pystr \<rightharpoonup> file_stat"

definition RESUME_PATH :: pystr where
  "RESUME_PATH = ''static/resumes/Liam_Nguyen_Resume.pdf''"

subsection \<open>Python's round to two decimals\<close>

text \<open>
  \<open>file_size / 1024\<close> is exact in binary floating point (for files below
  \<open>2^53\<close> bytes), and \<open>round(x, 2)\<close> rounds that exact value to the nearest
  multiple of \<open>0.01\<close>, ties to the even multiple; the JSON encoder prints the
  result as that decimal.
\<close>

definition round_half_even :: "rat \<Rightarrow> int" where
  "round_half_even x =
     (let f = \<lfloor>x\<rfloor>; d = x - of_int f
      in if d < 1/2 then f else if 1/2 < d then f + 1 else if even f then f else f + 1)"

definition size_kb :: "nat \<Rightarrow> rat" where
  "size_kb n = of_int (round_half_even (of_nat n / 1024 * 100)) / 100"

subsection \<open>Handlers\<close>

definition get_resume_metadata :: "filesystem \<Rightarrow> json" where
  "get_resume_metadata fs =
     (case fs RESUME_PATH of
        None \<Rightarrow> JObj [(''available'', JBool False),
                     (''filename'', JStr ''Liam_Nguyen_Resume.pdf''),
                     (''message'', JStr ''Resume file not uploaded yet'')]
      | Some st \<Rightarrow> JObj [(''available'', JBool True),
                     (''filename'', JStr ''Liam_Nguyen_Resume.pdf''),
                     (''size_kb'', JFloat (size_kb (st_size st))),
                     (''last_updated'', JFloat (st_mtime st)),
                     (''download_url'', JStr ''/api/v1/resume/download'')])"

definition download_resume :: "filesystem \<Rightarrow> response" where
  "download_resume fs =
     (if fs RESUME_PATH = None
      then http_exception 404 ''Resume file not found. Please contact the site administrator.''
      else File_response RESUME_PATH ''Liam_Nguyen_Resume.pdf'' ''application/pdf'')"

subsection \<open>The reads of the metadata handler\<close>

text \<open>
  The metadata handler reads the file system three times: \<open>os.path.exists\<close>,
  \<open>os.path.getsize\<close> and \<open>os.path.getmtime\<close>. The handler has no await point,
  so no other request of the process runs in between, but the file system is
  shared with other processes (a deployment that replaces the resume, an
  administrator who removes it). \<open>get_resume_metadata_io\<close> gives each read its
  own snapshot; \<open>get_resume_metadata\<close> above is the case where the three agree.
  \<open>getsize\<close> and \<open>getmtime\<close> call \<open>os.stat\<close>, which raises
  \<open>FileNotFoundError\<close> for a missing path.
\<close>

definition file_not_found :: "pystr \<Rightarrow> pyexc" where
  "file_not_found p = PyExc FileNotFoundError (''[Errno 2] No such file or directory: '' @ quoted p)"

definition os_getsize :: "filesystem \<Rightarrow> pystr \<Rightarrow> pyexc + nat" where
  "os_getsize fs p = (case fs p of None \<Rightarrow> Inl (file_not_found p) | Some st \<Rightarrow> Inr (st_size st))"

definition os_getmtime :: "filesystem \<Rightarrow> pystr \<Rightarrow> pyexc + rat" where
  "os_getmtime fs p = (case fs p of None \<Rightarrow> Inl (file_not_found p) | Some st \<Rightarrow> Inr (st_mtime st))"

definition get_resume_metadata_io ::
  "filesystem \<Rightarrow> filesystem \<Rightarrow> filesystem \<Rightarrow> pyexc + json" where
  "get_resume_metadata_io fs0 fs1 fs2 =
     (if fs0 RESUME_PATH = None
      then Inr (JObj [(''available'', JBool False),
                      (''filename'', JStr ''Liam_Nguyen_Resume.pdf''),
                      (''message'', JStr ''Resume file not uploaded yet'')])
      else (case os_getsize fs1 RESUME_PATH of
              Inl e \<Rightarrow> Inl e
            | Inr file_size \<Rightarrow>
                (case os_getmtime fs2 RESUME_PATH of
                   Inl e \<Rightarrow> Inl e
                 | Inr modified_time \<Rightarrow>
                     Inr (JObj [(''available'', JBool True),
                                (''filename'', JStr ''Liam_Nguyen_Resume.pdf''),
                                (''size_kb'', JFloat (size_kb file_size)),
                                (''last_updated'', JFloat modified_time),
                                (''download_url'', JStr ''/api/v1/resume/download'')]))))"

text \<open>
  FastAPI serialises the returned dict with status 200; an exception the
  handler does not catch reaches Starlette's \<open>ServerErrorMiddleware\<close>.
\<close>

definition metadata_response :: "pyexc + json \<Rightarrow> response" where
  "metadata_response r = (case r of Inl e \<Rightarrow> server_error | Inr j \<Rightarrow> Json_response 200 j)"

text \<open>
  The download handler checks \<open>os.path.exists\<close> and returns a
  \<open>FileResponse\<close>, which reads the file's \<open>os.stat\<close> only when Starlette sends
  it; a file missing by then makes it raise \<open>RuntimeError\<close> before any byte
  is sent, and the request answers the plain-text 500. The first snapshot is
  the one the handler sees, the second the one at sending time.
\<close>

definition download_resume_io :: "filesystem \<Rightarrow> filesystem \<Rightarrow> response" where
  "download_resume_io fs0 fs1 =
     (if fs0 RESUME_PATH = None
      then http_exception 404 ''Resume file not found. Please contact the site administrator.''
      else case fs1 RESUME_PATH of
        None \<Rightarrow> server_error
      | Some st \<Rightarrow> File_response RESUME_PATH ''Liam_Nguyen_Resume.pdf'' ''application/pdf'')"

subsection \<open>Lemmas\<close>

fun jget :: "json \<Rightarrow> pystr \<Rightarrow> json option" where
  "jget (JObj kvs) k = map_of kvs k"
| "jget _ k = None"

lemma round_half_even_close: "\<bar>of_int (round_half_even x) - x\<bar> \<le> 1/2"
proof -
  have b: "of_int \<lfloor>x\<rfloor> \<le> x \<and> x < of_int \<lfloor>x\<rfloor> + 1"
    using floor_correct [of x] by simp
  show ?thesis
  proof (cases "x - of_int \<lfloor>x\<rfloor> < 1/2")
    case True
    with b show ?thesis by (simp add: round_half_even_def Let_def)
  next
    case False
    with b show ?thesis by (auto simp: round_half_even_def Let_def)
  qed
qed

lemma size_kb_close: "\<bar>size_kb n - of_nat n / 1024\<bar> \<le> 1/200"
proof -
  let ?y = "of_nat n / 1024 * (100::rat)"
  have "\<bar>of_int (round_half_even ?y) - ?y\<bar> \<le> 1/2"
    by (rule round_half_even_close)
  then have "\<bar>of_int (round_half_even ?y) / 100 - ?y / 100\<bar> \<le> 1/200"
    by (simp add: abs_if field_simps split: if_splits)
  then show ?thesis by (simp add: size_kb_def)
qed

subsection \<open>Properties\<close>

text \<open>
  Claim C8. When the resume file is absent the metadata endpoint reports
  \<open>available: false\<close>, with the file name and the not-uploaded message; when
  it is present it reports \<open>available: true\<close>, the file's modification time,
  and a \<open>size_kb\<close> within 0.005 of the exact size in KiB.
\<close>

theorem resume_metadata_cases:
  "(fs RESUME_PATH = None \<longrightarrow>
       get_resume_metadata fs = JObj [(''available'', JBool False),
          (''filename'', JStr ''Liam_Nguyen_Resume.pdf''),
          (''message'', JStr ''Resume file not uploaded yet'')])
   \<and> (fs RESUME_PATH = Some st \<longrightarrow>
       jget (get_resume_metadata fs) ''available'' = Some (JBool True)
     \<and> jget (get_resume_metadata fs) ''last_updated'' = Some (JFloat (st_mtime st))
     \<and> (\<exists>k. jget (get_resume_metadata fs) ''size_kb'' = Some (JFloat k)
            \<and> \<bar>k - of_nat (st_size st) / 1024\<bar> \<le> 1/200))"
  using size_kb_close [of "st_size st"] by (simp add: get_resume_metadata_def)

theorem resume_metadata_cases_witness:
  "jget (get_resume_metadata Map.empty) ''available'' = Some (JBool False)
   \<and> jget (get_resume_metadata [RESUME_PATH \<mapsto> \<lparr>st_size = 1250, st_mtime = 1700000000\<rparr>])
      ''size_kb'' = Some (JFloat (122 / 100))"
proof -
  let ?fs = "[RESUME_PATH \<mapsto> \<lparr>st_size = 1250, st_mtime = (1700000000::rat)\<rparr>]"
  have a: "jget (get_resume_metadata Map.empty) ''available'' = Some (JBool False)"
    using resume_metadata_cases [of Map.empty] by simp
  have h: "?fs RESUME_PATH = Some \<lparr>st_size = 1250, st_mtime = (1700000000::rat)\<rparr>" by simp
  have k: "size_kb 1250 = 122 / 100"
    by (simp add: size_kb_def round_half_even_def Let_def) code_simp
  have "\<exists>x. jget (get_resume_metadata ?fs) ''size_kb'' = Some (JFloat x)"
    using resume_metadata_cases [of ?fs "\<lparr>st_size = 1250, st_mtime = 1700000000\<rparr>"] h by blast
  then have "jget (get_resume_metadata ?fs) ''size_kb'' = Some (JFloat (122 / 100))"
    using k by (simp add: get_resume_metadata_def)
  with a show ?thesis by simp
qed

lemma get_resume_metadata_io_cases:
  "get_resume_metadata_io fs0 fs1 fs2 =
     (if fs0 RESUME_PATH = None then Inr (get_resume_metadata fs0)
      else case (fs1 RESUME_PATH, fs2 RESUME_PATH) of
        (Some st1, Some st2) \<Rightarrow> Inr (JObj [(''available'', JBool True),
                                (''filename'', JStr ''Liam_Nguyen_Resume.pdf''),
                                (''size_kb'', JFloat (size_kb (st_size st1))),
                                (''last_updated'', JFloat (st_mtime st2)),
                                (''download_url'', JStr ''/api/v1/resume/download'')])
      | _ \<Rightarrow> Inl (file_not_found RESUME_PATH))"
  by (simp add: get_resume_metadata_io_def get_resume_metadata_def os_getsize_def os_getmtime_def
      split: option.splits)

text \<open>
  Claim C32. The metadata endpoint answers Starlette's plain-text 500 exactly
  when the file exists at the \<open>os.path.exists\<close> check and is gone at the
  \<open>getsize\<close> or the \<open>getmtime\<close> read, the exception being
  \<open>FileNotFoundError\<close> on the resume path; when the file is replaced between
  the two later reads, the reported size is that of the first file and the
  modification time that of the second. The download answers the 500 exactly
  when the file exists at the check and is gone when the response is sent.
\<close>

theorem resume_metadata_race:
  "(metadata_response (get_resume_metadata_io fs0 fs1 fs2) = server_error \<longleftrightarrow>
      fs0 RESUME_PATH \<noteq> None \<and> (fs1 RESUME_PATH = None \<or> fs2 RESUME_PATH = None))
   \<and> (get_resume_metadata_io fs0 fs1 fs2 = Inl e \<longrightarrow> e = file_not_found RESUME_PATH)
   \<and> (fs0 RESUME_PATH \<noteq> None \<longrightarrow> fs1 RESUME_PATH = Some st1 \<longrightarrow> fs2 RESUME_PATH = Some st2 \<longrightarrow>
        (\<exists>j. get_resume_metadata_io fs0 fs1 fs2 = Inr j
           \<and> jget j ''size_kb'' = Some (JFloat (size_kb (st_size st1)))
           \<and> jget j ''last_updated'' = Some (JFloat (st_mtime st2))))
   \<and> (download_resume_io fs0 fs1 = server_error \<longleftrightarrow>
        fs0 RESUME_PATH \<noteq> None \<and> fs1 RESUME_PATH = None)"
  by (simp add: get_resume_metadata_io_cases metadata_response_def server_error_def
      download_resume_io_def http_exception_def split: option.splits)

theorem resume_metadata_race_witness:
  "metadata_response (get_resume_metadata_io [RESUME_PATH \<mapsto> \<lparr>st_size = 2048, st_mtime = 1\<rparr>]
      [RESUME_PATH \<mapsto> \<lparr>st_size = 2048, st_mtime = 1\<rparr>] Map.empty) = server_error
   \<and> get_resume_metadata_io [RESUME_PATH \<mapsto> \<lparr>st_size = 2048, st_mtime = 1\<rparr>]
      [RESUME_PATH \<mapsto> \<lparr>st_size = 2048, st_mtime = 1\<rparr>] Map.empty = Inl (file_not_found RESUME_PATH)
   \<and> (\<exists>j. get_resume_metadata_io [RESUME_PATH \<mapsto> \<lparr>st_size = 2048, st_mtime = 1\<rparr>]
           [RESUME_PATH \<mapsto> \<lparr>st_size = 2048, st_mtime = 1\<rparr>]
           [RESUME_PATH \<mapsto> \<lparr>st_size = 4096, st_mtime = 2\<rparr>] = Inr j
        \<and> jget j ''size_kb'' = Some (JFloat (size_kb 2048))
        \<and> jget j ''last_updated'' = Some (JFloat 2))
   \<and> download_resume_io [RESUME_PATH \<mapsto> \<lparr>st_size = 2048, st_mtime = 1\<rparr>] Map.empty = server_error"
proof -
  let ?a = "[RESUME_PATH \<mapsto> \<lparr>st_size = 2048, st_mtime = (1::rat)\<rparr>]"
  let ?b = "[RESUME_PATH \<mapsto> \<lparr>st_size = 4096, st_mtime = (2::rat)\<rparr>]"
  have 1: "metadata_response (get_resume_metadata_io ?a ?a Map.empty) = server_error"
    using resume_metadata_race [of ?a ?a Map.empty] by simp
  obtain e where e: "get_resume_metadata_io ?a ?a Map.empty = Inl e"
    using 1 by (cases "get_resume_metadata_io ?a ?a Map.empty")
      (simp_all add: metadata_response_def server_error_def)
  then have 2: "get_resume_metadata_io ?a ?a Map.empty = Inl (file_not_found RESUME_PATH)"
    using resume_metadata_race [of ?a ?a Map.empty e] by simp
  have 3: "\<exists>j. get_resume_metadata_io ?a ?a ?b = Inr j
        \<and> jget j ''size_kb'' = Some (JFloat (size_kb 2048))
        \<and> jget j ''last_updated'' = Some (JFloat 2)"
    using resume_metadata_race [of ?a ?a ?b _ "\<lparr>st_size = 2048, st_mtime = 1\<rparr>"
        "\<lparr>st_size = 4096, st_mtime = 2\<rparr>"] by simp
  have 4: "download_resume_io ?a Map.empty = server_error"
    using resume_metadata_race [of ?a Map.empty] by simp
  show ?thesis using 1 2 3 4 by simp
qed

end
