(* ===== verification/Routes.thy ===== *)
theory Routes
  imports Project_Use_Case Email_Service Contact_Use_Case Resume
begin

text \<open>
  The endpoint functions of the API boundary (presentation/api/routes): the
  three project endpoints over the injected \<open>ProjectUseCase\<close>, the contact
  endpoint (FastAPI parses the JSON body and validates it into a
  \<open>ContactMessage\<close> before the function runs; the function maps an error result
  of the use case to a 500 and any other exception to a generic 500), and the
  two resume endpoints. The module-level singletons of the route modules are
  the fields of \<open>app_state\<close>.
\<close>

record app_state =
  projects_uc :: project_use_case
  contact_email :: email_config
  resume_files :: filesystem

subsection \<open>Projects (routes/projects.py)\<close>

text \<open>
  The module singletons of routes/projects.py:
  \<open>project_repository = ProjectRepository()\<close>, whose construction validates the
  data and may raise, and \<open>project_use_case = ProjectUseCase(project_repository)\<close>.
\<close>

definition projects_module :: "verr list + project_use_case" where
  "projects_module =
     (case ProjectRepository_init of Inl errs \<Rightarrow> Inl errs | Inr r \<Rightarrow> Inr (ProjectUseCase_init r))"

definition get_all_projects_route :: "app_state \<Rightarrow> response" where
  "get_all_projects_route st =
     Json_response 200 (JArr (map project_json (get_all_projects (projects_uc st))))"

definition get_featured_projects_route :: "app_state \<Rightarrow> response" where
  "get_featured_projects_route st =
     Json_response 200 (JArr (map project_json (get_featured_projects (projects_uc st))))"

definition get_project_route :: "app_state \<Rightarrow> pystr \<Rightarrow> response" where
  "get_project_route st project_id =
     (case get_project_by_id (projects_uc st) project_id of
        None \<Rightarrow> http_exception 404 ''Project not found''
      | Some p \<Rightarrow> Json_response 200 (project_json p))"

subsection \<open>Contact (routes/contact.py)\<close>

text \<open>The request body as the keyword arguments of \<open>ContactMessage(**body)\<close>.\<close>

fun json_to_pyval :: "json \<Rightarrow> pyval" where
  "json_to_pyval JNull = PNone"
| "json_to_pyval (JBool b) = PBool b"
| "json_to_pyval (JInt i) = PInt i"
| "json_to_pyval (JFloat r) = PFloat r"
| "json_to_pyval (JStr s) = PStr s"
| "json_to_pyval (JArr vs) = POther"
| "json_to_pyval (JObj kvs) = POther"

text \<open>\<open>json.loads\<close> keeps the last value of a repeated key.\<close>

definition body_dict :: "(pystr \<times> json) list \<Rightarrow> pydict" where
  "body_dict kvs = map_of (rev (map (\<lambda>(k, v). (k, json_to_pyval v)) kvs))"

fun err_type_name :: "err_type \<Rightarrow> pystr" where
  "err_type_name Missing = ''missing''"
| "err_type_name String_type = ''string_type''"
| "err_type_name String_too_short = ''string_too_short''"
| "err_type_name String_too_long = ''string_too_long''"
| "err_type_name Value_error = ''value_error''"
| "err_type_name Url_parsing = ''url_parsing''"
| "err_type_name Url_scheme = ''url_scheme''"
| "err_type_name Url_too_long = ''url_too_long''"
| "err_type_name Datetime_type = ''datetime_type''"
| "err_type_name Json_invalid = ''json_invalid''"
| "err_type_name Model_attributes_type = ''model_attributes_type''"

definition verr_json :: "verr \<Rightarrow> json" where
  "verr_json e = JObj [(''type'', JStr (err_type_name (snd e))),
     (''loc'', JArr (JStr ''body'' # (if fst e = [] then [] else [JStr (fst e)])))]"

text \<open>FastAPI's handler of \<open>RequestValidationError\<close>: status 422.\<close>

definition validation_error_response :: "verr list \<Rightarrow> response" where
  "validation_error_response errs = Json_response 422 (JObj [(''detail'', JArr (map verr_json errs))])"

text \<open>
  FastAPI's validation of the single body parameter \<open>contact: ContactMessage\<close>:
  an empty body or JSON \<open>null\<close> is a missing body, undecodable JSON is
  \<open>json_invalid\<close> (its position in the text is not modelled), a JSON object
  reaches the \<open>ContactMessage\<close> constructor, and any other value is not a
  mapping the model can read its fields from.
\<close>

definition parse_contact_body ::
  "validators \<Rightarrow> datetime \<Rightarrow> request_body \<Rightarrow> verr list + contact_message" where
  "parse_contact_body V now b =
     (case b of
        Empty_body \<Rightarrow> Inl [([], Missing)]
      | Invalid_json \<Rightarrow> Inl [([], Json_invalid)]
      | Json_body JNull \<Rightarrow> Inl [([], Missing)]
      | Json_body (JObj kvs) \<Rightarrow> ContactMessage_init V now (body_dict kvs)
      | Json_body _ \<Rightarrow> Inl [([], Model_attributes_type)])"

definition contact_result_json :: "contact_result \<Rightarrow> json" where
  "contact_result_json r = JObj [(''status'', JStr (status r)), (''message'', JStr (result_message r))]"

definition unexpected_error_detail :: pystr where
  "unexpected_error_detail = ''An unexpected error occurred. Please try again later.''"

text \<open>
  The endpoint body, over an awaited use case that may raise: the \<open>try\<close> block
  turns an error result into \<open>HTTPException(500, message)\<close>, which the first
  \<open>except\<close> re-raises; any other exception becomes the generic 500.
\<close>

definition submit_contact_route ::
  "(contact_message \<Rightarrow> world \<Rightarrow> (pyexc + contact_result) \<times> world) \<Rightarrow>
   contact_message \<Rightarrow> world \<Rightarrow> response \<times> world" where
  "submit_contact_route uc c w =
     (case uc c w of
        (Inl e, w') \<Rightarrow> (http_exception 500 unexpected_error_detail, w')
      | (Inr r, w') \<Rightarrow>
          (if status r = ''error'' then (http_exception 500 (result_message r), w')
           else (Json_response 200 (contact_result_json r), w')))"

text \<open>
  The module singletons of routes/contact.py: \<open>email_service = EmailService()\<close>
  (its configuration read at import, its SMTP server the outside world) and
  \<open>contact_use_case = ContactUseCase(email_service)\<close>.
\<close>

definition contact_use_case_of :: "email_config \<Rightarrow> smtp_server \<Rightarrow> contact_use_case" where
  "contact_use_case_of cfg srv = ContactUseCase_init (send_contact_notification cfg srv)"

text \<open>
  \<open>contact_use_case = ContactUseCase(email_service)\<close>, awaited: the use case
  returns normally on every path.
\<close>

definition await_contact_use_case ::
  "email_config \<Rightarrow> smtp_server \<Rightarrow> contact_message \<Rightarrow> world \<Rightarrow> (pyexc + contact_result) \<times> world" where
  "await_contact_use_case cfg srv c w =
     (case submit_contact_form (contact_use_case_of cfg srv) c w of (r, w') \<Rightarrow> (Inr r, w'))"

definition contact_endpoint ::
  "app_state \<Rightarrow> validators \<Rightarrow> datetime \<Rightarrow> smtp_server \<Rightarrow> request_body \<Rightarrow> world \<Rightarrow> response \<times> world" where
  "contact_endpoint st V now srv b w =
     (case parse_contact_body V now b of
        Inl errs \<Rightarrow> (validation_error_response errs, w)
      | Inr c \<Rightarrow> submit_contact_route (await_contact_use_case (contact_email st) srv) c w)"

subsection \<open>Resume (routes/resume.py)\<close>

definition resume_metadata_route :: "app_state \<Rightarrow> response" where
  "resume_metadata_route st = Json_response 200 (get_resume_metadata (resume_files st))"

definition resume_download_route :: "app_state \<Rightarrow> response" where
  "resume_download_route st = download_resume (resume_files st)"

end
