(* ===== verification/Static_Files.thy ===== *)
theory Static_Files
  imports Resume
begin

text \<open>
  The \<open>/static\<close> mount of main.py: Starlette's \<open>StaticFiles(directory="static")\<close>
  over the working directory's file system (the \<open>filesystem\<close> map, whose
  keys are paths relative to the working directory). The part of the URL path
  after \<open>/static\<close> is split at \<open>/\<close> and normalised as \<open>os.path.normpath\<close>
  does for a relative path (empty and \<open>.\<close> segments dropped, \<open>..\<close> removing the
  segment before it, a leading \<open>..\<close> kept); the result is joined to
  \<open>static\<close> and resolved like \<open>os.path.realpath\<close>, and a path that does not
  stay under \<open>static\<close> is refused. Methods other than GET and HEAD answer 405 (a HEAD
  request gets the GET response without its body), a path
  that is not an existing file 404. The working directory's own name is not
  modelled, so a path that climbs above it and comes back counts as outside.
\<close>

definition normpath_step :: "pystr list \<Rightarrow> pystr \<Rightarrow> pystr list" where
  "normpath_step acc c =
     (if c = [] \<or> c = ''.'' then acc
      else if c \<noteq> ''..'' \<or> acc = [] \<or> last acc = ''..'' then acc @ [c]
      else butlast acc)"

definition normpath_segs :: "pystr list \<Rightarrow> pystr list" where
  "normpath_segs segs = foldl normpath_step [] segs"

definition static_lookup :: "pystr \<Rightarrow> pystr list option" where
  "static_lookup route_path =
     (let full = normpath_segs (''static'' # normpath_segs (py_split CHR ''/'' route_path))
      in if full \<noteq> [] \<and> hd full = ''static'' then Some full else None)"

definition static_response :: "filesystem \<Rightarrow> http_method \<Rightarrow> pystr \<Rightarrow> response" where
  "static_response fs m path =
     (if m \<noteq> GET \<and> m \<noteq> HEAD then http_exception 405 ''Method Not Allowed''
      else case static_lookup (drop 7 path) of
        None \<Rightarrow> http_exception 404 ''Not Found''
      | Some full \<Rightarrow>
          (case fs (py_join CHR ''/'' full) of
             None \<Rightarrow> http_exception 404 ''Not Found''
           | Some st \<Rightarrow> Static_files (py_join CHR ''/'' full)))"

subsection \<open>Lemmas\<close>

text \<open>
  A normalised relative path is some \<open>..\<close> segments followed by segments that
  are neither empty, nor \<open>.\<close>, nor \<open>..\<close>, nor contain a slash.
\<close>

definition norm_shape :: "pystr list \<Rightarrow> bool" where
  "norm_shape xs \<longleftrightarrow> (\<exists>k rest. xs = replicate k ''..'' @ rest
     \<and> (\<forall>x\<in>set rest. x \<noteq> [] \<and> x \<noteq> ''.'' \<and> x \<noteq> ''..'' \<and> CHR ''/'' \<notin> set x))"

lemma norm_shape_step:
  assumes "norm_shape acc" "CHR ''/'' \<notin> set c"
  shows "norm_shape (normpath_step acc c)"
proof -
  obtain k rest where a: "acc = replicate k ''..'' @ rest"
      and r: "\<forall>x\<in>set rest. x \<noteq> [] \<and> x \<noteq> ''.'' \<and> x \<noteq> ''..'' \<and> CHR ''/'' \<notin> set x"
    using assms(1) by (auto simp: norm_shape_def)
  consider (skip) "c = [] \<or> c = ''.''"
    | (push) "\<not> (c = [] \<or> c = ''.'')" "c \<noteq> ''..''"
    | (up) "c = ''..''" "acc = [] \<or> last acc = ''..''"
    | (pop) "c = ''..''" "acc \<noteq> []" "last acc \<noteq> ''..''"
    by blast
  then show ?thesis
  proof cases
    case skip
    then show ?thesis using assms(1) by (auto simp: normpath_step_def)
  next
    case push
    then have "normpath_step acc c = replicate k ''..'' @ (rest @ [c])"
      using a by (auto simp: normpath_step_def)
    with push r assms(2) show ?thesis unfolding norm_shape_def by fastforce
  next
    case up
    have "rest = []"
    proof (rule ccontr)
      assume "rest \<noteq> []"
      then have "last acc \<in> set rest" using a by simp
      with up r a show False by (cases "acc = []") auto
    qed
    with up a have "normpath_step acc c = replicate (Suc k) ''..'' @ []"
      by (auto simp: normpath_step_def replicate_append_same)
    then show ?thesis unfolding norm_shape_def by (intro exI [of _ "Suc k"] exI [of _ "[]"]) simp
  next
    case pop
    have "rest \<noteq> []"
    proof
      assume "rest = []"
      then have acc: "acc = replicate k ''..''" using a by simp
      have "k \<noteq> 0"
      proof
        assume "k = 0"
        with acc pop(2) show False by simp
      qed
      then have "last acc = ''..''" unfolding acc by (cases k) simp_all
      with pop(3) show False by contradiction
    qed
    then have "normpath_step acc c = replicate k ''..'' @ butlast rest"
      using pop a by (simp add: normpath_step_def butlast_append)
    moreover have "\<forall>x\<in>set (butlast rest). x \<noteq> [] \<and> x \<noteq> ''.'' \<and> x \<noteq> ''..'' \<and> CHR ''/'' \<notin> set x"
      using r by (meson in_set_butlastD)
    ultimately show ?thesis unfolding norm_shape_def by (intro exI [of _ k] exI [of _ "butlast rest"] conjI)
  qed
qed

lemma norm_shape_foldl:
  "norm_shape acc \<Longrightarrow> \<forall>c\<in>set cs. CHR ''/'' \<notin> set c \<Longrightarrow> norm_shape (foldl normpath_step acc cs)"
  by (induction cs arbitrary: acc) (simp_all add: norm_shape_step)

lemma norm_shape_normpath:
  "\<forall>c\<in>set cs. CHR ''/'' \<notin> set c \<Longrightarrow> norm_shape (normpath_segs cs)"
  unfolding normpath_segs_def by (rule norm_shape_foldl) (simp_all add: norm_shape_def)

lemma norm_shape_hd:
  assumes "norm_shape xs" "xs \<noteq> []" "hd xs \<noteq> ''..''"
  shows "\<forall>x\<in>set xs. x \<noteq> [] \<and> x \<noteq> ''.'' \<and> x \<noteq> ''..'' \<and> CHR ''/'' \<notin> set x"
proof -
  obtain k rest where a: "xs = replicate k ''..'' @ rest"
      and r: "\<forall>x\<in>set rest. x \<noteq> [] \<and> x \<noteq> ''.'' \<and> x \<noteq> ''..'' \<and> CHR ''/'' \<notin> set x"
    using assms(1) by (auto simp: norm_shape_def)
  have "k = 0" using assms(2,3) a by (cases k) auto
  with a r show ?thesis by simp
qed

lemma static_lookup_Some:
  assumes "static_lookup r = Some full"
  shows "full \<noteq> [] \<and> hd full = ''static''
    \<and> (\<forall>x\<in>set full. x \<noteq> [] \<and> x \<noteq> ''.'' \<and> x \<noteq> ''..'' \<and> CHR ''/'' \<notin> set x)"
proof -
  let ?inner = "normpath_segs (py_split CHR ''/'' r)"
  have "norm_shape ?inner" by (rule norm_shape_normpath) (auto dest: py_split_pieces)
  then have "\<forall>x\<in>set ?inner. CHR ''/'' \<notin> set x"
    by (auto simp: norm_shape_def)
  then have "norm_shape (normpath_segs (''static'' # ?inner))" by (intro norm_shape_normpath) simp
  moreover have f: "full = normpath_segs (''static'' # ?inner)" "full \<noteq> []" "hd full = ''static''"
    using assms by (auto simp: static_lookup_def Let_def split: if_splits)
  ultimately show ?thesis using norm_shape_hd by auto
qed

lemma static_response_cases:
  "static_response fs m path \<in>
     {http_exception 405 ''Method Not Allowed'', http_exception 404 ''Not Found''} \<union> range Static_files"
  by (auto simp: static_response_def split: option.splits)

subsection \<open>Properties\<close>

text \<open>
  Claim C24. The \<open>/static\<close> mount serves only existing files under
  \<open>static/\<close>, reached by a normalised path (no \<open>.\<close> or \<open>..\<close> segment), and
  only to GET and HEAD (answered alike): no URL path, with \<open>..\<close> segments or
  not, reaches a file outside the directory. Since \<open>static/resumes\<close> lies under it, the resume is
  also served at \<open>/static/resumes/Liam_Nguyen_Resume.pdf\<close>, exactly when it
  exists.
\<close>

theorem static_mount_confined:
  "(static_response fs m path = Static_files p \<longrightarrow>
       m \<in> {GET, HEAD} \<and> fs p \<noteq> None
       \<and> (\<exists>q. py_split CHR ''/'' p = ''static'' # q \<and> ''..'' \<notin> set q \<and> ''.'' \<notin> set q))
   \<and> static_response fs HEAD path = static_response fs GET path
   \<and> static_response fs GET ''/static/resumes/Liam_Nguyen_Resume.pdf'' =
       (if fs RESUME_PATH = None then http_exception 404 ''Not Found'' else Static_files RESUME_PATH)"
proof (intro conjI[rotated])
  show "static_response fs HEAD path = static_response fs GET path"
    by (simp add: static_response_def)
next
  show "static_response fs m path = Static_files p \<longrightarrow>
       m \<in> {GET, HEAD} \<and> fs p \<noteq> None
       \<and> (\<exists>q. py_split CHR ''/'' p = ''static'' # q \<and> ''..'' \<notin> set q \<and> ''.'' \<notin> set q)"
  proof
  assume s: "static_response fs m path = Static_files p"
  then obtain full where m: "m \<in> {GET, HEAD}" and l: "static_lookup (drop 7 path) = Some full"
      and p: "p = py_join CHR ''/'' full" and f: "fs p \<noteq> None"
    by (auto simp: static_response_def http_exception_def split: if_splits option.splits)
  have sh: "full \<noteq> [] \<and> hd full = ''static''
    \<and> (\<forall>x\<in>set full. x \<noteq> [] \<and> x \<noteq> ''.'' \<and> x \<noteq> ''..'' \<and> CHR ''/'' \<notin> set x)"
    using l by (rule static_lookup_Some)
  then have "py_split CHR ''/'' p = full" using p by (simp add: py_split_join)
  moreover obtain q where "full = ''static'' # q" using sh by (cases full) auto
  ultimately show "m \<in> {GET, HEAD} \<and> fs p \<noteq> None
       \<and> (\<exists>q. py_split CHR ''/'' p = ''static'' # q \<and> ''..'' \<notin> set q \<and> ''.'' \<notin> set q)"
    using m f sh by auto
  qed
next
  let ?L = "[''static'', ''resumes'', ''Liam_Nguyen_Resume.pdf'']"
  have l: "static_lookup (drop 7 ''/static/resumes/Liam_Nguyen_Resume.pdf'') = Some ?L"
    by (simp add: static_lookup_def normpath_segs_def normpath_step_def)
  have j: "py_join CHR ''/'' ?L = RESUME_PATH"
    by (simp add: RESUME_PATH_def)
  have c: "static_response fs GET ''/static/resumes/Liam_Nguyen_Resume.pdf'' =
      (case fs (py_join CHR ''/'' ?L) of None \<Rightarrow> http_exception 404 ''Not Found''
       | Some st \<Rightarrow> Static_files (py_join CHR ''/'' ?L))"
    unfolding static_response_def using l by (simp only: http_method.simps if_False option.case simp_thms de_Morgan_conj not_True_eq_False)
  show "static_response fs GET ''/static/resumes/Liam_Nguyen_Resume.pdf'' =
       (if fs RESUME_PATH = None then http_exception 404 ''Not Found'' else Static_files RESUME_PATH)"
    using c unfolding j by (simp split: option.split)
qed

theorem static_mount_confined_witness:
  "static_response [''.env'' \<mapsto> \<lparr>st_size = 10, st_mtime = 0\<rparr>, RESUME_PATH \<mapsto> \<lparr>st_size = 10, st_mtime = 0\<rparr>]
      GET ''/static/../.env'' = http_exception 404 ''Not Found''
   \<and> static_response [''.env'' \<mapsto> \<lparr>st_size = 10, st_mtime = 0\<rparr>, RESUME_PATH \<mapsto> \<lparr>st_size = 10, st_mtime = 0\<rparr>]
      GET ''/static/resumes/Liam_Nguyen_Resume.pdf'' = Static_files RESUME_PATH
   \<and> (\<exists>q. py_split CHR ''/'' RESUME_PATH = ''static'' # q \<and> ''..'' \<notin> set q \<and> ''.'' \<notin> set q)"
proof -
  let ?fs = "[''.env'' \<mapsto> \<lparr>st_size = 10, st_mtime = (0::rat)\<rparr>, RESUME_PATH \<mapsto> \<lparr>st_size = 10, st_mtime = 0\<rparr>]"
  have a: "static_response ?fs GET ''/static/../.env'' = http_exception 404 ''Not Found''"
    by (simp add: static_response_def static_lookup_def normpath_segs_def normpath_step_def)
  have "?fs RESUME_PATH \<noteq> None" by simp
  then have b: "static_response ?fs GET ''/static/resumes/Liam_Nguyen_Resume.pdf'' = Static_files RESUME_PATH"
    using static_mount_confined [of ?fs GET "''/static/resumes/Liam_Nguyen_Resume.pdf''" RESUME_PATH] by simp
  then have "\<exists>q. py_split CHR ''/'' RESUME_PATH = ''static'' # q \<and> ''..'' \<notin> set q \<and> ''.'' \<notin> set q"
    using static_mount_confined [of ?fs GET "''/static/resumes/Liam_Nguyen_Resume.pdf''" RESUME_PATH] by blast
  with a b show ?thesis by blast
qed

end
