(* ===== verification/App.thy ===== *)
theory App
  imports Routes Static_Files
begin

text \<open>
  The application (main.py): the four documentation routes the \<open>FastAPI\<close>
  constructor adds (\<open>/openapi.json\<close>, \<open>/docs\<close>, \<open>/docs/oauth2-redirect\<close>,
  \<open>/redoc\<close>; plain Starlette routes, so they take GET and HEAD), the
  \<open>/static\<close> mount, the three routers included under the prefix \<open>/api/v1\<close> in
  the order contact, projects, resume, then the \<open>/\<close> and \<open>/health\<close>
  endpoints (FastAPI's \<open>APIRoute\<close> takes exactly the declared method, no
  HEAD), and the CORS origin list read from \<open>ALLOWED_ORIGINS\<close>. Requests are
  dispatched the way Starlette's \<open>Router.app\<close> does: the first route whose
  path and method match handles the request; a route whose path matches under
  another method gives 405; otherwise, unless the path is \<open>/\<close>, the path with
  all its trailing slashes stripped (when it ends in one) or with a slash
  appended is tried against every route's path, and a match gives a 307
  redirect; otherwise 404. A path parameter matches one non-empty segment
  (\<open>[^/]+\<close>). The mount is tested before the routes; since no route path
  starts with \<open>/static/\<close>, this is the order of the route list.
\<close>

datatype seg = Lit pystr | Param

datatype endpoint =
    Ep_openapi
  | Ep_docs
  | Ep_docs_oauth2_redirect
  | Ep_redoc
  | Ep_submit_contact
  | Ep_all_projects
  | Ep_featured_projects
  | Ep_project
  | Ep_resume_metadata
  | Ep_resume_download
  | Ep_root
  | Ep_health

definition api :: "pystr list \<Rightarrow> seg list" where
  "api ps = Lit ''api'' # Lit ''v1'' # map Lit ps"

text \<open>
  The routes \<open>FastAPI.setup()\<close> adds when the application is constructed
  (fastapi/applications.py), before main.py declares anything.
\<close>

definition docs_routes :: "(http_method list \<times> seg list \<times> endpoint) list" where
  "docs_routes =
     [([GET, HEAD], [Lit ''openapi.json''], Ep_openapi),
      ([GET, HEAD], [Lit ''docs''], Ep_docs),
      ([GET, HEAD], [Lit ''docs'', Lit ''oauth2-redirect''], Ep_docs_oauth2_redirect),
      ([GET, HEAD], [Lit ''redoc''], Ep_redoc)]"

text \<open>The routes main.py declares, in the order it includes them.\<close>

definition main_routes :: "(http_method list \<times> seg list \<times> endpoint) list" where
  "main_routes =
     [([POST], api [''contact''], Ep_submit_contact),
      ([GET], api [''projects''], Ep_all_projects),
      ([GET], api [''projects'', ''featured''], Ep_featured_projects),
      ([GET], api [''projects''] @ [Param], Ep_project),
      ([GET], api [''resume'', ''metadata''], Ep_resume_metadata),
      ([GET], api [''resume'', ''download''], Ep_resume_download),
      ([GET], [Lit []], Ep_root),
      ([GET], [Lit ''health''], Ep_health)]"

definition app_routes :: "(http_method list \<times> seg list \<times> endpoint) list" where
  "app_routes = docs_routes @ main_routes"

subsection \<open>Path matching\<close>

fun seg_match :: "seg list \<Rightarrow> pystr list \<Rightarrow> pystr list option" where
  "seg_match [] [] = Some []"
| "seg_match (Lit s # ts) (p # ps) = (if s = p then seg_match ts ps else None)"
| "seg_match (Param # ts) (p # ps) =
     (if p = [] then None else map_option (Cons p) (seg_match ts ps))"
| "seg_match _ _ = None"

definition path_segments :: "pystr \<Rightarrow> pystr list option" where
  "path_segments path =
     (case path of c # rest \<Rightarrow> if c = CHR ''/'' then Some (py_split CHR ''/'' rest) else None
      | [] \<Rightarrow> None)"

definition path_params :: "seg list \<Rightarrow> pystr \<Rightarrow> pystr list option" where
  "path_params tmpl path =
     (case path_segments path of None \<Rightarrow> None | Some ps \<Rightarrow> seg_match tmpl ps)"

definition static_mount_matches :: "pystr \<Rightarrow> bool" where
  "static_mount_matches path \<longleftrightarrow> take 8 path = ''/static/''"

datatype resolution =
    To_static
  | To_endpoint endpoint "pystr list"
  | Not_allowed
  | Redirect pystr
  | Not_found

fun first_full :: "http_method \<Rightarrow> pystr \<Rightarrow> (http_method list \<times> seg list \<times> endpoint) list \<Rightarrow>
    (endpoint \<times> pystr list) option" where
  "first_full m path [] = None"
| "first_full m path ((ms, tmpl, ep) # rs) =
     (case path_params tmpl path of
        Some ps \<Rightarrow> if m \<in> set ms then Some (ep, ps) else first_full m path rs
      | None \<Rightarrow> first_full m path rs)"

definition path_known :: "pystr \<Rightarrow> bool" where
  "path_known path \<longleftrightarrow>
     static_mount_matches path \<or> (\<exists>r\<in>set app_routes. path_params (fst (snd r)) path \<noteq> None)"

definition rstrip_slash :: "pystr \<Rightarrow> pystr" where
  "rstrip_slash path = rev (dropWhile (\<lambda>c. c = CHR ''/'') (rev path))"

definition redirect_path :: "pystr \<Rightarrow> pystr" where
  "redirect_path path =
     (if path \<noteq> [] \<and> last path = CHR ''/'' then rstrip_slash path else path @ ''/'')"

definition resolve :: "http_method \<Rightarrow> pystr \<Rightarrow> resolution" where
  "resolve m path =
     (if static_mount_matches path then To_static
      else case first_full m path app_routes of
        Some (ep, ps) \<Rightarrow> To_endpoint ep ps
      | None \<Rightarrow>
          if path_known path then Not_allowed
          else if path \<noteq> ''/'' \<and> path_known (redirect_path path) then Redirect (redirect_path path)
          else Not_found)"

subsection \<open>main.py endpoints and CORS origins\<close>

definition root_json :: json where
  "root_json = JObj [(''message'', JStr ''Liam T. Nguyen Portfolio API''),
     (''status'', JStr ''operational''), (''version'', JStr ''1.0.0'')]"

definition health_json :: json where
  "health_json = JObj [(''status'', JStr ''healthy''), (''api_version'', JStr ''1.0.0'')]"

definition allowed_origins :: "environ \<Rightarrow> pystr list" where
  "allowed_origins env = py_split CHR '','' (getenv_default env ''ALLOWED_ORIGINS'' ''http://localhost:3000'')"

subsection \<open>Handling one request\<close>

definition run_endpoint ::
  "app_state \<Rightarrow> validators \<Rightarrow> datetime \<Rightarrow> smtp_server \<Rightarrow> endpoint \<Rightarrow> pystr list \<Rightarrow>
   request_body \<Rightarrow> world \<Rightarrow> response \<times> world" where
  "run_endpoint st V now srv ep ps b w =
     (case ep of
        Ep_openapi \<Rightarrow> (Docs_response Openapi_schema, w)
      | Ep_docs \<Rightarrow> (Docs_response Swagger_ui, w)
      | Ep_docs_oauth2_redirect \<Rightarrow> (Docs_response Swagger_ui_oauth2_redirect, w)
      | Ep_redoc \<Rightarrow> (Docs_response Redoc, w)
      | Ep_submit_contact \<Rightarrow> contact_endpoint st V now srv b w
      | Ep_all_projects \<Rightarrow> (get_all_projects_route st, w)
      | Ep_featured_projects \<Rightarrow> (get_featured_projects_route st, w)
      | Ep_project \<Rightarrow> (get_project_route st (hd ps), w)
      | Ep_resume_metadata \<Rightarrow> (resume_metadata_route st, w)
      | Ep_resume_download \<Rightarrow> (resume_download_route st, w)
      | Ep_root \<Rightarrow> (Json_response 200 root_json, w)
      | Ep_health \<Rightarrow> (Json_response 200 health_json, w))"

definition handle_request ::
  "app_state \<Rightarrow> validators \<Rightarrow> datetime \<Rightarrow> smtp_server \<Rightarrow> request \<Rightarrow> world \<Rightarrow> response \<times> world" where
  "handle_request st V now srv rq w =
     (case resolve (req_method rq) (req_path rq) of
        To_static \<Rightarrow> (static_response (resume_files st) (req_method rq) (req_path rq), w)
      | To_endpoint ep ps \<Rightarrow> run_endpoint st V now srv ep ps (req_body rq) w
      | Not_allowed \<Rightarrow> (http_exception 405 ''Method Not Allowed'', w)
      | Redirect p \<Rightarrow> (Redirect_response p, w)
      | Not_found \<Rightarrow> (http_exception 404 ''Not Found'', w))"

subsection \<open>Lemmas on dispatch\<close>

lemmas route_table_defs = app_routes_def docs_routes_def main_routes_def

lemma seg_match_length: "seg_match ts ps = Some xs \<Longrightarrow> length ts = length ps"
  by (induction ts ps arbitrary: xs rule: seg_match.induct) (auto split: if_splits)

lemma py_split_length_sep: "c \<in> set s \<Longrightarrow> 2 \<le> length (py_split c s)"
proof (induction s)
  case Nil
  then show ?case by simp
next
  case (Cons x xs)
  show ?case
  proof (cases "x = c")
    case True
    then show ?thesis
      using py_split_nonempty [of c xs] by (cases "py_split c xs") auto
  next
    case False
    with Cons have "2 \<le> length (py_split c xs)" by simp
    with False show ?thesis by (cases "py_split c xs") auto
  qed
qed

lemma path_segments_projects:
  "path_segments (''/api/v1/projects/'' @ i) = Some ([''api'', ''v1'', ''projects''] @ py_split CHR ''/'' i)"
  by (simp add: path_segments_def)

lemma routes_short: "r \<in> set app_routes \<Longrightarrow> length (fst (snd r)) \<le> 4"
  by (auto simp: route_table_defs api_def)

lemma first_full_None_long:
  assumes "path_segments path = Some ps" "4 < length ps" "set rs \<subseteq> set app_routes"
  shows "first_full m path rs = None"
  using assms(3)
proof (induction rs)
  case Nil
  then show ?case by simp
next
  case (Cons r rs)
  obtain m' tmpl ep where r: "r = (m', tmpl, ep)" by (cases r) auto
  with Cons.prems routes_short [of r] have "length tmpl \<le> 4" by auto
  then have "path_params tmpl path = None"
    using assms(1,2) by (cases "seg_match tmpl ps") (auto simp: path_params_def dest: seg_match_length)
  with Cons r show ?case by simp
qed

lemma resolve_project_id:
  assumes "i \<noteq> []" "CHR ''/'' \<notin> set i" "i \<noteq> ''featured''"
  shows "resolve GET (''/api/v1/projects/'' @ i) = To_endpoint Ep_project [i]"
  using assms
  by (simp add: resolve_def static_mount_matches_def route_table_defs api_def path_params_def
      path_segments_def py_split_no_sep)

lemma resolve_featured:
  "resolve GET ''/api/v1/projects/featured'' = To_endpoint Ep_featured_projects []"
  by (simp add: resolve_def static_mount_matches_def route_table_defs api_def path_params_def
      path_segments_def)

lemma resolve_projects_slash:
  "resolve GET ''/api/v1/projects/'' = Redirect ''/api/v1/projects''"
  by (simp add: resolve_def static_mount_matches_def route_table_defs api_def path_params_def
      path_segments_def path_known_def redirect_path_def rstrip_slash_def)

lemma resolve_projects_sep:
  assumes "CHR ''/'' \<in> set i"
  shows "\<exists>r. resolve GET (''/api/v1/projects/'' @ i) = r \<and> (\<forall>ep ps. r \<noteq> To_endpoint ep ps)
           \<and> r \<noteq> To_static"
proof -
  have "4 < length ([''api'', ''v1'', ''projects''] @ py_split CHR ''/'' i)"
    using py_split_length_sep [OF assms] by simp
  then have "first_full GET (''/api/v1/projects/'' @ i) app_routes = None"
    by (rule first_full_None_long [OF path_segments_projects]) simp
  then show ?thesis
    by (simp add: resolve_def static_mount_matches_def)
qed

lemma handle_request_resolved:
  "resolve m path = To_endpoint ep ps \<Longrightarrow>
     handle_request st V now srv \<lparr>req_method = m, req_path = path, req_body = b\<rparr> w =
       run_endpoint st V now srv ep ps b w"
  by (simp add: handle_request_def)

lemma handle_request_not_endpoint:
  assumes "resolve (req_method rq) (req_path rq) = r" "\<forall>ep ps. r \<noteq> To_endpoint ep ps" "r \<noteq> To_static"
  shows "\<exists>p. fst (handle_request st V now srv rq w) \<in>
           {http_exception 405 ''Method Not Allowed'', http_exception 404 ''Not Found'', Redirect_response p}"
  using assms by (cases r) (auto simp: handle_request_def)

lemma first_full_no_method:
  "\<forall>r\<in>set rs. m \<notin> set (fst r) \<Longrightarrow> first_full m path rs = None"
  by (induction m path rs rule: first_full.induct) (auto split: option.split)

lemma first_full_append:
  "first_full m path (rs @ rs') =
     (case first_full m path rs of None \<Rightarrow> first_full m path rs' | r \<Rightarrow> r)"
  by (induction m path rs rule: first_full.induct) (auto split: option.split)

lemma first_full_no_match:
  "\<forall>r\<in>set rs. path_params (fst (snd r)) path = None \<Longrightarrow> first_full m path rs = None"
  by (induction m path rs rule: first_full.induct) auto

lemma static_path_segments:
  "static_mount_matches path \<Longrightarrow>
     \<exists>rest. path_segments path = Some (''static'' # py_split CHR ''/'' rest)"
proof -
  assume "static_mount_matches path"
  then have "path = ''/static/'' @ drop 8 path"
    unfolding static_mount_matches_def by (metis append_take_drop_id)
  then have p: "path = CHR ''/'' # (''static'' @ CHR ''/'' # drop 8 path)" by simp
  have "CHR ''/'' \<notin> set ''static''" by simp
  then have "py_split CHR ''/'' (''static'' @ CHR ''/'' # drop 8 path)
      = ''static'' # py_split CHR ''/'' (drop 8 path)"
    by (rule py_split_append_sep)
  then have "path_segments path = Some (''static'' # py_split CHR ''/'' (drop 8 path))"
    by (subst p) (simp only: path_segments_def list.case simp_thms if_True)
  then show ?thesis by blast
qed

text \<open>No route's template has \<open>static\<close> as its first segment, so the mount,
  tested first, never shadows a route.\<close>

lemma static_no_route:
  assumes "static_mount_matches path" "r \<in> set app_routes"
  shows "path_params (fst (snd r)) path = None"
proof -
  obtain rest where "path_segments path = Some (''static'' # py_split CHR ''/'' rest)"
    using static_path_segments [OF assms(1)] by blast
  with assms(2) show ?thesis
    by (auto simp: route_table_defs api_def path_params_def)
qed

lemma resolve_contact:
  "resolve POST ''/api/v1/contact'' = To_endpoint Ep_submit_contact []"
  by (simp add: resolve_def static_mount_matches_def route_table_defs api_def path_params_def
      path_segments_def)

lemma handle_contact_request:
  "handle_request st V now srv \<lparr>req_method = POST, req_path = ''/api/v1/contact'', req_body = b\<rparr> w
     = contact_endpoint st V now srv b w"
  by (simp add: handle_request_resolved [OF resolve_contact] run_endpoint_def)

lemma contact_endpoint_valid:
  "parse_contact_body V now b = Inr c \<Longrightarrow>
     contact_endpoint st V now srv b w =
       (case send_contact_notification (contact_email st) srv c w of
          (Inr _, w') \<Rightarrow> (Json_response 200 (contact_result_json success_result), w')
        | (Inl e, w') \<Rightarrow> (http_exception 500 (result_message error_result),
                         say [Log_contact_error (exc_str e)] w'))"
  by (simp add: contact_endpoint_def submit_contact_route_def await_contact_use_case_def
      submit_contact_form_def contact_use_case_of_def ContactUseCase_init_def split: prod.splits sum.splits)

lemma contact_endpoint_invalid:
  "parse_contact_body V now b = Inl errs \<Longrightarrow>
     contact_endpoint st V now srv b w = (validation_error_response errs, w)"
  by (simp add: contact_endpoint_def)

definition sample_state :: app_state where
  "sample_state = \<lparr>projects_uc = \<lparr>repository = \<lparr>projects = [tilted_labs_args, spacecraft_args]\<rparr>\<rparr>,
     contact_email = sample_config, resume_files = Map.empty\<rparr>"

definition get_request :: "pystr \<Rightarrow> request" where
  "get_request path = \<lparr>req_method = GET, req_path = path, req_body = Empty_body\<rparr>"

lemma rstrip_slash_replicate: "rstrip_slash (s @ replicate n CHR ''/'') = rstrip_slash s"
  by (simp add: rstrip_slash_def rev_replicate dropWhile_replicate_append)

lemma rstrip_slash_id: "s \<noteq> [] \<Longrightarrow> last s \<noteq> CHR ''/'' \<Longrightarrow> rstrip_slash s = s"
proof -
  assume "s \<noteq> []" "last s \<noteq> CHR ''/''"
  moreover obtain t x where "s = t @ [x]" using \<open>s \<noteq> []\<close> by (metis append_butlast_last_id)
  ultimately show ?thesis by (simp add: rstrip_slash_def)
qed

lemma seg_match_last_empty:
  "seg_match ts ys = Some zs \<Longrightarrow> ys \<noteq> [] \<Longrightarrow> last ys = [] \<Longrightarrow> last ts = Lit []"
proof (induction ts ys arbitrary: zs rule: seg_match.induct)
  case (2 s ts p ps)
  then show ?case by (cases ps; cases ts) (auto split: if_splits)
next
  case (3 ts p ps)
  then show ?case by (cases ps; cases ts) (auto split: if_splits)
qed auto

lemma seg_match_map_Lit [simp]: "seg_match (map Lit xs) xs = Some []"
  by (induction xs) simp_all

lemma literal_route_shape:
  assumes "(ms, map Lit segs, ep) \<in> set app_routes"
  shows "segs \<noteq> [] \<and> (\<forall>s\<in>set segs. CHR ''/'' \<notin> set s)
    \<and> (segs \<noteq> [[]] \<longrightarrow> last segs \<noteq> [] \<and> hd segs \<noteq> ''static'')"
  using assms by (auto simp: route_table_defs api_def map_eq_Cons_conv)

lemma route_last_empty:
  "r \<in> set app_routes \<Longrightarrow> last (fst (snd r)) = Lit [] \<Longrightarrow> fst (snd r) = [Lit []]"
  by (auto simp: route_table_defs api_def)

lemma literal_route_path:
  assumes "(ms, map Lit segs, ep) \<in> set app_routes"
  shows "path_segments (CHR ''/'' # py_join CHR ''/'' segs) = Some segs"
proof -
  have "py_split CHR ''/'' (py_join CHR ''/'' segs) = segs"
    using literal_route_shape [OF assms] by (blast intro: py_split_join)
  then show ?thesis by (simp add: path_segments_def)
qed

text \<open>A path whose last segment is empty after at least two segments matches no
  route and lies outside the mount when its first segment is not \<open>static\<close>.\<close>

lemma trailing_empty_unknown:
  assumes "path_segments q = Some ys" "2 \<le> length ys" "last ys = []" "hd ys \<noteq> ''static''"
  shows "\<not> path_known q"
proof
  assume "path_known q"
  moreover have "\<not> static_mount_matches q"
    using assms(1,4) static_path_segments by fastforce
  ultimately obtain r where r: "r \<in> set app_routes" "path_params (fst (snd r)) q \<noteq> None"
    by (auto simp: path_known_def)
  then obtain zs where m: "seg_match (fst (snd r)) ys = Some zs"
    using assms(1) by (auto simp: path_params_def)
  then have "last (fst (snd r)) = Lit []"
    using assms(2,3) seg_match_last_empty by fastforce
  then have "fst (snd r) = [Lit []]" by (rule route_last_empty [OF r(1)])
  with m assms(2) show False using seg_match_length by fastforce
qed

lemma literal_route_last:
  assumes "(ms, map Lit segs, ep) \<in> set app_routes" "segs \<noteq> [[]]"
  shows "CHR ''/'' # py_join CHR ''/'' segs \<noteq> [] \<and> last (CHR ''/'' # py_join CHR ''/'' segs) \<noteq> CHR ''/''"
proof -
  have sh: "segs \<noteq> [] \<and> (\<forall>s\<in>set segs. CHR ''/'' \<notin> set s) \<and> last segs \<noteq> []"
    using literal_route_shape [OF assms(1)] assms(2) by blast
  then have sp: "py_split CHR ''/'' (py_join CHR ''/'' segs) = segs" by (blast intro: py_split_join)
  have "py_join CHR ''/'' segs \<noteq> []"
  proof
    assume "py_join CHR ''/'' segs = []"
    then have "segs = [[]]" using sp by simp
    with sh show False by simp
  qed
  moreover have "last (py_join CHR ''/'' segs) \<noteq> CHR ''/''"
  proof
    assume l: "last (py_join CHR ''/'' segs) = CHR ''/''"
    obtain t where "py_join CHR ''/'' segs = t @ [CHR ''/'']"
      using l \<open>py_join CHR ''/'' segs \<noteq> []\<close> by (metis append_butlast_last_id)
    then have "segs = py_split CHR ''/'' t @ [[]]" using sp by (simp add: py_split_snoc_sep)
    with sh show False by simp
  qed
  ultimately show ?thesis by simp
qed

lemma first_full_same_methods:
  "\<forall>r\<in>set rs. (m \<in> set (fst r) \<longleftrightarrow> m' \<in> set (fst r)) \<Longrightarrow>
     first_full m path rs = first_full m' path rs"
  by (induction m path rs rule: first_full.induct) (auto split: option.split)

lemma seg_match_Lit_hd: "seg_match (Lit s # ts) ys = Some zs \<Longrightarrow> ys \<noteq> [] \<and> hd ys = s"
  by (cases ys) (auto split: if_splits)

lemma docs_main_disjoint:
  assumes "r \<in> set docs_routes" "r' \<in> set main_routes"
    "path_params (fst (snd r)) path = Some zs" "path_params (fst (snd r')) path = Some zs'"
  shows False
proof -
  obtain ps where ps: "seg_match (fst (snd r)) ps = Some zs" "seg_match (fst (snd r')) ps = Some zs'"
    using assms(3,4) by (auto simp: path_params_def split: option.splits)
  obtain s ts where t: "fst (snd r) = Lit s # ts" "s \<in> {''openapi.json'', ''docs'', ''redoc''}"
    using assms(1) by (auto simp: docs_routes_def)
  obtain s' ts' where t': "fst (snd r') = Lit s' # ts'" "s' \<in> {''api'', [], ''health''}"
    using assms(2) by (auto simp: main_routes_def api_def)
  have "hd ps = s" "hd ps = s'"
    using ps seg_match_Lit_hd t(1) t'(1) by metis+
  with t(2) t'(2) show False by auto
qed

lemma first_full_matching:
  "r \<in> set rs \<Longrightarrow> path_params (fst (snd r)) path \<noteq> None \<Longrightarrow> \<forall>r\<in>set rs. m \<in> set (fst r) \<Longrightarrow>
     first_full m path rs \<noteq> None"
  by (induction m path rs rule: first_full.induct) (auto split: option.split)

subsection \<open>Properties\<close>

text \<open>
  Claim C23. A stored project is served by \<open>GET /api/v1/projects/{id}\<close>
  exactly when its id is a non-empty path segment other than \<open>featured\<close>:
  the route \<open>/projects/featured\<close>, registered first, shadows a project with
  that id, and an id containing \<open>/\<close> or an empty id never reaches the
  endpoint.
\<close>

theorem get_project_reachable:
  assumes "get_project_by_id (projects_uc st) i = Some p"
  shows "fst (handle_request st V now srv
             \<lparr>req_method = GET, req_path = ''/api/v1/projects/'' @ i, req_body = b\<rparr> w)
           = Json_response 200 (project_json p)
         \<longleftrightarrow> i \<noteq> [] \<and> CHR ''/'' \<notin> set i \<and> i \<noteq> ''featured''"
    (is "fst (handle_request st V now srv ?rq w) = ?ok \<longleftrightarrow> ?good")
proof
  assume g: ?good
  then have "resolve GET (''/api/v1/projects/'' @ i) = To_endpoint Ep_project [i]"
    using resolve_project_id by blast
  from handle_request_resolved [OF this] assms
  show "fst (handle_request st V now srv ?rq w) = ?ok"
    by (simp add: run_endpoint_def get_project_route_def)
next
  assume served: "fst (handle_request st V now srv ?rq w) = ?ok"
  show ?good
  proof (intro conjI)
    show "i \<noteq> []"
    proof
      assume "i = []"
      with served show False
        by (simp add: handle_request_def resolve_projects_slash)
    qed
  next
    show "CHR ''/'' \<notin> set i"
    proof
      assume "CHR ''/'' \<in> set i"
      then obtain r where "resolve (req_method ?rq) (req_path ?rq) = r"
          "\<forall>ep ps. r \<noteq> To_endpoint ep ps" "r \<noteq> To_static"
        using resolve_projects_sep by fastforce
      then obtain q where "fst (handle_request st V now srv ?rq w) \<in>
           {http_exception 405 ''Method Not Allowed'', http_exception 404 ''Not Found'', Redirect_response q}"
        using handle_request_not_endpoint by blast
      with served show False by (auto simp: http_exception_def)
    qed
  next
    show "i \<noteq> ''featured''"
    proof
      assume "i = ''featured''"
      with served show False
        by (simp add: handle_request_resolved resolve_featured run_endpoint_def
            get_featured_projects_route_def project_json_def)
    qed
  qed
qed

theorem get_project_reachable_witness:
  "fst (handle_request sample_state accept_all sample_now accepting_server
          \<lparr>req_method = GET, req_path = ''/api/v1/projects/'' @ ''tilted-labs'', req_body = Empty_body\<rparr>
          empty_world)
     = Json_response 200 (project_json tilted_labs_args)"
proof -
  have h: "get_project_by_id (projects_uc sample_state) ''tilted-labs'' = Some tilted_labs_args"
    by (simp add: sample_state_def get_project_by_id_def get_by_id_def tilted_labs_args_def)
  have g: "''tilted-labs'' \<noteq> [] \<and> CHR ''/'' \<notin> set ''tilted-labs'' \<and> ''tilted-labs'' \<noteq> ''featured''"
    by simp
  show ?thesis
    using get_project_reachable [OF h, of accept_all sample_now accepting_server Empty_body empty_world] g
    by blast
qed

text \<open>
  Claim C10. For a well-formed id that no stored project has (for example
  \<open>nonexistent\<close>), \<open>GET /api/v1/projects/{id}\<close> answers 404 with the detail
  \<open>Project not found\<close> and has no other effect.
\<close>

theorem get_project_unknown_404:
  assumes "get_by_id (repository (projects_uc st)) i = None"
    and "i \<noteq> []" "CHR ''/'' \<notin> set i" "i \<noteq> ''featured''"
  shows "handle_request st V now srv
           \<lparr>req_method = GET, req_path = ''/api/v1/projects/'' @ i, req_body = b\<rparr> w
         = (http_exception 404 ''Project not found'', w)"
proof -
  have "resolve GET (''/api/v1/projects/'' @ i) = To_endpoint Ep_project [i]"
    using assms(2-4) by (rule resolve_project_id)
  from handle_request_resolved [OF this] assms(1) show ?thesis
    by (simp add: run_endpoint_def get_project_route_def get_project_by_id_def)
qed

theorem get_project_unknown_404_witness:
  "handle_request sample_state accept_all sample_now accepting_server
     \<lparr>req_method = GET, req_path = ''/api/v1/projects/'' @ ''nonexistent'', req_body = Empty_body\<rparr> empty_world
   = (http_exception 404 ''Project not found'', empty_world)"
proof (rule get_project_unknown_404)
  show "get_by_id (repository (projects_uc sample_state)) ''nonexistent'' = None"
    by (simp add: sample_state_def get_by_id_def tilted_labs_args_def spacecraft_args_def)
qed simp_all

text \<open>
  Claim C25. \<open>GET /api/v1/projects/featured\<close> always answers 200 with exactly
  the featured projects in store order, whatever the store holds (even a
  project whose id is \<open>featured\<close>).
\<close>

theorem featured_route:
  "handle_request st V now srv \<lparr>req_method = GET, req_path = ''/api/v1/projects/featured'', req_body = b\<rparr> w
     = (Json_response 200 (JArr (map project_json
          (filter featured (get_all (repository (projects_uc st)))))), w)"
  by (simp add: handle_request_resolved resolve_featured run_endpoint_def
      get_featured_projects_route_def get_featured_projects_def get_featured_def get_all_def
      comprehension_filter)


text \<open>
  Claim C26. FastAPI's \<open>APIRoute\<close> takes exactly the methods declared
  (\<open>@router.get\<close> gives GET alone), while the documentation routes the
  \<open>FastAPI\<close> constructor adds are Starlette routes, which add HEAD to GET, and
  \<open>StaticFiles\<close> serves GET and HEAD alike. So a HEAD request to any path of a
  route main.py declares answers 405 with no effect, while a HEAD request to a
  documentation page or under \<open>/static\<close> is answered as the GET request is.
\<close>

theorem head_requests:
  "((\<exists>r\<in>set main_routes. path_params (fst (snd r)) path \<noteq> None) \<longrightarrow>
      handle_request st V now srv \<lparr>req_method = HEAD, req_path = path, req_body = b\<rparr> w =
        (http_exception 405 ''Method Not Allowed'', w))
   \<and> ((\<exists>r\<in>set docs_routes. path_params (fst (snd r)) path \<noteq> None) \<or> static_mount_matches path \<longrightarrow>
      handle_request st V now srv \<lparr>req_method = HEAD, req_path = path, req_body = b\<rparr> w =
      handle_request st V now srv \<lparr>req_method = GET, req_path = path, req_body = b\<rparr> w)"
proof (rule conjI; rule impI)
  assume "\<exists>r\<in>set main_routes. path_params (fst (snd r)) path \<noteq> None"
  then obtain r where r: "r \<in> set main_routes" "path_params (fst (snd r)) path \<noteq> None" by blast
  then have ra: "r \<in> set app_routes" by (simp add: app_routes_def)
  then have ns: "\<not> static_mount_matches path" using r(2) static_no_route by metis
  have "\<forall>d\<in>set docs_routes. path_params (fst (snd d)) path = None"
    using r docs_main_disjoint by fastforce
  then have "first_full HEAD path docs_routes = None" by (rule first_full_no_match)
  moreover have "first_full HEAD path main_routes = None"
    by (rule first_full_no_method) (simp add: main_routes_def)
  ultimately have "first_full HEAD path app_routes = None"
    by (simp add: app_routes_def first_full_append)
  moreover have "path_known path" using ra r(2) by (auto simp: path_known_def)
  ultimately have "resolve HEAD path = Not_allowed" using ns by (simp add: resolve_def)
  then show "handle_request st V now srv \<lparr>req_method = HEAD, req_path = path, req_body = b\<rparr> w =
        (http_exception 405 ''Method Not Allowed'', w)" by (simp add: handle_request_def)
next
  assume "(\<exists>r\<in>set docs_routes. path_params (fst (snd r)) path \<noteq> None) \<or> static_mount_matches path"
  then consider (static) "static_mount_matches path"
    | (docs) r where "r \<in> set docs_routes" "path_params (fst (snd r)) path \<noteq> None" "\<not> static_mount_matches path"
    by blast
  then show "handle_request st V now srv \<lparr>req_method = HEAD, req_path = path, req_body = b\<rparr> w =
      handle_request st V now srv \<lparr>req_method = GET, req_path = path, req_body = b\<rparr> w"
  proof cases
    case static
    then show ?thesis by (simp add: handle_request_def resolve_def static_response_def)
  next
    case docs
    have all: "\<forall>d\<in>set docs_routes. HEAD \<in> set (fst d) \<and> GET \<in> set (fst d)"
      by (simp add: docs_routes_def)
    then have "first_full HEAD path docs_routes = first_full GET path docs_routes"
      by (intro first_full_same_methods) blast
    moreover have "first_full GET path docs_routes \<noteq> None"
      using docs(1,2) all by (intro first_full_matching) blast+
    ultimately have "resolve HEAD path = resolve GET path" and "resolve GET path \<noteq> To_static"
      using docs(3) by (auto simp: resolve_def app_routes_def first_full_append split: option.split)
    then show ?thesis by (cases "resolve GET path") (simp_all add: handle_request_def)
  qed
qed

theorem head_requests_witness:
  "fst (handle_request sample_state accept_all sample_now accepting_server
      \<lparr>req_method = HEAD, req_path = ''/health'', req_body = Empty_body\<rparr> empty_world)
     = http_exception 405 ''Method Not Allowed''
   \<and> fst (handle_request sample_state accept_all sample_now accepting_server
      \<lparr>req_method = HEAD, req_path = ''/docs'', req_body = Empty_body\<rparr> empty_world)
     = Docs_response Swagger_ui"
proof -
  have h: "\<exists>r\<in>set main_routes. path_params (fst (snd r)) ''/health'' \<noteq> None"
    by (simp add: main_routes_def path_params_def path_segments_def)
  have d: "(\<exists>r\<in>set docs_routes. path_params (fst (snd r)) ''/docs'' \<noteq> None)
      \<or> static_mount_matches ''/docs''"
    by (simp add: docs_routes_def path_params_def path_segments_def)
  have g: "fst (handle_request sample_state accept_all sample_now accepting_server
      \<lparr>req_method = GET, req_path = ''/docs'', req_body = Empty_body\<rparr> empty_world) = Docs_response Swagger_ui"
    by (simp add: handle_request_def resolve_def static_mount_matches_def route_table_defs
        path_params_def path_segments_def run_endpoint_def)
  have "fst (handle_request sample_state accept_all sample_now accepting_server
      \<lparr>req_method = HEAD, req_path = ''/health'', req_body = Empty_body\<rparr> empty_world)
     = http_exception 405 ''Method Not Allowed''"
    using head_requests [where path = "''/health''" and st = sample_state and V = accept_all
        and now = sample_now and srv = accepting_server and b = Empty_body and w = empty_world] h
    by simp
  moreover have "fst (handle_request sample_state accept_all sample_now accepting_server
      \<lparr>req_method = HEAD, req_path = ''/docs'', req_body = Empty_body\<rparr> empty_world) = Docs_response Swagger_ui"
  proof -
    have "handle_request sample_state accept_all sample_now accepting_server
        \<lparr>req_method = HEAD, req_path = ''/docs'', req_body = Empty_body\<rparr> empty_world
      = handle_request sample_state accept_all sample_now accepting_server
        \<lparr>req_method = GET, req_path = ''/docs'', req_body = Empty_body\<rparr> empty_world"
      using conjunct2 [OF head_requests [where path = "''/docs''" and st = sample_state
          and V = accept_all and now = sample_now and srv = accepting_server and b = Empty_body
          and w = empty_world]] d by (rule mp)
    with g show ?thesis by simp
  qed
  ultimately show ?thesis by blast
qed

text \<open>
  Claim C27. Starlette's router, finding no route for a path, strips all its
  trailing slashes (or appends one) and redirects with 307 when a route then
  matches. For every parameterless route of the application other than the
  root, its path followed by any number of slashes is redirected to the path,
  whatever the method; the root path followed by slashes is stripped to the
  empty path, which nothing matches, and answers 404.
\<close>

theorem trailing_slash_redirect:
  "((ms, map Lit segs, ep) \<in> set app_routes \<and> segs \<noteq> [[]] \<and> 0 < n \<longrightarrow>
      handle_request st V now srv
        \<lparr>req_method = m, req_path = CHR ''/'' # py_join CHR ''/'' segs @ replicate n CHR ''/'', req_body = b\<rparr> w
      = (Redirect_response (CHR ''/'' # py_join CHR ''/'' segs), w))
   \<and> (0 < n \<longrightarrow>
      handle_request st V now srv \<lparr>req_method = m, req_path = CHR ''/'' # replicate n CHR ''/'', req_body = b\<rparr> w
      = (http_exception 404 ''Not Found'', w))"
proof (rule conjI; rule impI)
  let ?p = "CHR ''/'' # py_join CHR ''/'' segs"
  let ?q = "CHR ''/'' # py_join CHR ''/'' segs @ replicate n CHR ''/''"
  assume h: "(ms, map Lit segs, ep) \<in> set app_routes \<and> segs \<noteq> [[]] \<and> 0 < n"
  then have r: "(ms, map Lit segs, ep) \<in> set app_routes" and n: "0 < n" and nr: "segs \<noteq> [[]]" by simp_all
  have sh: "segs \<noteq> [] \<and> (\<forall>s\<in>set segs. CHR ''/'' \<notin> set s) \<and> last segs \<noteq> [] \<and> hd segs \<noteq> ''static''"
    using literal_route_shape [OF r] nr by blast
  then have sp: "py_split CHR ''/'' (py_join CHR ''/'' segs) = segs" by (blast intro: py_split_join)
  have qs: "path_segments ?q = Some (segs @ replicate n [])"
    using sp by (simp add: path_segments_def py_split_replicate_sep)
  have "\<not> path_known ?q"
  proof (rule trailing_empty_unknown [OF qs])
    show "2 \<le> length (segs @ replicate n [])" using sh n by (cases segs) auto
    show "last (segs @ replicate n []) = []" using n by simp
    show "hd (segs @ replicate n []) \<noteq> ''static''" using sh by (cases segs) auto
  qed
  then have ns: "\<not> static_mount_matches ?q" and ff: "first_full m ?q app_routes = None"
    by (auto simp: path_known_def intro: first_full_no_match)
  have "rstrip_slash ?q = ?p"
    using rstrip_slash_replicate [of ?p n] rstrip_slash_id [of ?p] literal_route_last [OF r nr] by simp
  moreover have "?q \<noteq> [] \<and> last ?q = CHR ''/''" using n by (cases n) simp_all
  ultimately have "redirect_path ?q = ?p" by (simp add: redirect_path_def)
  moreover have "path_known ?p"
    using literal_route_path [OF r] r by (force simp: path_known_def path_params_def)
  moreover have "?q \<noteq> ''/''" using n by (cases n) simp_all
  ultimately have "resolve m ?q = Redirect ?p"
    using ns ff \<open>\<not> path_known ?q\<close> by (simp add: resolve_def)
  then show "handle_request st V now srv \<lparr>req_method = m, req_path = ?q, req_body = b\<rparr> w
      = (Redirect_response ?p, w)" by (simp add: handle_request_def)
next
  let ?q = "CHR ''/'' # replicate n CHR ''/''"
  assume n: "0 < n"
  have qs: "path_segments ?q = Some ([[]] @ replicate n [])"
    using py_split_replicate_sep [of "CHR ''/''" "[]" n] by (simp add: path_segments_def)
  have "\<not> path_known ?q"
    by (rule trailing_empty_unknown [OF qs]) (use n in auto)
  then have ns: "\<not> static_mount_matches ?q" and ff: "first_full m ?q app_routes = None"
    by (auto simp: path_known_def intro: first_full_no_match)
  have "redirect_path ?q = []"
    using rstrip_slash_replicate [of "[]" "Suc n"] by (simp add: redirect_path_def rstrip_slash_def)
  moreover have "\<not> path_known []"
    by (simp add: path_known_def path_params_def path_segments_def static_mount_matches_def)
  ultimately have "resolve m ?q = Not_found"
    using ns ff \<open>\<not> path_known ?q\<close> by (simp add: resolve_def)
  then show "handle_request st V now srv \<lparr>req_method = m, req_path = ?q, req_body = b\<rparr> w
      = (http_exception 404 ''Not Found'', w)" by (simp add: handle_request_def)
qed

theorem trailing_slash_redirect_witness:
  "fst (handle_request sample_state accept_all sample_now accepting_server
      \<lparr>req_method = GET, req_path = ''/health//'', req_body = Empty_body\<rparr> empty_world)
     = Redirect_response ''/health''
   \<and> fst (handle_request sample_state accept_all sample_now accepting_server
      \<lparr>req_method = GET, req_path = ''///'', req_body = Empty_body\<rparr> empty_world)
     = http_exception 404 ''Not Found''"
proof -
  have r: "([GET], map Lit [''health''], Ep_health) \<in> set app_routes" by (simp add: route_table_defs)
  have "fst (handle_request sample_state accept_all sample_now accepting_server
      \<lparr>req_method = GET, req_path = CHR ''/'' # py_join CHR ''/'' [''health''] @ replicate 2 CHR ''/'',
       req_body = Empty_body\<rparr> empty_world) = Redirect_response (CHR ''/'' # py_join CHR ''/'' [''health''])
   \<and> fst (handle_request sample_state accept_all sample_now accepting_server
      \<lparr>req_method = GET, req_path = CHR ''/'' # replicate 2 CHR ''/'', req_body = Empty_body\<rparr> empty_world)
     = http_exception 404 ''Not Found''"
    using trailing_slash_redirect [where ms = "[GET]" and segs = "[''health'']" and ep = Ep_health
        and n = 2 and st = sample_state and V = accept_all and now = sample_now
        and srv = accepting_server and m = GET and b = Empty_body and w = empty_world] r
    by simp
  then show ?thesis by (simp add: numeral_2_eq_2)
qed

end
