(* ===== verification/Server_Run.thy ===== *)
theory Server_Run
  imports App
begin

text \<open>
  The server over time: uvicorn runs \<open>app\<close> on one event loop, and every
  handler of the repository runs to completion once started, since none of
  them reaches an await point that suspends (the SMTP calls of the email
  service are blocking calls inside an \<open>async def\<close>). A run of the server is
  therefore a sequence of \<open>handle_request\<close> steps, each on the world the
  previous one left; \<open>serves\<close> is the set of worlds such runs reach. The
  theory shows what one request adds to the SMTP log (\<open>session_segment\<close>),
  that only the contact endpoint changes the world, and that the log of any
  run is a sequence of such segments (\<open>log_ok\<close>), from which every accepted
  connection is closed by \<open>QUIT\<close> before the next one opens; and that every
  step only appends to the SMTP log and to stdout (\<open>extends\<close>).
\<close>

subsection \<open>What one request sends\<close>

text \<open>
  The SMTP traffic of one request, given the log before it: nothing, or one
  connection attempt followed by commands that open no connection; when the
  server accepted the connection those commands end with \<open>QUIT\<close>, and when it
  refused it nothing follows.
\<close>

fun session_segment :: "smtp_server \<Rightarrow> smtp_cmd list \<Rightarrow> smtp_cmd list \<Rightarrow> bool" where
  "session_segment srv l [] = True"
| "session_segment srv l (Connect h p # cs) =
     (list_all (\<lambda>x. \<not> is_connect x) cs \<and>
      (if srv l (Connect h p) = None then cs \<noteq> [] \<and> last cs = Quit else cs = []))"
| "session_segment srv l _ = False"

inductive log_ok :: "smtp_server \<Rightarrow> smtp_cmd list \<Rightarrow> bool" for srv where
  log_ok_Nil: "log_ok srv []"
| log_ok_seg: "log_ok srv l \<Longrightarrow> session_segment srv l s \<Longrightarrow> log_ok srv (l @ s)"

inductive serves :: "app_state \<Rightarrow> validators \<Rightarrow> smtp_server \<Rightarrow> world \<Rightarrow> bool"
  for st V srv where
  serves_start: "smtp_log w = [] \<Longrightarrow> serves st V srv w"
| serves_step: "serves st V srv w \<Longrightarrow> serves st V srv (snd (handle_request st V now srv rq w))"


subsection \<open>One request\<close>

lemma smtp_session_refused:
  "srv (smtp_log w) (Connect (smtp_host cfg) (smtp_port cfg)) \<noteq> None \<Longrightarrow>
     smtp_log (snd (smtp_session cfg srv msg w)) = smtp_log w @ [Connect (smtp_host cfg) (smtp_port cfg)]"
  by (auto simp: smtp_session_def smtp_call_def)

lemma smtp_session_segment:
  "\<exists>s. smtp_log (snd (smtp_session cfg srv msg w)) = smtp_log w @ s \<and> session_segment srv (smtp_log w) s"
proof -
  obtain cs where cs: "smtp_log (snd (smtp_session cfg srv msg w)) =
          smtp_log w @ Connect (smtp_host cfg) (smtp_port cfg) # cs"
     "\<forall>x\<in>set cs. \<not> is_connect x"
     "srv (smtp_log w) (Connect (smtp_host cfg) (smtp_port cfg)) = None \<longrightarrow> cs \<noteq> [] \<and> last cs = Quit"
    using smtp_session_log by blast
  have "srv (smtp_log w) (Connect (smtp_host cfg) (smtp_port cfg)) \<noteq> None \<longrightarrow> cs = []"
    using cs(1) smtp_session_refused [of srv w cfg msg] by auto
  with cs show ?thesis by (auto simp: list_all_iff)
qed

lemma send_segment:
  "\<exists>s. smtp_log (snd (send_contact_notification cfg srv c w)) = smtp_log w @ s
       \<and> session_segment srv (smtp_log w) s"
proof (cases "config_complete cfg")
  case False
  then show ?thesis by (auto simp: send_incomplete intro: exI [of _ "[]"])
next
  case True
  show ?thesis
  proof (cases "timestamp c")
    case None
    with True show ?thesis by (auto simp: send_no_timestamp intro: exI [of _ "[]"])
  next
    case (Some t)
    let ?w = "say (settings_lines cfg @ [Log_connecting]) w"
    obtain s where s: "smtp_log (snd (smtp_session cfg srv (build_message cfg c t) ?w)) = smtp_log ?w @ s"
        "session_segment srv (smtp_log ?w) s"
      using smtp_session_segment by blast
    with True Some show ?thesis
      by (auto simp: send_with_timestamp split: prod.splits option.splits)
  qed
qed

lemma contact_endpoint_segment:
  "\<exists>s. smtp_log (snd (contact_endpoint st V now srv b w)) = smtp_log w @ s
       \<and> session_segment srv (smtp_log w) s"
proof (cases "parse_contact_body V now b")
  case (Inl errs)
  then show ?thesis by (auto simp: contact_endpoint_invalid intro: exI [of _ "[]"])
next
  case (Inr c)
  obtain s where s: "smtp_log (snd (send_contact_notification (contact_email st) srv c w)) = smtp_log w @ s"
      "session_segment srv (smtp_log w) s"
    using send_segment by blast
  with Inr show ?thesis
    by (auto simp: contact_endpoint_valid split: prod.splits sum.splits)
qed

lemma run_endpoint_other:
  "ep \<noteq> Ep_submit_contact \<Longrightarrow> snd (run_endpoint st V now srv ep ps b w) = w"
  by (cases ep) (simp_all add: run_endpoint_def)

lemma handle_request_segment:
  "\<exists>s. smtp_log (snd (handle_request st V now srv rq w)) = smtp_log w @ s
       \<and> session_segment srv (smtp_log w) s"
proof (cases "resolve (req_method rq) (req_path rq)")
  case (To_endpoint ep ps)
  show ?thesis
  proof (cases "ep = Ep_submit_contact")
    case True
    with To_endpoint show ?thesis
      using contact_endpoint_segment [of st V now srv "req_body rq" w]
      by (simp add: handle_request_def run_endpoint_def)
  next
    case False
    with To_endpoint show ?thesis
      by (auto simp: handle_request_def run_endpoint_other intro: exI [of _ "[]"])
  qed
qed (auto simp: handle_request_def intro: exI [of _ "[]"])


subsection \<open>Which requests have effects\<close>

lemma seg_match_lits: "seg_match (map Lit xs) ys = Some zs \<Longrightarrow> ys = xs"
proof (induction xs arbitrary: ys zs)
  case Nil
  then show ?case by (cases ys) auto
next
  case (Cons x xs)
  then show ?case by (cases ys) (auto split: if_splits)
qed

lemma path_segments_Some: "path_segments path = Some ps \<Longrightarrow> path = CHR ''/'' # py_join CHR ''/'' ps"
  by (auto simp: path_segments_def split: list.splits if_splits)

lemma first_full_Some:
  "first_full m path rs = Some (ep, ps) \<Longrightarrow>
     \<exists>ms tmpl. (ms, tmpl, ep) \<in> set rs \<and> m \<in> set ms \<and> path_params tmpl path = Some ps"
  by (induction m path rs rule: first_full.induct) (auto split: option.splits if_splits)

lemma resolve_submit_contact:
  assumes "resolve m path = To_endpoint Ep_submit_contact ps"
  shows "m = POST \<and> path = ''/api/v1/contact''"
proof -
  have "first_full m path app_routes = Some (Ep_submit_contact, ps)"
    using assms by (auto simp: resolve_def split: if_splits option.splits)
  then obtain ms tmpl where t: "(ms, tmpl, Ep_submit_contact) \<in> set app_routes" "m \<in> set ms"
      "path_params tmpl path = Some ps"
    using first_full_Some by blast
  then have m: "m = POST" and tm: "tmpl = map Lit [''api'', ''v1'', ''contact'']"
    by (auto simp: route_table_defs api_def)
  obtain ys where "path_segments path = Some ys" "seg_match tmpl ys = Some ps"
    using t(3) by (auto simp: path_params_def split: option.splits)
  then have "path = CHR ''/'' # py_join CHR ''/'' [''api'', ''v1'', ''contact'']"
    using tm seg_match_lits path_segments_Some by blast
  with m show ?thesis by simp
qed

lemma handle_request_other_world:
  "(req_method rq, req_path rq) \<noteq> (POST, ''/api/v1/contact'') \<Longrightarrow>
     snd (handle_request st V now srv rq w) = w"
proof (cases "resolve (req_method rq) (req_path rq)")
  case (To_endpoint ep ps)
  moreover assume "(req_method rq, req_path rq) \<noteq> (POST, ''/api/v1/contact'')"
  ultimately have "ep \<noteq> Ep_submit_contact" using resolve_submit_contact by blast
  with To_endpoint show ?thesis by (simp add: handle_request_def run_endpoint_other)
qed (simp_all add: handle_request_def)

subsection \<open>Effects only grow\<close>

text \<open>A world extends another when both its logs extend the other's.\<close>

definition extends :: "world \<Rightarrow> world \<Rightarrow> bool" where
  "extends w w' \<longleftrightarrow> prefix (smtp_log w) (smtp_log w') \<and> prefix (stdout w) (stdout w')"

lemma extends_refl [intro, simp]: "extends w w"
  by (simp add: extends_def)

lemma extends_trans [trans]: "extends u v \<Longrightarrow> extends v w \<Longrightarrow> extends u w"
  by (auto simp: extends_def intro: prefix_order.trans)

lemma extends_say [intro, simp]: "extends w (say ls w)"
  by (simp add: extends_def)

lemma extends_smtp_call [intro, simp]: "extends w (snd (smtp_call srv c w))"
  by (simp add: extends_def)

lemma extends_run_body: "extends w (snd (run_body srv steps w))"
proof (induction steps arbitrary: w)
  case Nil
  then show ?case by simp
next
  case (Cons st rest)
  obtain l c where st: "st = (l, c)" by fastforce
  have "extends w (snd (smtp_call srv c (say [l] w)))"
    using extends_trans [OF extends_say extends_smtp_call] .
  with Cons.IH [of "snd (smtp_call srv c (say [l] w))"] st show ?case
    by (cases "srv (smtp_log (say [l] w)) c")
       (auto simp: smtp_call_def intro: extends_trans)
qed

lemma extends_smtp_exit [intro, simp]: "extends w (snd (smtp_exit srv p w))"
  by (auto simp: smtp_exit_def smtp_call_def extends_def split: option.splits)

lemma extends_smtp_except [intro, simp]: "extends w (smtp_except e w)"
  by (simp add: smtp_except_def)

lemma extends_smtp_session: "extends w (snd (smtp_session cfg srv msg w))"
proof (cases "srv (smtp_log w) (Connect (smtp_host cfg) (smtp_port cfg))")
  case None
  let ?w1 = "snd (smtp_call srv (Connect (smtp_host cfg) (smtp_port cfg)) w)"
  let ?r = "run_body srv (session_body cfg msg) ?w1"
  have eq: "snd (smtp_session cfg srv msg w) = snd (smtp_exit srv (fst ?r) (snd ?r))"
    using None by (simp add: smtp_session_def smtp_call_def split: prod.split)
  have "extends w ?w1" by (rule extends_smtp_call)
  also have "extends ?w1 (snd ?r)" by (rule extends_run_body)
  also have "extends (snd ?r) (snd (smtp_exit srv (fst ?r) (snd ?r)))" by (rule extends_smtp_exit)
  finally show ?thesis using eq by simp
next
  case (Some e)
  then show ?thesis by (simp add: smtp_session_def smtp_call_def extends_def)
qed

lemma extends_send: "extends w (snd (send_contact_notification cfg srv c w))"
proof (cases "config_complete cfg \<and> timestamp c \<noteq> None")
  case True
  then obtain t where t: "timestamp c = Some t" and cfg: "config_complete cfg" by blast
  let ?w = "say (settings_lines cfg @ [Log_connecting]) w"
  let ?s = "smtp_session cfg srv (build_message cfg c t) ?w"
  have "extends w ?w" by (rule extends_say)
  also have "extends ?w (snd ?s)" by (rule extends_smtp_session)
  also have "extends (snd ?s) (snd (send_contact_notification cfg srv c w))"
    using cfg t by (cases "fst ?s") (auto simp: send_with_timestamp split: prod.split)
  finally show ?thesis .
next
  case False
  then show ?thesis
    by (cases "config_complete cfg") (auto simp: send_incomplete send_no_timestamp)
qed

lemma extends_contact_endpoint: "extends w (snd (contact_endpoint st V now srv b w))"
proof (cases "parse_contact_body V now b")
  case (Inr c)
  let ?r = "send_contact_notification (contact_email st) srv c w"
  have "extends w (snd ?r)" by (rule extends_send)
  also have "extends (snd ?r) (snd (contact_endpoint st V now srv b w))"
    using Inr by (cases "fst ?r") (auto simp: contact_endpoint_valid split: prod.split)
  finally show ?thesis .
qed (simp add: contact_endpoint_invalid)

lemma extends_handle_request: "extends w (snd (handle_request st V now srv rq w))"
  using extends_contact_endpoint [of w st V now srv "req_body rq"]
  by (cases "resolve (req_method rq) (req_path rq)")
     (auto simp: handle_request_def run_endpoint_def split: endpoint.splits)

subsection \<open>Runs\<close>

lemma serves_log_ok: "serves st V srv w \<Longrightarrow> log_ok srv (smtp_log w)"
proof (induction rule: serves.induct)
  case (serves_start w)
  then show ?case by (simp add: log_ok_Nil)
next
  case (serves_step w now rq)
  obtain s where "smtp_log (snd (handle_request st V now srv rq w)) = smtp_log w @ s"
      "session_segment srv (smtp_log w) s"
    using handle_request_segment by blast
  with serves_step.IH show ?case by (simp add: log_ok_seg)
qed

text \<open>The block of a connection: from it to the next connection or the end of the log.\<close>

definition conn_block :: "smtp_cmd list \<Rightarrow> smtp_cmd list \<Rightarrow> bool" where
  "conn_block cs l2 \<longleftrightarrow> (\<forall>x\<in>set cs. \<not> is_connect x) \<and> (l2 = [] \<or> is_connect (hd l2))"

lemma segment_one_connect: "session_segment srv l (us @ Connect h p # r) \<Longrightarrow> us = []"
proof (cases us)
  case (Cons u us')
  then show "session_segment srv l (us @ Connect h p # r) \<Longrightarrow> us = []"
    by (cases u) (auto simp: list_all_iff)
qed simp

lemma segment_hd: "session_segment srv l s \<Longrightarrow> s = [] \<or> is_connect (hd s)"
  by (cases "(srv, l, s)" rule: session_segment.cases) simp_all

lemma segment_closed:
  assumes "session_segment srv l (Connect h p # cs @ l2)" "conn_block cs l2" "srv l (Connect h p) = None"
  shows "cs \<noteq> [] \<and> last cs = Quit"
proof -
  have "\<forall>x\<in>set l2. \<not> is_connect x" using assms(1) by (auto simp: list_all_iff)
  then have "l2 = []" using assms(2) by (cases l2) (auto simp: conn_block_def)
  with assms(1,3) show ?thesis by simp
qed

lemma split_block:
  assumes "us @ s = cs @ l2" "conn_block cs l2" "s = [] \<or> is_connect (hd s)"
  shows "\<exists>vs. us = cs @ vs \<and> conn_block cs vs"
proof -
  obtain vs where "(us = cs @ vs \<and> vs @ s = l2) \<or> (us @ vs = cs \<and> s = vs @ l2)"
    using assms(1) by (auto simp: append_eq_append_conv2)
  then show ?thesis
  proof
    assume a: "us = cs @ vs \<and> vs @ s = l2"
    then have "conn_block cs vs" using assms(2) by (cases vs) (auto simp: conn_block_def)
    with a show ?thesis by blast
  next
    assume a: "us @ vs = cs \<and> s = vs @ l2"
    have "vs = []"
    proof (rule ccontr)
      assume "vs \<noteq> []"
      then have "hd s \<in> set cs" "s \<noteq> []" using a by auto
      with assms(2,3) show False by (auto simp: conn_block_def)
    qed
    with a assms(2) show ?thesis by (auto simp: conn_block_def)
  qed
qed

lemma log_ok_closed:
  assumes "log_ok srv l" "l = l1 @ Connect h p # cs @ l2" "conn_block cs l2"
    "srv l1 (Connect h p) = None"
  shows "cs \<noteq> [] \<and> last cs = Quit"
  using assms
proof (induction arbitrary: l1 cs l2 rule: log_ok.induct)
  case log_ok_Nil
  then show ?case by simp
next
  case (log_ok_seg l s)
  obtain us where
    "(l = l1 @ us \<and> us @ s = Connect h p # cs @ l2) \<or> (l @ us = l1 \<and> s = us @ Connect h p # cs @ l2)"
    using log_ok_seg.prems(1) by (auto simp: append_eq_append_conv2)
  then show ?case
  proof
    assume a: "l = l1 @ us \<and> us @ s = Connect h p # cs @ l2"
    show ?thesis
    proof (cases us)
      case Nil
      with a have "s = Connect h p # cs @ l2" "l = l1" by simp_all
      then have "session_segment srv l1 (Connect h p # cs @ l2)"
        using log_ok_seg.hyps(2) by (simp only:)
      then show ?thesis using log_ok_seg.prems(2,3) by (rule segment_closed)
    next
      case (Cons u us')
      with a have "us' @ s = cs @ l2" by simp
      then obtain vs where "us' = cs @ vs" "conn_block cs vs"
        using split_block log_ok_seg.prems(2) segment_hd [OF log_ok_seg.hyps(2)] by blast
      with a Cons log_ok_seg.IH [of l1 cs vs] log_ok_seg.prems(3) show ?thesis by simp
    qed
  next
    assume a: "l @ us = l1 \<and> s = us @ Connect h p # cs @ l2"
    then have "us = []" using log_ok_seg.hyps(2) segment_one_connect by blast
    with a have "s = Connect h p # cs @ l2" "l = l1" by simp_all
    then have "session_segment srv l1 (Connect h p # cs @ l2)"
      using log_ok_seg.hyps(2) by (simp only:)
    then show ?thesis using log_ok_seg.prems(2,3) by (rule segment_closed)
  qed
qed

end
