(* ===== verification/Cors.thy ===== *)
theory Cors
  imports App
begin

text \<open>
  Starlette's \<open>CORSMiddleware\<close> as main.py configures it: the origins of
  \<open>ALLOWED_ORIGINS\<close>, \<open>allow_credentials=True\<close>, every method and header
  allowed. A request without an \<open>Origin\<close> header passes through unchanged. An
  \<open>OPTIONS\<close> request with \<open>Access-Control-Request-Method\<close> is a preflight,
  answered by the middleware itself without reaching the application: 200
  \<open>OK\<close> when the origin is allowed and the requested method is a standard
  one, otherwise 400 \<open>Disallowed CORS ...\<close> naming the failures. Any other
  request with an origin reaches the application, and its response carries
  \<open>Access-Control-Allow-Origin\<close> set to the origin when the origin is allowed
  (to \<open>*\<close> when every origin is, unless the request has a cookie). The model
  keeps that header only; \<open>Vary\<close> and the other fixed headers are left out.
\<close>

record http_request = request +
  req_origin :: "pystr option"
  req_acr_method :: "pystr option"
  req_has_cookie :: bool

definition ALL_METHODS :: "pystr list" where
  "ALL_METHODS = [''DELETE'', ''GET'', ''HEAD'', ''OPTIONS'', ''PATCH'', ''POST'', ''PUT'']"

definition allow_all_origins :: "pystr list \<Rightarrow> bool" where
  "allow_all_origins origins \<longleftrightarrow> ''*'' \<in> set origins"

definition is_allowed_origin :: "pystr list \<Rightarrow> pystr \<Rightarrow> bool" where
  "is_allowed_origin origins org \<longleftrightarrow> allow_all_origins origins \<or> org \<in> set origins"

fun comma_join :: "pystr list \<Rightarrow> pystr" where
  "comma_join [] = []"
| "comma_join [x] = x"
| "comma_join (x # xs) = x @ '', '' @ comma_join xs"

definition preflight_response :: "pystr list \<Rightarrow> pystr \<Rightarrow> pystr \<Rightarrow> response \<times> pystr option" where
  "preflight_response origins org meth =
     (let failures = (if is_allowed_origin origins org then [] else [''origin''])
                     @ (if meth \<in> set ALL_METHODS then [] else [''method'']);
          acao = (if is_allowed_origin origins org then Some org else None)
      in if failures \<noteq> []
         then (Text_response 400 (''Disallowed CORS '' @ comma_join failures), acao)
         else (Text_response 200 ''OK'', acao))"

definition simple_allow_origin :: "pystr list \<Rightarrow> pystr \<Rightarrow> bool \<Rightarrow> pystr option" where
  "simple_allow_origin origins org has_cookie =
     (if allow_all_origins origins then (if has_cookie then Some org else Some ''*'')
      else if is_allowed_origin origins org then Some org else None)"

definition is_preflight :: "http_request \<Rightarrow> bool" where
  "is_preflight rq \<longleftrightarrow> req_method rq = OPTIONS \<and> req_acr_method rq \<noteq> None"

definition cors_handle ::
  "pystr list \<Rightarrow> app_state \<Rightarrow> validators \<Rightarrow> datetime \<Rightarrow> smtp_server \<Rightarrow> http_request \<Rightarrow> world \<Rightarrow>
   (response \<times> pystr option) \<times> world" where
  "cors_handle origins st V now srv rq w =
     (case req_origin rq of
        None \<Rightarrow> (case handle_request st V now srv (request.truncate rq) w of (r, w') \<Rightarrow> ((r, None), w'))
      | Some org \<Rightarrow>
          if is_preflight rq then (preflight_response origins org (the (req_acr_method rq)), w)
          else (case handle_request st V now srv (request.truncate rq) w of
                  (r, w') \<Rightarrow> ((r, simple_allow_origin origins org (req_has_cookie rq)), w')))"

subsection \<open>Properties\<close>

text \<open>
  Claim C29. The CORS origins are the comma-separated pieces of
  \<open>ALLOWED_ORIGINS\<close> taken verbatim: joining them with commas gives back the
  variable's value (no piece is trimmed or dropped, so \<open>"a, b"\<close> yields the
  origin \<open>" b"\<close>), no piece contains a comma, and the default is the single
  origin \<open>http://localhost:3000\<close>. A preflight for a standard method is
  answered by the middleware without reaching the application, with 200
  exactly when its origin is one of those pieces or a piece is \<open>*\<close>.
\<close>

theorem cors_origins_verbatim:
  "py_join CHR '','' (allowed_origins env) = getenv_default env ''ALLOWED_ORIGINS'' ''http://localhost:3000''
   \<and> (\<forall>org\<in>set (allowed_origins env). CHR '','' \<notin> set org)
   \<and> (env ''ALLOWED_ORIGINS'' = None \<longrightarrow> allowed_origins env = [''http://localhost:3000''])
   \<and> (is_preflight rq \<and> req_origin rq = Some org \<and> the (req_acr_method rq) \<in> set ALL_METHODS \<longrightarrow>
        snd (cors_handle (allowed_origins env) st V now srv rq w) = w
      \<and> (status_of (fst (fst (cors_handle (allowed_origins env) st V now srv rq w))) = 200 \<longleftrightarrow>
           org \<in> set (allowed_origins env) \<or> ''*'' \<in> set (allowed_origins env)))"
  by (auto simp: allowed_origins_def getenv_default_def py_split_no_sep cors_handle_def
      preflight_response_def is_allowed_origin_def allow_all_origins_def Let_def
      dest: py_split_pieces)

theorem cors_origins_verbatim_witness:
  "allowed_origins [''ALLOWED_ORIGINS'' \<mapsto> ''https://a.dev, https://b.dev''] =
     [''https://a.dev'', '' https://b.dev'']
   \<and> status_of (fst (fst (cors_handle (allowed_origins [''ALLOWED_ORIGINS'' \<mapsto> ''https://a.dev, https://b.dev''])
        sample_state accept_all sample_now accepting_server
        \<lparr>req_method = OPTIONS, req_path = ''/api/v1/contact'', req_body = Empty_body,
         req_origin = Some ''https://b.dev'', req_acr_method = Some ''POST'', req_has_cookie = False\<rparr>
        empty_world))) \<noteq> 200"
proof -
  let ?env = "[''ALLOWED_ORIGINS'' \<mapsto> ''https://a.dev, https://b.dev'']"
  let ?rq = "\<lparr>req_method = OPTIONS, req_path = ''/api/v1/contact'', req_body = Empty_body,
         req_origin = Some ''https://b.dev'', req_acr_method = Some ''POST'', req_has_cookie = False\<rparr>"
  have o: "allowed_origins ?env = [''https://a.dev'', '' https://b.dev'']"
    by (simp add: allowed_origins_def getenv_default_def)
  have p: "is_preflight ?rq \<and> req_origin ?rq = Some ''https://b.dev''
      \<and> the (req_acr_method ?rq) \<in> set ALL_METHODS"
    by (simp add: is_preflight_def ALL_METHODS_def)
  have "status_of (fst (fst (cors_handle (allowed_origins ?env) sample_state accept_all sample_now
          accepting_server ?rq empty_world))) = 200 \<longleftrightarrow>
        ''https://b.dev'' \<in> set (allowed_origins ?env) \<or> ''*'' \<in> set (allowed_origins ?env)"
    using cors_origins_verbatim [of ?env ?rq "''https://b.dev''" sample_state accept_all sample_now
        accepting_server empty_world] p by blast
  with o show ?thesis by simp
qed

end
