(* ===== verification/Startup.thy ===== *)
theory Startup
  imports Server_Run Cors
begin

text \<open>
  Start-up and lifespan of the application (main.py). The module first calls
  \<open>load_dotenv()\<close>, which copies the bindings of \<open>.env\<close> into the process
  environment without overriding a variable already set (a key bound twice in
  the file takes its last value; variable expansion inside values is not
  modelled). Only then does it import the route modules: importing
  routes/contact.py constructs \<open>EmailService()\<close>, which reads the SMTP settings
  and may raise, and importing routes/projects.py constructs
  \<open>ProjectRepository()\<close>, which validates the project data. The module then
  reads \<open>ALLOWED_ORIGINS\<close>. The lifespan hook prints a line, the server then
  answers the requests one after the other (\<open>serve_requests\<close>, the steps of
  \<open>serves\<close>), and the hook prints a line on shutdown.
\<close>

definition load_dotenv :: "environ \<Rightarrow> (pystr \<times> pystr) list \<Rightarrow> environ" where
  "load_dotenv os_env dotenv = map_of (rev dotenv) ++ os_env"

datatype startup_error =
    Import_error pyexc
  | Validation_error "verr list"

definition app_startup ::
  "environ \<Rightarrow> (pystr \<times> pystr) list \<Rightarrow> filesystem \<Rightarrow> startup_error + app_state \<times> pystr list" where
  "app_startup os_env dotenv fs =
     (let env = load_dotenv os_env dotenv
      in case EmailService_init env of
           Inl e \<Rightarrow> Inl (Import_error e)
         | Inr cfg \<Rightarrow>
             (case projects_module of
                Inl errs \<Rightarrow> Inl (Validation_error errs)
              | Inr uc \<Rightarrow> Inr (\<lparr>projects_uc = uc, contact_email = cfg,
                               resume_files = fs\<rparr>, allowed_origins env)))"

fun serve_requests ::
  "pystr list \<Rightarrow> app_state \<Rightarrow> validators \<Rightarrow> smtp_server \<Rightarrow> (datetime \<times> http_request) list \<Rightarrow>
   world \<Rightarrow> (response \<times> pystr option) list \<times> world" where
  "serve_requests origins st V srv [] w = ([], w)"
| "serve_requests origins st V srv ((now, rq) # rqs) w =
     (let (r, w') = cors_handle origins st V now srv rq w;
          (rs, w'') = serve_requests origins st V srv rqs w'
      in (r # rs, w''))"

definition lifespan_run ::
  "pystr list \<Rightarrow> app_state \<Rightarrow> validators \<Rightarrow> smtp_server \<Rightarrow> (datetime \<times> http_request) list \<Rightarrow>
   world \<Rightarrow> (response \<times> pystr option) list \<times> world" where
  "lifespan_run origins st V srv rqs w =
     (case serve_requests origins st V srv rqs (say [Log_startup] w) of
        (rs, w') \<Rightarrow> (rs, say [Log_shutdown] w'))"

subsection \<open>Lemmas\<close>

lemma load_dotenv_precedence:
  "load_dotenv os_env dotenv k = (case os_env k of Some v \<Rightarrow> Some v | None \<Rightarrow> map_of (rev dotenv) k)"
  by (simp add: load_dotenv_def map_add_def split: option.splits)

lemma app_startup_Inr:
  assumes "EmailService_init (load_dotenv os_env dotenv) = Inr cfg"
  shows "\<exists>r. ProjectRepository_init = Inr r \<and>
       app_startup os_env dotenv fs = Inr (\<lparr>projects_uc = ProjectUseCase_init r, contact_email = cfg,
         resume_files = fs\<rparr>, allowed_origins (load_dotenv os_env dotenv))"
proof -
  obtain r where r: "ProjectRepository_init = Inr r" using repository_init_value by blast
  have "app_startup os_env dotenv fs = Inr (\<lparr>projects_uc = ProjectUseCase_init r, contact_email = cfg,
         resume_files = fs\<rparr>, allowed_origins (load_dotenv os_env dotenv))"
    unfolding app_startup_def Let_def projects_module_def r using assms by simp
  with r show ?thesis by blast
qed

lemma app_startup_Inl:
  "EmailService_init (load_dotenv os_env dotenv) = Inl e \<Longrightarrow>
     app_startup os_env dotenv fs = Inl (Import_error e)"
  by (simp add: app_startup_def)

text \<open>
  The middleware either answers a preflight itself, leaving the world as it
  is, or passes the request without its CORS headers to the application.
\<close>

lemma cors_handle_world:
  "snd (cors_handle origins st V now srv rq w) = w
   \<or> snd (cors_handle origins st V now srv rq w) = snd (handle_request st V now srv (request.truncate rq) w)"
  by (simp add: cors_handle_def split: option.split prod.split)

lemma serves_cors_step:
  "serves st V srv w \<Longrightarrow> serves st V srv (snd (cors_handle origins st V now srv rq w))"
  using cors_handle_world [of origins st V now srv rq w] serves_step by metis

lemma extends_cors_handle: "extends w (snd (cors_handle origins st V now srv rq w))"
  using cors_handle_world [of origins st V now srv rq w] extends_handle_request extends_refl by metis

lemma serve_requests_Cons [simp]:
  "serve_requests origins st V srv ((now, rq) # rqs) w =
     (fst (cors_handle origins st V now srv rq w) #
        fst (serve_requests origins st V srv rqs (snd (cors_handle origins st V now srv rq w))),
      snd (serve_requests origins st V srv rqs (snd (cors_handle origins st V now srv rq w))))"
  by (simp split: prod.split)

declare serve_requests.simps(2) [simp del]

lemma serve_requests_length: "length (fst (serve_requests origins st V srv rqs w)) = length rqs"
  by (induction rqs arbitrary: w) auto

lemma serve_requests_serves:
  "serves st V srv w \<Longrightarrow> serves st V srv (snd (serve_requests origins st V srv rqs w))"
proof (induction rqs arbitrary: w)
  case Nil
  then show ?case by simp
next
  case (Cons a rqs)
  obtain now rq where a: "a = (now, rq)" by fastforce
  have "serves st V srv (snd (cors_handle origins st V now srv rq w))"
    using Cons.prems by (rule serves_cors_step)
  with Cons.IH a show ?case by simp
qed

lemma extends_serve_requests: "extends w (snd (serve_requests origins st V srv rqs w))"
proof (induction rqs arbitrary: w)
  case Nil
  then show ?case by simp
next
  case (Cons a rqs)
  obtain now rq where a: "a = (now, rq)" by fastforce
  have "extends w (snd (cors_handle origins st V now srv rq w))" by (rule extends_cors_handle)
  with Cons.IH a show ?case by (auto intro: extends_trans)
qed

lemma EmailService_init_Inr_iff:
  "(\<exists>cfg. EmailService_init env = Inr cfg) \<longleftrightarrow> (\<exists>p. py_int (getenv_default env ''SMTP_PORT'' ''587'') = Inr p)"
  by (cases "py_int (getenv_default env ''SMTP_PORT'' ''587'')") (simp_all add: EmailService_init_def)

subsection \<open>Properties\<close>

text \<open>
  Claim C35. Start-up succeeds exactly when \<open>SMTP_PORT\<close>, as the loaded
  environment gives it, is read by \<open>int()\<close>; and because \<open>load_dotenv()\<close> runs
  before the route modules are imported, the contact endpoint's SMTP settings
  and the CORS origins are those of the process environment where it sets
  them and of the last binding in \<open>.env\<close> otherwise.
\<close>

theorem app_startup_config:
  "((\<exists>st orgs. app_startup os_env dotenv fs = Inr (st, orgs)) \<longleftrightarrow>
       (\<exists>p. py_int (getenv_default (load_dotenv os_env dotenv) ''SMTP_PORT'' ''587'') = Inr p))
   \<and> (app_startup os_env dotenv fs = Inr (st, orgs) \<longrightarrow>
       smtp_user (contact_email st) =
         (case os_env ''SMTP_USER'' of Some v \<Rightarrow> Some v | None \<Rightarrow> map_of (rev dotenv) ''SMTP_USER'')
     \<and> smtp_password (contact_email st) =
         (case os_env ''SMTP_PASSWORD'' of Some v \<Rightarrow> Some v | None \<Rightarrow> map_of (rev dotenv) ''SMTP_PASSWORD'')
     \<and> email_to (contact_email st) =
         (case os_env ''EMAIL_TO'' of Some v \<Rightarrow> Some v | None \<Rightarrow> map_of (rev dotenv) ''EMAIL_TO'')
     \<and> orgs = allowed_origins (load_dotenv os_env dotenv)
     \<and> resume_files st = fs)"
proof (intro conjI impI)
  let ?env = "load_dotenv os_env dotenv"
  have iff: "(\<exists>cfg. EmailService_init ?env = Inr cfg) \<longleftrightarrow>
      (\<exists>p. py_int (getenv_default ?env ''SMTP_PORT'' ''587'') = Inr p)"
    by (rule EmailService_init_Inr_iff)
  show "(\<exists>st orgs. app_startup os_env dotenv fs = Inr (st, orgs)) \<longleftrightarrow>
       (\<exists>p. py_int (getenv_default ?env ''SMTP_PORT'' ''587'') = Inr p)"
  proof (cases "EmailService_init ?env")
    case (Inl e)
    have "app_startup os_env dotenv fs = Inl (Import_error e)" using Inl by (rule app_startup_Inl)
    moreover have "\<not> (\<exists>p. py_int (getenv_default ?env ''SMTP_PORT'' ''587'') = Inr p)"
      using iff Inl by simp
    ultimately show ?thesis by simp
  next
    case (Inr cfg)
    obtain r where "app_startup os_env dotenv fs = Inr (\<lparr>projects_uc = ProjectUseCase_init r,
        contact_email = cfg, resume_files = fs\<rparr>, allowed_origins ?env)"
      using app_startup_Inr [OF Inr] by blast
    moreover have "(\<exists>p. py_int (getenv_default ?env ''SMTP_PORT'' ''587'') = Inr p)" using iff Inr by blast
    ultimately show ?thesis by blast
  qed
next
  assume a: "app_startup os_env dotenv fs = Inr (st, orgs)"
  then obtain cfg where cfg: "EmailService_init (load_dotenv os_env dotenv) = Inr cfg"
    by (cases "EmailService_init (load_dotenv os_env dotenv)") (auto simp: app_startup_Inl)
  from app_startup_Inr [OF cfg, of fs] a
  have st: "contact_email st = cfg" "orgs = allowed_origins (load_dotenv os_env dotenv)"
    "resume_files st = fs" by auto
  have c: "smtp_user cfg = load_dotenv os_env dotenv ''SMTP_USER''"
    "smtp_password cfg = load_dotenv os_env dotenv ''SMTP_PASSWORD''"
    "email_to cfg = load_dotenv os_env dotenv ''EMAIL_TO''"
    using cfg by (auto simp: EmailService_init_def split: sum.splits)
  show "smtp_user (contact_email st) =
         (case os_env ''SMTP_USER'' of Some v \<Rightarrow> Some v | None \<Rightarrow> map_of (rev dotenv) ''SMTP_USER'')"
    using st c by (simp add: load_dotenv_precedence)
  show "smtp_password (contact_email st) =
         (case os_env ''SMTP_PASSWORD'' of Some v \<Rightarrow> Some v | None \<Rightarrow> map_of (rev dotenv) ''SMTP_PASSWORD'')"
    using st c by (simp add: load_dotenv_precedence)
  show "email_to (contact_email st) =
         (case os_env ''EMAIL_TO'' of Some v \<Rightarrow> Some v | None \<Rightarrow> map_of (rev dotenv) ''EMAIL_TO'')"
    using st c by (simp add: load_dotenv_precedence)
  show "orgs = allowed_origins (load_dotenv os_env dotenv)" "resume_files st = fs" using st by simp_all
qed

theorem app_startup_config_witness:
  "\<exists>st orgs. app_startup [''SMTP_USER'' \<mapsto> ''ops@example.com'']
       [(''SMTP_USER'', ''dev@example.com''), (''EMAIL_TO'', ''a@example.com''), (''EMAIL_TO'', ''b@example.com'')]
       Map.empty = Inr (st, orgs)
     \<and> smtp_user (contact_email st) = Some ''ops@example.com''
     \<and> email_to (contact_email st) = Some ''b@example.com''"
proof -
  let ?os = "[''SMTP_USER'' \<mapsto> ''ops@example.com'']"
  let ?de = "[(''SMTP_USER'', ''dev@example.com''), (''EMAIL_TO'', ''a@example.com''), (''EMAIL_TO'', ''b@example.com'')]"
  have port: "py_int ''587'' = Inr 587"
    by (simp add: py_int_def py_strip_def py_space_def digits_ok_def is_digit_def digits_value_def)
  have unset: "load_dotenv ?os ?de ''SMTP_PORT'' = None"
    by (simp add: load_dotenv_precedence)
  have ok: "\<exists>p. py_int (getenv_default (load_dotenv ?os ?de) ''SMTP_PORT'' ''587'') = Inr p"
    using port unset by (simp add: getenv_default_def)
  have "\<exists>st orgs. app_startup ?os ?de Map.empty = Inr (st, orgs)"
    using iffD2 [OF conjunct1 [OF app_startup_config [of ?os ?de Map.empty]] ok] .
  then obtain st orgs where s: "app_startup ?os ?de Map.empty = Inr (st, orgs)" by blast
  have c: "smtp_user (contact_email st) =
         (case ?os ''SMTP_USER'' of Some v \<Rightarrow> Some v | None \<Rightarrow> map_of (rev ?de) ''SMTP_USER'')"
    "email_to (contact_email st) =
         (case ?os ''EMAIL_TO'' of Some v \<Rightarrow> Some v | None \<Rightarrow> map_of (rev ?de) ''EMAIL_TO'')"
    using mp [OF conjunct2 [OF app_startup_config [of ?os ?de Map.empty st orgs]] s] by blast+
  have "smtp_user (contact_email st) = Some ''ops@example.com''" using c(1) by simp
  moreover have "email_to (contact_email st) = Some ''b@example.com''" using c(2) by simp
  ultimately show ?thesis using s by blast
qed

end
