(* ===== verification/Smtp_Server.thy ===== *)
theory Smtp_Server
  imports Email_Service
begin

text \<open>
  A reference SMTP server that enforces the order a submission server such as
  Gmail's requires on port 587: a connection is greeted, \<open>STARTTLS\<close> secures
  it, \<open>AUTH\<close> is offered only on a secured connection and succeeds for the
  credentials the server accepts, and a message is accepted only from an
  authenticated client; \<open>QUIT\<close> closes the connection. The server is a
  transition function on its phase, run over the command history the way an
  automaton runs over a word; each command answers the exception smtplib
  raises for the server's reply (\<open>SMTPNotSupportedError\<close>, a subclass of
  \<open>SMTPException\<close>, when \<open>STARTTLS\<close> or \<open>AUTH\<close> is not offered;
  \<open>SMTPAuthenticationError\<close> for rejected credentials; \<open>SMTPSenderRefused\<close>,
  an \<open>SMTPResponseException\<close>, for a message before authentication). Network
  failures are not part of this server.
\<close>

datatype smtp_phase = Closed | Greeted | Secured | Authenticated

definition starttls_unsupported :: pyexc where
  "starttls_unsupported = PyExc SMTPException ''STARTTLS extension not supported by server.''"

definition auth_unsupported :: pyexc where
  "auth_unsupported = PyExc SMTPException ''SMTP AUTH extension not supported by server.''"

definition auth_rejected :: pyexc where
  "auth_rejected = PyExc SMTPAuthenticationError ''(535, Username and Password not accepted)''"

definition auth_required :: pyexc where
  "auth_required = PyExc SMTPResponseException ''(530, Authentication Required)''"

fun srv_step :: "(pystr \<Rightarrow> pystr \<Rightarrow> bool) \<Rightarrow> smtp_phase \<Rightarrow> smtp_cmd \<Rightarrow> smtp_phase \<times> pyexc option" where
  "srv_step ok ph (Connect h p) = (Greeted, None)"
| "srv_step ok ph Starttls =
     (if ph = Greeted then (Secured, None) else (ph, Some starttls_unsupported))"
| "srv_step ok ph (Login u pw) =
     (if ph = Secured then (if ok u pw then (Authenticated, None) else (Secured, Some auth_rejected))
      else (ph, Some auth_unsupported))"
| "srv_step ok ph (Send_message m) =
     (if ph = Authenticated then (ph, None) else (ph, Some auth_required))"
| "srv_step ok ph Quit = (Closed, None)"

definition replay :: "(pystr \<Rightarrow> pystr \<Rightarrow> bool) \<Rightarrow> smtp_cmd list \<Rightarrow> smtp_phase" where
  "replay ok h = foldl (\<lambda>ph c. fst (srv_step ok ph c)) Closed h"

definition conforming_server :: "(pystr \<Rightarrow> pystr \<Rightarrow> bool) \<Rightarrow> smtp_server" where
  "conforming_server ok h c = snd (srv_step ok (replay ok h) c)"

subsection \<open>Lemmas\<close>

lemma replay_append [simp]:
  "replay ok (h @ cs) = foldl (\<lambda>ph c. fst (srv_step ok ph c)) (replay ok h) cs"
  by (simp add: replay_def)

subsection \<open>Properties\<close>

text \<open>
  Claim C9. The email service follows the order a conforming submission
  server enforces: against such a server, a complete configuration and a
  timestamped message give exactly CONNECT, STARTTLS, LOGIN, the message and
  QUIT, and the send succeeds when the server accepts the credentials;
  when it rejects them, the authentication error is raised after QUIT and no
  message is sent.
\<close>

theorem send_conforming_server:
  assumes "config_complete cfg" "timestamp c = Some t"
  shows "(ok (the (smtp_user cfg)) (the (smtp_password cfg)) \<longrightarrow>
       fst (send_contact_notification cfg (conforming_server ok) c w) = Inr ()
     \<and> smtp_log (snd (send_contact_notification cfg (conforming_server ok) c w)) =
         smtp_log w @ [Connect (smtp_host cfg) (smtp_port cfg), Starttls,
           Login (the (smtp_user cfg)) (the (smtp_password cfg)),
           Send_message (build_message cfg c t), Quit])
   \<and> (\<not> ok (the (smtp_user cfg)) (the (smtp_password cfg)) \<longrightarrow>
       fst (send_contact_notification cfg (conforming_server ok) c w) = Inl auth_rejected
     \<and> smtp_log (snd (send_contact_notification cfg (conforming_server ok) c w)) =
         smtp_log w @ [Connect (smtp_host cfg) (smtp_port cfg), Starttls,
           Login (the (smtp_user cfg)) (the (smtp_password cfg)), Quit])"
  using assms
  by (simp add: send_with_timestamp smtp_session_def smtp_exit_def smtp_call_def session_body_def
      conforming_server_def auth_rejected_def smtp_except_def)

theorem send_conforming_server_witness:
  "fst (send_contact_notification sample_config
          (conforming_server (\<lambda>u pw. u = ''owner@example.com'' \<and> pw = ''app-password''))
          sample_contact empty_world) = Inr ()
   \<and> fst (send_contact_notification sample_config (conforming_server (\<lambda>u pw. False))
          sample_contact empty_world) = Inl auth_rejected"
proof -
  have cfg: "config_complete sample_config" by (simp add: config_complete_def sample_config_def)
  have ts: "timestamp sample_contact = Some sample_now" by (simp add: sample_contact_def)
  have u: "(\<lambda>u pw. u = ''owner@example.com'' \<and> pw = ''app-password'')
             (the (smtp_user sample_config)) (the (smtp_password sample_config))"
    by (simp add: sample_config_def)
  have "fst (send_contact_notification sample_config
          (conforming_server (\<lambda>u pw. u = ''owner@example.com'' \<and> pw = ''app-password''))
          sample_contact empty_world) = Inr ()"
    using send_conforming_server [OF cfg ts,
        of "\<lambda>u pw. u = ''owner@example.com'' \<and> pw = ''app-password''" empty_world] u by blast
  moreover have "fst (send_contact_notification sample_config (conforming_server (\<lambda>u pw. False))
          sample_contact empty_world) = Inl auth_rejected"
    using send_conforming_server [OF cfg ts, of "\<lambda>u pw. False" empty_world] by simp
  ultimately show ?thesis by blast
qed

end
