(* ===== verification/Spec2Isabelle.thy ===== *)
theory Spec2Isabelle
  imports Startup Cors Smtp_Server
begin

text \<open>
  Verification development of the portfolio backend under src/backend, a
  FastAPI application in three layers: the API boundary (route modules under
  presentation/api/routes and main.py), use cases (application/use_cases), and
  infrastructure (the in-memory project repository and the SMTP email
  service), over two pydantic entities (domain/entities). Each request is
  handled on its own; the only state the handlers share is the read-only
  project list, the email configuration and the served resume file, all fixed
  at start-up, while the effects of a request (the SMTP commands it issues and
  the lines it prints) are recorded in a \<open>world\<close> value threaded through it.

  \<^bold>\<open>Theories and what they model.\<close>
  \<^item> Prelude: Python strings, truthiness, \<open>str.split\<close>/\<open>str.join\<close> with their
    round trip, sublists of concatenations, the \<open>model_simps\<close> collection.
  \<^item> Entities: the \<open>Project\<close> record (project.py) and pydantic's \<open>HttpUrl\<close>
    validation and normalisation, and pydantic's error kinds.
  \<^item> Project_Repository: \<open>ProjectRepository\<close> (project_repository.py): the two
    projects verbatim, \<open>_initialize_projects\<close> with validation, \<open>get_all\<close>,
    \<open>get_by_id\<close> (linear scan \<open>scan_by_id\<close>), \<open>get_featured\<close>; the abstract
    map \<open>repo_map\<close> and the invariant \<open>ids_unique\<close>.
  \<^item> Project_Use_Case: the pass-through \<open>ProjectUseCase\<close>.
  \<^item> Contact: \<open>ContactMessage\<close> (contact.py): the constructor that defaults the
    timestamp to \<open>datetime.utcnow()\<close> only when the key is absent, and the field
    validation; \<open>EmailStr\<close> and datetime parsing are parameters
    (\<open>validators\<close>), being library code.
  \<^item> Effects: exceptions as values, printed lines, MIME messages, SMTP commands,
    and the \<open>world\<close> (SMTP command log and stdout); an SMTP server is any
    function from the command history and the next command to an optional
    exception.
  \<^item> Email_Service: \<open>EmailService\<close> (email_service.py): configuration from the
    environment (with Python's \<open>int()\<close> written out: whitespace, sign,
    digits with single underscores), the configuration guard, the HTML
    message with \<open>strftime\<close>, the SMTP session with the \<open>with\<close> block's
    \<open>QUIT\<close>, and the three \<open>except\<close> clauses; a reader of the
    \<open>Sent at\<close> stamp at fixed positions serves as the reference for its round
    trip.
  \<^item> Smtp_Server: a reference SMTP server, the peer smtplib talks to, as a
    state machine (\<open>srv_step\<close> over \<open>smtp_phase\<close>) that accepts
    \<open>STARTTLS\<close> only after the greeting, \<open>AUTH\<close> only over TLS and a message
    only after authentication, with the credential check as a parameter; it
    is one instance of the arbitrary server function of Effects.
  \<^item> Contact_Use_Case: \<open>ContactUseCase\<close> (its one field, the email service
    injected by the constructor), over any \<open>notifier\<close> (the interface
    the email service implements).
  \<^item> Http, Resume, Routes, App: JSON and responses; the resume endpoints with
    Python's \<open>round(x, 2)\<close> written out on rationals, and the metadata
    handler's three file-system reads (\<open>exists\<close>, \<open>getsize\<close>,
    \<open>getmtime\<close>) each against its own snapshot, since another process may
    change the file between them; Starlette's plain-text 500 for an uncaught
    exception; the endpoint functions of
    the route modules with the module-level singletons they build
    (\<open>projects_module\<close>, \<open>contact_use_case_of\<close>); FastAPI's reading of
    the request body (\<open>request_body\<close>: empty, undecodable, or JSON); the
    route table as the application holds it, the four documentation routes
    the \<open>FastAPI\<close> constructor adds (\<open>docs_routes\<close>, GET and HEAD) followed
    by the routes main.py declares (\<open>main_routes\<close>, exactly the declared
    method), and Starlette's \<open>Router.app\<close>: the first route whose path and
    method match, 405 when only the path matches, otherwise a 307 redirect to
    the path with its trailing slashes stripped (\<open>rstrip_slash\<close>) or one
    appended when some route then matches, otherwise 404; the root and health
    endpoints, and the CORS origin list.
  \<^item> Server_Run: the server over time. Every handler runs to completion once
    started (none reaches an await point that suspends; the SMTP calls block
    the event loop), so a run is a sequence of \<open>handle_request\<close> steps;
    \<open>serves\<close> is the inductive set of worlds such runs reach,
    \<open>session_segment\<close> what one request adds to the SMTP log, and \<open>log_ok\<close>
    the logs made of such segments.
    \<open>extends\<close> says that a step only appends to both logs.
  \<^item> Startup: main.py's module sequence (\<open>load_dotenv\<close>, which never overrides
    a variable already set and takes the last binding of \<open>.env\<close>; then the
    imports that construct \<open>EmailService()\<close> and \<open>ProjectRepository()\<close>;
    then the CORS origins) as \<open>app_startup\<close>, and the lifespan hook around
    the requests as \<open>lifespan_run\<close> over \<open>serve_requests\<close>, which
    passes each request through the CORS middleware (\<open>cors_handle\<close>)
    before the router; \<open>serve_requests_serves\<close> connects a run to
    \<open>serves\<close>.
  \<^item> Static_Files: the \<open>/static\<close> mount (Starlette's \<open>StaticFiles\<close>):
    the URL path normalised like \<open>os.path.normpath\<close>, resolved under
    \<open>static\<close>, refused when it leaves the directory, GET and HEAD
    answered alike; \<open>handle_request\<close> answers mount requests with it.
  \<^item> Cors: Starlette's \<open>CORSMiddleware\<close> as main.py configures it, over a
    request record that adds the \<open>Origin\<close>, \<open>Access-Control-Request-Method\<close>
    and cookie headers: preflights answered by the middleware, the
    \<open>Access-Control-Allow-Origin\<close> header on the other responses.

  \<^bold>\<open>What the lemmas show.\<close> Lookup by id returns a stored project with that id
  and reports absence exactly for unknown ids; the featured list is the
  order-preserving filter; the start-up data validates and keeps ids unique;
  contact validation is sound and complete for the length bounds; the email
  service, against the reference server, delivers the message after
  \<open>STARTTLS\<close> and \<open>LOGIN\<close> or fails with the server's 535; it
  skips without any SMTP traffic when the configuration is incomplete,
  makes exactly one connection attempt otherwise, always quits an opened
  connection, issues its commands in order, and fails only by re-raising what
  smtplib raised; the use case maps every failure to the same error result;
  the \<open>Sent at\<close> stamp has 23 characters and reads back the date and time
  it prints while dropping the UTC offset; \<open>SMTP_PORT\<close> reads back any
  decimal numeral and an empty value stops the import with \<open>ValueError\<close>;
  the resume metadata handler reports the size within 0.005 KiB and answers
  500 exactly when the file vanishes between its reads;
  the end-to-end theorems below follow one HTTP request through all layers,
  and the last two follow a whole run: only the contact endpoint has effects,
  and by rule induction over \<open>serves\<close> every accepted SMTP connection of any
  run is closed before the next one; a HEAD request answers 405 on every
  route main.py declares and is served like GET on the documentation pages
  and the static mount; a parameterless route's path followed by slashes is
  redirected to it, and the root followed by slashes answers 404; a contact
  submission without a usable body answers 422 with \<open>missing\<close> or
  \<open>json_invalid\<close>; start-up fails exactly on an unreadable
  \<open>SMTP_PORT\<close> and otherwise configures the service from the process
  environment first and \<open>.env\<close> second.
  No loop of the program is unbounded (every recursion is structural over a
  list or a string, or on the digits of a number), so no fuel is needed.
  Every handler is a total function of its inputs, so the model cannot express
  a request that never finishes; the real SMTP calls have no timeout and a
  stalled server would block the event loop, which is why no claim says that
  the server answers every request. The resume download is also modelled with the
  file system at check time and at sending time, a CORS preflight answers
  200 exactly for the verbatim origin pieces, and the static mount serves
  only files under \<open>static/\<close>, whatever \<open>..\<close> segments the URL holds.

  \<^bold>\<open>Not modelled.\<close> The contents of the documentation pages FastAPI
  generates (\<open>Docs_response\<close> names the page); a stalled SMTP server, and
  failures smtplib or the email package raise locally while sending (such as a
  header that cannot be written), which the server function absorbs and the
  reference server never produces; request bodies with a non-JSON content type;
  the position inside an undecodable body; logging beyond the printed values; the CORS headers
  other than \<open>Access-Control-Allow-Origin\<close>; the static files' bodies and
  headers;
  \<open>os.makedirs\<close> at start-up (the file system holds files, not
  directories); the \<open>.env\<close> parser and variable expansion in its values;
  time, and the latency a blocked event loop causes; smtplib's wire protocol,
  TLS and timeouts (the server is a function of the command history, with the
  reference server of Smtp_Server as one instance); email-validator
  and pydantic's datetime parser (parameters); the full WHATWG URL parser
  (only lower-case http/https URLs without user info); the messages and
  inputs inside 422 error bodies; MIME transfer encoding.
\<close>

definition contact_body :: "pystr \<Rightarrow> request_body" where
  "contact_body m = Json_body (JObj [(''name'', JStr ''Jane Doe''), (''email'', JStr ''jane@example.com''),
     (''subject'', JStr ''Hello''), (''message'', JStr m)])"

definition contact_post :: "request_body \<Rightarrow> request" where
  "contact_post b = \<lparr>req_method = POST, req_path = ''/api/v1/contact'', req_body = b\<rparr>"

lemma parse_sample_body:
  "parse_contact_body accept_all sample_now (contact_body ''I would like to talk.'') = Inr sample_contact"
  by (simp add: parse_contact_body_def contact_body_def body_dict_def ContactMessage_init_def
      validate_contact_def accept_all_def sample_contact_def)

section \<open>End-to-end properties of one request\<close>

text \<open>
  Claim C4. A contact submission whose \<open>message\<close> is shorter than ten
  characters is rejected with 422 and a \<open>string_too_short\<close> error on
  \<open>message\<close>, before the use case runs: no SMTP command is issued and nothing
  is printed.
\<close>

theorem contact_short_message_rejected:
  assumes "b = Json_body (JObj kvs)" "body_dict kvs ''message'' = Some (PStr m)" "length m < 10"
  shows "\<exists>errs. handle_request st V now srv (contact_post b) w = (validation_error_response errs, w)
                \<and> (''message'', String_too_short) \<in> set errs"
proof -
  obtain es where es: "ContactMessage_init V now (body_dict kvs) = Inl es"
      "(''message'', String_too_short) \<in> set es"
    using ContactMessage_init_short_message [where d = "body_dict kvs", OF assms(2,3)] by blast
  then have "parse_contact_body V now b = Inl es"
    using assms(1) by (simp add: parse_contact_body_def)
  with es(2) show ?thesis
    by (auto simp: contact_post_def handle_contact_request contact_endpoint_invalid)
qed

theorem contact_short_message_rejected_witness:
  "\<exists>errs. handle_request sample_state accept_all sample_now accepting_server
            (contact_post (contact_body ''Nine char'')) empty_world
          = (validation_error_response errs, empty_world)
        \<and> (''message'', String_too_short) \<in> set errs"
proof (rule contact_short_message_rejected)
  show "contact_body ''Nine char'' = Json_body (JObj [(''name'', JStr ''Jane Doe''),
     (''email'', JStr ''jane@example.com''), (''subject'', JStr ''Hello''), (''message'', JStr ''Nine char'')])"
    by (simp add: contact_body_def)
  show "body_dict [(''name'', JStr ''Jane Doe''), (''email'', JStr ''jane@example.com''),
     (''subject'', JStr ''Hello''), (''message'', JStr ''Nine char'')] ''message'' = Some (PStr ''Nine char'')"
    by (simp add: body_dict_def)
qed simp


text \<open>
  Claim C6. A valid submission while the SMTP user, password or recipient is
  unset answers 200 with status \<open>success\<close> and issues no SMTP command: the
  deliberate skip.
\<close>

theorem contact_incomplete_config_success:
  assumes "parse_contact_body V now b = Inr c" "\<not> config_complete (contact_email st)"
  shows "\<exists>w'. handle_request st V now srv (contact_post b) w
                = (Json_response 200 (contact_result_json success_result), w')
              \<and> smtp_log w' = smtp_log w"
  using assms
  by (simp add: contact_post_def handle_contact_request contact_endpoint_valid send_incomplete)

theorem contact_incomplete_config_success_witness:
  "\<exists>w'. handle_request (sample_state\<lparr>contact_email := sample_config\<lparr>smtp_user := None\<rparr>\<rparr>)
           accept_all sample_now auth_rejecting_server
           (contact_post (contact_body ''I would like to talk.'')) empty_world
         = (Json_response 200 (contact_result_json success_result), w')
       \<and> smtp_log w' = smtp_log empty_world"
proof (rule contact_incomplete_config_success [OF parse_sample_body])
  show "\<not> config_complete (contact_email (sample_state\<lparr>contact_email := sample_config\<lparr>smtp_user := None\<rparr>\<rparr>))"
    by (simp add: config_complete_def)
qed

text \<open>
  Claim C7. A valid submission whose SMTP login the server rejects answers 500
  with the uniform failure message, after exactly one connection attempt (the
  session \<open>CONNECT\<close>, \<open>STARTTLS\<close>, \<open>LOGIN\<close>, \<open>QUIT\<close>), and the failure is
  printed.
\<close>

theorem contact_auth_rejected:
  assumes "parse_contact_body V now b = Inr c" "config_complete (contact_email st)"
    and "timestamp c = Some t"
    and "\<forall>h. srv h (Connect (smtp_host (contact_email st)) (smtp_port (contact_email st))) = None"
    and "\<forall>h. srv h Starttls = None"
    and "\<forall>h. srv h (Login (the (smtp_user (contact_email st))) (the (smtp_password (contact_email st)))) =
               Some (PyExc SMTPAuthenticationError msg)"
    and "\<forall>h. srv h Quit = None"
  shows "\<exists>w'. handle_request st V now srv (contact_post b) w
                = (http_exception 500 ''Failed to send message. Please try again or email directly.'', w')
              \<and> smtp_log w' = smtp_log w @
                  [Connect (smtp_host (contact_email st)) (smtp_port (contact_email st)), Starttls,
                   Login (the (smtp_user (contact_email st))) (the (smtp_password (contact_email st))), Quit]
              \<and> last (stdout w') = Log_contact_error msg"
  using assms
  by (simp add: contact_post_def handle_contact_request contact_endpoint_valid
      send_auth_failure [OF assms(2,3,4,5,6,7)] error_result_def)

theorem contact_auth_rejected_witness:
  "\<exists>w'. handle_request sample_state accept_all sample_now auth_rejecting_server
           (contact_post (contact_body ''I would like to talk.'')) empty_world
         = (http_exception 500 ''Failed to send message. Please try again or email directly.'', w')
       \<and> smtp_log w' = smtp_log empty_world @
           [Connect ''smtp.gmail.com'' 587, Starttls, Login ''owner@example.com'' ''app-password'', Quit]
       \<and> last (stdout w') = Log_contact_error ''(535, Username and Password not accepted)''"
proof -
  have "\<exists>w'. handle_request sample_state accept_all sample_now auth_rejecting_server
           (contact_post (contact_body ''I would like to talk.'')) empty_world
         = (http_exception 500 ''Failed to send message. Please try again or email directly.'', w')
       \<and> smtp_log w' = smtp_log empty_world @
           [Connect (smtp_host (contact_email sample_state)) (smtp_port (contact_email sample_state)),
            Starttls, Login (the (smtp_user (contact_email sample_state)))
                            (the (smtp_password (contact_email sample_state))), Quit]
       \<and> last (stdout w') = Log_contact_error ''(535, Username and Password not accepted)''"
    by (rule contact_auth_rejected [OF parse_sample_body])
       (simp_all add: sample_state_def sample_config_def config_complete_def sample_contact_def
        auth_rejecting_server_def)
  then show ?thesis by (simp add: sample_state_def sample_config_def)
qed

text \<open>
  Claim C20. A submission that sends \<open>"timestamp": null\<close> keeps a \<open>None\<close>
  timestamp (the constructor only fills in the time when the key is absent);
  with a complete configuration, formatting the message then raises
  \<open>AttributeError\<close>, so the request answers 500 with the failure message
  without any SMTP command, although the input passed validation.
\<close>

theorem contact_null_timestamp_fails:
  assumes "b = Json_body (JObj kvs)" "body_dict kvs ''timestamp'' = Some PNone"
    and "parse_contact_body V now b = Inr c" "config_complete (contact_email st)"
  shows "\<exists>w'. handle_request st V now srv (contact_post b) w
                = (http_exception 500 ''Failed to send message. Please try again or email directly.'', w')
              \<and> smtp_log w' = smtp_log w"
proof -
  have "ContactMessage_init V now (body_dict kvs) = Inr c"
    using assms(1,3) by (simp add: parse_contact_body_def)
  then have "timestamp c = None"
    using ContactMessage_init_null_timestamp [where d = "body_dict kvs", OF assms(2)] by blast
  with assms(3,4) show ?thesis
    by (simp add: contact_post_def handle_contact_request contact_endpoint_valid send_no_timestamp
        error_result_def)
qed

definition null_timestamp_body :: request_body where
  "null_timestamp_body = Json_body (JObj [(''name'', JStr ''Jane Doe''), (''email'', JStr ''jane@example.com''),
     (''subject'', JStr ''Hello''), (''message'', JStr ''I would like to talk.''), (''timestamp'', JNull)])"

theorem contact_null_timestamp_fails_witness:
  "\<exists>w'. handle_request sample_state accept_all sample_now accepting_server
           (contact_post null_timestamp_body) empty_world
         = (http_exception 500 ''Failed to send message. Please try again or email directly.'', w')
       \<and> smtp_log w' = smtp_log empty_world"
proof (rule contact_null_timestamp_fails)
  show "null_timestamp_body = Json_body (JObj [(''name'', JStr ''Jane Doe''), (''email'', JStr ''jane@example.com''),
     (''subject'', JStr ''Hello''), (''message'', JStr ''I would like to talk.''), (''timestamp'', JNull)])"
    by (simp add: null_timestamp_body_def)
  show "body_dict [(''name'', JStr ''Jane Doe''), (''email'', JStr ''jane@example.com''),
     (''subject'', JStr ''Hello''), (''message'', JStr ''I would like to talk.''), (''timestamp'', JNull)]
       ''timestamp'' = Some PNone"
    by (simp add: body_dict_def)
  show "parse_contact_body accept_all sample_now null_timestamp_body = Inr (sample_contact\<lparr>timestamp := None\<rparr>)"
    by (simp add: parse_contact_body_def null_timestamp_body_def body_dict_def ContactMessage_init_def
        validate_contact_def accept_all_def sample_contact_def)
  show "config_complete (contact_email sample_state)"
    by (simp add: sample_state_def sample_config_def config_complete_def)
qed

text \<open>
  Claim C28. No request is ever answered with the generic \<open>An unexpected error
  occurred\<close> 500 of the contact endpoint: the use case catches every exception
  of the email service, so that \<open>except\<close> branch is unreachable.
\<close>

theorem no_unexpected_error_response:
  "fst (handle_request st V now srv rq w) \<noteq> http_exception 500 unexpected_error_detail"
proof -
  have contact: "fst (contact_endpoint st V now srv b w') \<noteq> http_exception 500 unexpected_error_detail"
    for b w'
    by (cases "parse_contact_body V now b")
       (auto simp: contact_endpoint_invalid contact_endpoint_valid validation_error_response_def
         http_exception_def unexpected_error_detail_def error_result_def split: prod.splits sum.splits)
  have endpoint: "fst (run_endpoint st V now srv ep ps b w) \<noteq> http_exception 500 unexpected_error_detail"
    for ep ps b
    using contact
    by (cases ep)
       (auto simp: run_endpoint_def get_all_projects_route_def get_featured_projects_route_def
         get_project_route_def resume_metadata_route_def resume_download_route_def
         download_resume_def http_exception_def split: option.splits)
  show ?thesis
    using endpoint static_response_cases [of "resume_files st" "req_method rq" "req_path rq"]
    by (cases "resolve (req_method rq) (req_path rq)")
       (auto simp: handle_request_def http_exception_def unexpected_error_detail_def)
qed

section \<open>Runs of the server\<close>

text \<open>
  Claim C33. Every request other than \<open>POST /api/v1/contact\<close> leaves the
  world unchanged (no SMTP command, no print), and every request adds to the
  SMTP log one session segment: nothing, or one connection attempt followed by
  commands that open no connection and that end with \<open>QUIT\<close> exactly when the
  server accepted the connection.
\<close>

theorem request_effects:
  "((req_method rq, req_path rq) \<noteq> (POST, ''/api/v1/contact'') \<longrightarrow>
       snd (handle_request st V now srv rq w) = w)
   \<and> (\<exists>s. smtp_log (snd (handle_request st V now srv rq w)) = smtp_log w @ s
          \<and> session_segment srv (smtp_log w) s)"
  using handle_request_other_world handle_request_segment by blast

theorem request_effects_witness:
  "snd (handle_request sample_state accept_all sample_now accepting_server
          \<lparr>req_method = GET, req_path = ''/api/v1/contact'', req_body = Empty_body\<rparr> empty_world) = empty_world"
  using request_effects [of "\<lparr>req_method = GET, req_path = ''/api/v1/contact'', req_body = Empty_body\<rparr>"
      sample_state accept_all sample_now accepting_server empty_world]
  by simp

text \<open>
  Claim C34. In every world a run of the server reaches from an empty SMTP log,
  over any sequence of requests, every connection the SMTP server accepted is
  closed by \<open>QUIT\<close> before the next connection attempt or the end of the log:
  connections never overlap and none is left open.
\<close>

theorem served_connections_closed:
  assumes "serves st V srv w" "smtp_log w = l1 @ Connect h p # cs @ l2"
    "\<forall>x\<in>set cs. \<not> is_connect x" "l2 = [] \<or> is_connect (hd l2)" "srv l1 (Connect h p) = None"
  shows "cs \<noteq> [] \<and> last cs = Quit"
  using log_ok_closed [OF serves_log_ok [OF assms(1)] assms(2)] assms(3-5)
  by (simp add: conn_block_def)

theorem served_connections_closed_witness:
  "\<exists>cs. smtp_log (snd (handle_request sample_state accept_all sample_now accepting_server
            (contact_post (contact_body ''I would like to talk.'')) empty_world))
          = Connect ''smtp.gmail.com'' 587 # cs
        \<and> cs \<noteq> [] \<and> last cs = Quit"
proof -
  let ?w = "snd (handle_request sample_state accept_all sample_now accepting_server
            (contact_post (contact_body ''I would like to talk.'')) empty_world)"
  let ?cs = "[Starttls, Login ''owner@example.com'' ''app-password'',
              Send_message (build_message sample_config sample_contact sample_now), Quit]"
  have run: "serves sample_state accept_all accepting_server ?w"
    by (rule serves_step, rule serves_start) (simp add: empty_world_def)
  have cfg: "config_complete sample_config"
    by (simp add: config_complete_def sample_config_def)
  have ts: "timestamp sample_contact = Some sample_now" by (simp add: sample_contact_def)
  have srv: "\<forall>h cmd. accepting_server h cmd = None" by (simp add: accepting_server_def)
  have log: "smtp_log ?w = [] @ Connect ''smtp.gmail.com'' 587 # ?cs @ []"
    using send_all_accepted [OF cfg ts srv, of empty_world]
    by (simp add: contact_post_def handle_contact_request contact_endpoint_valid [OF parse_sample_body]
        sample_state_def empty_world_def sample_config_def)
  have "?cs \<noteq> [] \<and> last ?cs = Quit"
    by (rule served_connections_closed [OF run log]) (simp_all add: accepting_server_def)
  with log show ?thesis by simp
qed

end
